theory Spec2Isabelle
  imports Main "HOL-Library.Sublist" "HOL-Library.Monad_Syntax" "HOL-Library.Multiset"
begin

section \<open>JavaScript values\<close>

text \<open>
  The parsers work on the values that \<^verbatim>\<open>JSON.parse\<close> returns and on the object
  literals they build themselves. A value is one of the JSON shapes, \<^verbatim>\<open>undefined\<close>
  (what a missing property reads as), or a built-in member that a plain object inherits
  from \<^verbatim>\<open>Object.prototype\<close> and an array from \<^verbatim>\<open>Array.prototype\<close> (what
  \<^verbatim>\<open>table[key]\<close> reads for a key such as \<^verbatim>\<open>constructor\<close>); \<open>Builtin n\<close>
  is the native function named \<open>n\<close>, and the two prototype objects themselves go by
  the names \<^verbatim>\<open>Object.prototype\<close> and \<^verbatim>\<open>Array.prototype\<close>. An object is the
  list of its own properties in insertion order, with distinct keys (\<^verbatim>\<open>JSON.parse\<close>
  keeps the last of two equal keys).

  Numbers are integers: the codes, counts and lengths the parsers inspect (an integer
  too large for a double stands for the double nearest to it). Strings are
  lists of 8-bit characters: the UTF-16 code units below 256, so \<open>length\<close> is
  JavaScript's \<^verbatim>\<open>.length\<close>; text with other code units is outside the model.

  An uncaught \<^verbatim>\<open>TypeError\<close> is the result \<open>None\<close>; every function that can
  throw returns an \<open>option\<close>.
\<close>

datatype jsval =
    Undefined
  | Null
  | Bool bool
  | Num int
  | Str string
  | Arr "jsval list"
  | Obj "(string \<times> jsval) list"
  | Builtin string

fun truthy :: "jsval \<Rightarrow> bool" where
  "truthy Undefined = False"
| "truthy Null = False"
| "truthy (Bool b) = b"
| "truthy (Num n) = (n \<noteq> 0)"
| "truthy (Str s) = (s \<noteq> [])"
| "truthy (Arr xs) = True"
| "truthy (Obj kvs) = True"
| "truthy (Builtin n) = True"

text \<open>\<^verbatim>\<open>a || b\<close> on operands that are already evaluated.\<close>

definition js_or :: "jsval \<Rightarrow> jsval \<Rightarrow> jsval" where
  "js_or a b = (if truthy a then a else b)"

definition nullish :: "jsval \<Rightarrow> bool" where
  "nullish v \<longleftrightarrow> v = Undefined \<or> v = Null"

subsection \<open>Number and value to string\<close>

fun digits :: "nat \<Rightarrow> string" where
  "digits n = (if n < 10 then [''0123456789'' ! n]
               else digits (n div 10) @ [''0123456789'' ! (n mod 10)])"

declare digits.simps [simp del]

text \<open>
  \<^verbatim>\<open>String(x)\<close> for a number. A number is a double: the integer \<open>n\<close> stands for
  the double nearest to it, which has 53 significant bits, ties going to the even
  significand; from \<open>2 ^ 1024\<close> on (and at the tie below it) that is
  \<^verbatim>\<open>Infinity\<close>. An integer below \<open>2 ^ 53\<close> is a double and prints with all its
  digits. A larger double prints as the decimals with the fewest significant digits
  that still round to it (the closest of them, and of two equally close the one with
  the even last digit): with all its digits if these are at most 21, and in exponent
  notation otherwise.
\<close>

function decimal :: "int \<Rightarrow> string" where
  "decimal n = (if n < 10 then [''0123456789'' ! nat n]
                else decimal (n div 10) @ [''0123456789'' ! nat (n mod 10)])"
  by pat_completeness auto

termination
  by (relation "measure nat") auto

declare decimal.simps [simp del]

function bit_length :: "int \<Rightarrow> nat" where
  "bit_length n = (if n \<le> 0 then 0 else Suc (bit_length (n div 2)))"
  by pat_completeness auto

termination
  by (relation "measure nat") auto

declare bit_length.simps [simp del]

text \<open>The double nearest to a non-negative integer; \<open>None\<close> is \<^verbatim>\<open>Infinity\<close>.\<close>

definition nearest_double :: "int \<Rightarrow> int option" where
  "nearest_double n =
     (let u = 2 ^ (bit_length n - 53);
          q = n div u;
          r = n mod u;
          m = (if 2 * r < u \<or> (2 * r = u \<and> even q) then q else q + 1)
      in if m * u < 2 ^ 1024 then Some (m * u) else None)"

text \<open>The multiple of \<open>10 ^ m\<close> closest to the double \<open>x\<close>, if it rounds to \<open>x\<close>.\<close>

definition shortest_at :: "int \<Rightarrow> nat \<Rightarrow> int option" where
  "shortest_at x m =
     (let p = 10 ^ m; a = x div p * p; b = a + p
      in if nearest_double a = Some x \<and> nearest_double b = Some x then
           Some (if x - a < b - x then a else if b - x < x - a then b
                 else if even (a div p) then a else b)
         else if nearest_double a = Some x then Some a
         else if nearest_double b = Some x then Some b
         else None)"

text \<open>The decimal with the fewest significant digits that rounds to the double \<open>x\<close>:
  the first hit when the number of trailing zeros goes down from the most possible.\<close>

definition shortest :: "int \<Rightarrow> int" where
  "shortest x =
     (case List.map_filter (shortest_at x) (rev [0..<length (decimal x)]) of
        c # cs \<Rightarrow> c
      | [] \<Rightarrow> x)"

text \<open>The digits of a decimal without its trailing zeros.\<close>

definition significant :: "string \<Rightarrow> string" where
  "significant d = hd d # rev (dropWhile (\<lambda>c. c = CHR ''0'') (rev (tl d)))"

definition render :: "int \<Rightarrow> string" where
  "render c =
     (let d = decimal c
      in if length d \<le> 21 then d
         else (let s = significant d; e = decimal (int (length d) - 1)
               in if length s = 1 then s @ ''e+'' @ e
                  else hd s # CHR ''.'' # tl s @ ''e+'' @ e))"

definition unsigned_to_string :: "int \<Rightarrow> string" where
  "unsigned_to_string n =
     (case nearest_double n of
        None \<Rightarrow> ''Infinity''
      | Some x \<Rightarrow> if x < 2 ^ 53 then decimal x else render (shortest x))"

definition number_to_string :: "int \<Rightarrow> string" where
  "number_to_string i =
     (if i < 0 then CHR ''-'' # unsigned_to_string (- i) else unsigned_to_string i)"

fun join_with :: "string \<Rightarrow> string list \<Rightarrow> string" where
  "join_with sep [] = []"
| "join_with sep [x] = x"
| "join_with sep (x # y # ys) = x @ sep @ join_with sep (y # ys)"

text \<open>
  The names every plain object inherits from \<^verbatim>\<open>Object.prototype\<close>, and the names
  an array inherits from \<^verbatim>\<open>Array.prototype\<close> (ECMAScript 2023) or, through it,
  from \<^verbatim>\<open>Object.prototype\<close>.
\<close>

definition object_prototype_keys :: "string list" where
  "object_prototype_keys =
     [''constructor'', ''__defineGetter__'', ''__defineSetter__'', ''hasOwnProperty'',
      ''__lookupGetter__'', ''__lookupSetter__'', ''isPrototypeOf'', ''propertyIsEnumerable'',
      ''toString'', ''valueOf'', ''__proto__'', ''toLocaleString'']"

definition array_prototype_keys :: "string list" where
  "array_prototype_keys =
     [''at'', ''concat'', ''copyWithin'', ''entries'', ''every'', ''fill'', ''filter'', ''find'',
      ''findIndex'', ''findLast'', ''findLastIndex'', ''flat'', ''flatMap'', ''forEach'',
      ''includes'', ''indexOf'', ''join'', ''keys'', ''lastIndexOf'', ''map'', ''pop'', ''push'',
      ''reduce'', ''reduceRight'', ''reverse'', ''shift'', ''slice'', ''some'', ''sort'', ''splice'',
      ''toReversed'', ''toSorted'', ''toSpliced'', ''unshift'', ''values'', ''with'']
     @ object_prototype_keys"

text \<open>The member read under an inherited name: \<^verbatim>\<open>constructor\<close> is the function
  \<^verbatim>\<open>Object\<close> or \<^verbatim>\<open>Array\<close>, \<^verbatim>\<open>__proto__\<close> is the prototype object, and
  every other name is a native function of that name.\<close>

definition inherited_member :: "string \<Rightarrow> string \<Rightarrow> jsval" where
  "inherited_member kind k =
     (if k = ''constructor'' then Builtin kind
      else if k = ''__proto__'' then Builtin (kind @ ''.prototype'')
      else Builtin k)"

text \<open>
  \<^verbatim>\<open>String(v)\<close>, as a template literal applies it. An array joins its elements with
  a comma, \<^verbatim>\<open>null\<close> and \<^verbatim>\<open>undefined\<close> elements printing as the empty string.
  A parsed object prints as \<^verbatim>\<open>[object Object]\<close>, unless it has an own property
  \<^verbatim>\<open>toString\<close>: that one is not callable, \<^verbatim>\<open>valueOf\<close> yields no primitive,
  and the conversion throws. A native function prints with its name;
  \<^verbatim>\<open>Object.prototype\<close> prints as an object and \<^verbatim>\<open>Array.prototype\<close> as the
  empty array it is.
\<close>

fun js_to_string :: "jsval \<Rightarrow> string option"
  and js_join_parts :: "jsval list \<Rightarrow> string list option" where
  "js_to_string Undefined = Some ''undefined''"
| "js_to_string Null = Some ''null''"
| "js_to_string (Bool b) = Some (if b then ''true'' else ''false'')"
| "js_to_string (Num n) = Some (number_to_string n)"
| "js_to_string (Str s) = Some s"
| "js_to_string (Arr xs) = map_option (join_with '','') (js_join_parts xs)"
| "js_to_string (Obj kvs) =
     (if ''toString'' \<in> fst ` set kvs then None else Some ''[object Object]'')"
| "js_to_string (Builtin n) =
     Some (if n = ''Object.prototype'' then ''[object Object]''
           else if n = ''Array.prototype'' then ''''
           else ''function '' @ n @ ''() { [native code] }'')"
| "js_join_parts [] = Some []"
| "js_join_parts (x # xs) =
     (case (if x = Undefined \<or> x = Null then Some [] else js_to_string x) of
        None \<Rightarrow> None
      | Some s \<Rightarrow> map_option ((#) s) (js_join_parts xs))"

text \<open>\<^verbatim>\<open>xs.join(sep)\<close> on an array.\<close>

definition js_join :: "string \<Rightarrow> jsval list \<Rightarrow> string option" where
  "js_join sep xs = map_option (join_with sep) (js_join_parts xs)"

subsection \<open>Property access\<close>

text \<open>
  \<^verbatim>\<open>v.k\<close> and \<^verbatim>\<open>v[k]\<close> for a key \<open>k\<close> given as a string. Reading a property of
  \<^verbatim>\<open>null\<close> or \<^verbatim>\<open>undefined\<close> throws. An object yields its own property, else
  the inherited built-in, else \<^verbatim>\<open>undefined\<close>. An array yields its \<^verbatim>\<open>length\<close>,
  its elements at canonical index keys, else the inherited built-in. A string yields its
  \<^verbatim>\<open>length\<close> and its characters. What strings, numbers, booleans and functions
  inherit is not a property here: the parsers read none of the names that
  \<^verbatim>\<open>String.prototype\<close>, \<^verbatim>\<open>Number.prototype\<close>, \<^verbatim>\<open>Boolean.prototype\<close>
  or \<^verbatim>\<open>Function.prototype\<close> define, and a document holds no function.
\<close>

definition index_of_key :: "nat \<Rightarrow> string \<Rightarrow> nat option" where
  "index_of_key n k = find (\<lambda>i. digits i = k) [0..<n]"

fun js_get :: "jsval \<Rightarrow> string \<Rightarrow> jsval option" where
  "js_get Undefined k = None"
| "js_get Null k = None"
| "js_get (Obj kvs) k =
     Some (case map_of kvs k of
             Some v \<Rightarrow> v
           | None \<Rightarrow> if k \<in> set object_prototype_keys then inherited_member ''Object'' k
                     else Undefined)"
| "js_get (Arr xs) k =
     Some (if k = ''length'' then Num (int (length xs))
           else case index_of_key (length xs) k of
                  Some i \<Rightarrow> xs ! i
                | None \<Rightarrow> if k \<in> set array_prototype_keys then inherited_member ''Array'' k
                          else Undefined)"
| "js_get (Str s) k =
     Some (if k = ''length'' then Num (int (length s))
           else case index_of_key (length s) k of Some i \<Rightarrow> Str [s ! i] | None \<Rightarrow> Undefined)"
| "js_get (Bool b) k = Some Undefined"
| "js_get (Num n) k = Some Undefined"
| "js_get (Builtin n) k = Some Undefined"

text \<open>\<^verbatim>\<open>v?.k\<close>: \<^verbatim>\<open>undefined\<close> when \<open>v\<close> is \<^verbatim>\<open>null\<close> or \<^verbatim>\<open>undefined\<close>.\<close>

definition js_opt_get :: "jsval \<Rightarrow> string \<Rightarrow> jsval option" where
  "js_opt_get v k = (if nullish v then Some Undefined else js_get v k)"

text \<open>A chain \<^verbatim>\<open>v.a.b.c\<close>, throwing where a step reads a property of nothing.\<close>

fun js_path :: "jsval \<Rightarrow> string list \<Rightarrow> jsval option" where
  "js_path v [] = Some v"
| "js_path v (k # ks) = (case js_get v k of None \<Rightarrow> None | Some w \<Rightarrow> js_path w ks)"

text \<open>A chain \<^verbatim>\<open>v?.a?.b?.c\<close>.\<close>

fun js_opt_path :: "jsval \<Rightarrow> string list \<Rightarrow> jsval option" where
  "js_opt_path v [] = Some v"
| "js_opt_path v (k # ks) = (case js_opt_get v k of None \<Rightarrow> None | Some w \<Rightarrow> js_opt_path w ks)"

text \<open>\<^verbatim>\<open>table[key]\<close> on an object literal: the key is converted to a string first.\<close>

definition js_lookup :: "(string \<times> jsval) list \<Rightarrow> jsval \<Rightarrow> jsval option" where
  "js_lookup table key = (case js_to_string key of None \<Rightarrow> None | Some k \<Rightarrow> js_get (Obj table) k)"

text \<open>The receiver of a string method: a call on anything else throws.\<close>

fun js_str :: "jsval \<Rightarrow> string option" where
  "js_str (Str s) = Some s"
| "js_str v = None"

text \<open>The receiver of an array method such as \<^verbatim>\<open>map\<close> or \<^verbatim>\<open>forEach\<close>.\<close>

fun js_arr :: "jsval \<Rightarrow> jsval list option" where
  "js_arr (Arr xs) = Some xs"
| "js_arr v = None"

text \<open>
  The chain \<^verbatim>\<open>v && v.a && v.a.b\<close>: its value is the first falsy link, or the last
  link. A truthy value has every property, so the chain itself never throws.
\<close>

fun js_and_path :: "jsval \<Rightarrow> string list \<Rightarrow> jsval option" where
  "js_and_path v [] = Some v"
| "js_and_path v (k # ks) =
     (if truthy v then (case js_get v k of None \<Rightarrow> None | Some w \<Rightarrow> js_and_path w ks)
      else Some v)"

subsection \<open>Strings and numbers\<close>

text \<open>
  \<^verbatim>\<open>s.trim()\<close> removes white space and line terminators at both ends: of the code
  units below 256 these are tab, line feed, vertical tab, form feed, carriage return,
  space and the no-break space. \<^verbatim>\<open>s.replace(/^'|'$/g, '')\<close> removes one single
  quote at the start and one at the end.
\<close>

definition is_space :: "char \<Rightarrow> bool" where
  "is_space c \<longleftrightarrow>
     c \<in> set [CHR 0x09, CHR 0x0A, CHR 0x0B, CHR 0x0C, CHR 0x0D, CHR '' '', CHR 0xA0]"

definition js_trim :: "string \<Rightarrow> string" where
  "js_trim s = rev (dropWhile is_space (rev (dropWhile is_space s)))"

definition strip_quotes :: "string \<Rightarrow> string" where
  "strip_quotes s =
     (let s1 = (case s of [] \<Rightarrow> [] | c # cs \<Rightarrow> if c = CHR 0x27 then cs else s)
      in if s1 \<noteq> [] \<and> last s1 = CHR 0x27 then butlast s1 else s1)"

text \<open>
  \<^verbatim>\<open>v > 0\<close>. The operand is converted by \<^verbatim>\<open>Number\<close>: \<^verbatim>\<open>undefined\<close> is
  \<^verbatim>\<open>NaN\<close>, \<^verbatim>\<open>null\<close> is 0, \<^verbatim>\<open>true\<close> is 1, and anything else goes through
  its string. A string is read by the grammar of numeric string literals, white space
  trimmed: empty is 0; \<^verbatim>\<open>0x\<close>, \<^verbatim>\<open>0o\<close> and \<^verbatim>\<open>0b\<close> introduce unsigned
  hexadecimal, octal and binary digits; otherwise an optional sign is followed by
  \<^verbatim>\<open>Infinity\<close> or by decimal digits with an optional fraction and exponent; every
  other string is \<^verbatim>\<open>NaN\<close>. The comparison asks only whether the number read is
  positive: a literal denoting m times ten to the power e is, unless it is so small
  that it rounds to 0 (at most two to the power -1075, half the least positive number).
\<close>

definition digit_value :: "char \<Rightarrow> int option" where
  "digit_value c = map_of (zip ''0123456789'' [0, 1, 2, 3, 4, 5, 6, 7, 8, 9]) c"

fun int_of_string :: "int \<Rightarrow> string \<Rightarrow> int option" where
  "int_of_string acc [] = Some acc"
| "int_of_string acc (c # cs) =
     (case digit_value c of None \<Rightarrow> None | Some d \<Rightarrow> int_of_string (10 * acc + d) cs)"

definition is_digit :: "char \<Rightarrow> bool" where
  "is_digit c \<longleftrightarrow> c \<in> set ''0123456789''"

text \<open>A non-empty run of digits of the given alphabet with a digit other than 0.\<close>

definition positive_digits :: "string \<Rightarrow> string \<Rightarrow> bool" where
  "positive_digits alphabet s \<longleftrightarrow>
     s \<noteq> [] \<and> list_all (\<lambda>c. c \<in> set alphabet) s \<and> list_ex (\<lambda>c. c \<noteq> CHR ''0'') s"

text \<open>The exponent part: nothing, or \<^verbatim>\<open>e\<close> or \<^verbatim>\<open>E\<close>, an optional sign and digits.\<close>

definition exponent_part :: "string \<Rightarrow> int option" where
  "exponent_part s =
     (case s of
        [] \<Rightarrow> Some 0
      | c # cs \<Rightarrow>
          if c = CHR ''e'' \<or> c = CHR ''E'' then
            (case cs of
               [] \<Rightarrow> None
             | d # ds \<Rightarrow>
                 if d = CHR ''-'' \<and> ds \<noteq> [] then map_option uminus (int_of_string 0 ds)
                 else if d = CHR ''+'' \<and> ds \<noteq> [] then int_of_string 0 ds
                 else int_of_string 0 (d # ds))
          else None)"

definition decimal_positive :: "string \<Rightarrow> bool" where
  "decimal_positive s =
     (let whole = takeWhile is_digit s;
          rest = dropWhile is_digit s;
          fraction = (case rest of
                        [] \<Rightarrow> []
                      | c # cs \<Rightarrow> if c = CHR ''.'' then takeWhile is_digit cs else []);
          tail = (case rest of
                    [] \<Rightarrow> []
                  | c # cs \<Rightarrow> if c = CHR ''.'' then dropWhile is_digit cs else rest)
      in case (int_of_string 0 (whole @ fraction), exponent_part tail) of
           (Some m, Some e) \<Rightarrow>
             whole @ fraction \<noteq> [] \<and> 0 < m \<and>
             (0 \<le> e - int (length fraction) \<or>
              10 ^ nat (int (length fraction) - e) < m * 2 ^ 1075)
         | _ \<Rightarrow> False)"

definition string_positive :: "string \<Rightarrow> bool" where
  "string_positive s =
     (let t = js_trim s
      in if prefix ''0x'' t \<or> prefix ''0X'' t
           then positive_digits ''0123456789abcdefABCDEF'' (drop 2 t)
         else if prefix ''0o'' t \<or> prefix ''0O'' t then positive_digits ''01234567'' (drop 2 t)
         else if prefix ''0b'' t \<or> prefix ''0B'' t then positive_digits ''01'' (drop 2 t)
         else case t of
                [] \<Rightarrow> False
              | c # cs \<Rightarrow>
                  if c = CHR ''-'' then False
                  else (let u = (if c = CHR ''+'' then cs else t)
                        in u = ''Infinity'' \<or> decimal_positive u))"

fun js_gt_zero :: "jsval \<Rightarrow> bool option" where
  "js_gt_zero Undefined = Some False"
| "js_gt_zero Null = Some False"
| "js_gt_zero (Bool b) = Some b"
| "js_gt_zero (Num n) = Some (0 < n)"
| "js_gt_zero v = map_option string_positive (js_to_string v)"

subsection \<open>Basic facts\<close>

lemma digits_nonempty: "digits n \<noteq> []"
  by (subst digits.simps) simp

lemma digits_hd: "hd (digits n) \<in> set ''0123456789''"
proof (induction n rule: digits.induct)
  case (1 n)
  show ?case
  proof (cases "n < 10")
    case True
    then have "n \<in> {0,1,2,3,4,5,6,7,8,9}" by auto
    then show ?thesis by (subst digits.simps) auto
  next
    case False
    with 1 digits_nonempty [of "n div 10"] show ?thesis
      by (subst digits.simps) simp
  qed
qed

text \<open>Printing a number: the first character and the length.\<close>

lemma decimal_nonempty: "decimal n \<noteq> []"
  by (subst decimal.simps) simp

lemma decimal_small: "n < 10 \<Longrightarrow> decimal n = [''0123456789'' ! nat n]"
  by (subst decimal.simps) simp

lemma decimal_large: "10 \<le> n \<Longrightarrow> 2 \<le> length (decimal n)"
  using decimal_nonempty [of "n div 10"]
  by (subst decimal.simps) (cases "decimal (n div 10)"; simp)

lemma decimal_hd: "hd (decimal n) \<in> set ''0123456789''"
proof (induction n rule: decimal.induct)
  case (1 n)
  show ?case
  proof (cases "n < 10")
    case True
    then have "nat n \<in> {0,1,2,3,4,5,6,7,8,9}" by auto
    then show ?thesis by (subst decimal.simps) (use True in auto)
  next
    case False
    with 1 decimal_nonempty [of "n div 10"] show ?thesis
      by (subst decimal.simps) simp
  qed
qed

lemma bit_length_le: "n < 2 ^ k \<Longrightarrow> bit_length n \<le> k"
proof (induction k arbitrary: n)
  case 0
  then show ?case by (subst bit_length.simps) simp
next
  case (Suc k)
  from Suc.prems have "n div 2 < 2 ^ k" by simp
  from Suc.IH [OF this] show ?case by (subst bit_length.simps) simp
qed

lemma bit_length_ge: "0 < n \<Longrightarrow> 2 ^ (bit_length n - 1) \<le> n"
proof (induction n rule: bit_length.induct)
  case (1 n)
  show ?case
  proof (cases "0 < n div 2")
    case False
    with 1(2) have "n = 1" by simp
    then show ?thesis by (simp add: bit_length.simps)
  next
    case True
    with 1 have ih: "2 ^ (bit_length (n div 2) - 1) \<le> n div 2" by simp
    from True have "0 < bit_length (n div 2)" by (subst bit_length.simps) simp
    then have "(2::int) ^ bit_length (n div 2) = 2 * 2 ^ (bit_length (n div 2) - 1)"
      by (cases "bit_length (n div 2)") simp_all
    with ih have "2 ^ bit_length (n div 2) \<le> n" by simp
    with 1(2) show ?thesis by (subst bit_length.simps) simp
  qed
qed

lemma nearest_double_small: "n < 2 ^ 53 \<Longrightarrow> nearest_double n = Some n"
proof -
  assume a: "n < 2 ^ 53"
  from bit_length_le [OF a] have "bit_length n - 53 = 0" by simp
  moreover from a have "n < 2 ^ 1024" by simp
  ultimately show ?thesis by (simp add: nearest_double_def Let_def)
qed

lemma bit_length_gt: "n < 2 ^ bit_length n"
proof (induction n rule: bit_length.induct)
  case (1 n)
  show ?case
  proof (cases "n \<le> 0")
    case True
    then show ?thesis by (subst bit_length.simps) simp
  next
    case False
    with 1 have "n div 2 < 2 ^ bit_length (n div 2)" by simp
    then have "n < 2 * 2 ^ bit_length (n div 2)" by linarith
    with False show ?thesis by (subst bit_length.simps) simp
  qed
qed

lemma nearest_double_lower:
  assumes "nearest_double n = Some x" and "9 \<le> n"
  shows "9 \<le> x"
proof (cases "n < 2 ^ 53")
  case True
  with assms nearest_double_small show ?thesis by simp
next
  case False
  define b where "b = bit_length n"
  define u :: int where "u = 2 ^ (b - 53)"
  have b: "53 < b"
  proof (rule ccontr)
    assume "\<not> 53 < b"
    then have "(2::int) ^ b \<le> 2 ^ 53" by (intro power_increasing) simp_all
    with bit_length_gt [of n] False show False by (simp add: b_def)
  qed
  from assms(2) bit_length_ge [of n] have lo: "2 ^ (b - 1) \<le> n" by (simp add: b_def)
  from b have "b - 1 = 52 + (b - 53)" by simp
  then have "(2::int) ^ (b - 1) = 2 ^ 52 * u" unfolding u_def by (simp only: power_add)
  with lo have m: "2 ^ 52 * u \<le> n" by simp
  have u0: "0 < u" by (simp add: u_def)
  from zdiv_mono1 [OF m u0] u0 have q: "2 ^ 52 \<le> n div u" by simp
  from assms(1) have "x = n div u * u \<or> x = (n div u + 1) * u"
    by (auto simp: nearest_double_def Let_def u_def b_def split: if_splits)
  moreover from q u0 have "2 ^ 52 * 1 \<le> n div u * u" by (intro mult_mono) simp_all
  moreover from q u0 have "2 ^ 52 * 1 \<le> (n div u + 1) * u" by (intro mult_mono) simp_all
  ultimately have "2 ^ 52 \<le> x" by auto
  then show ?thesis by simp
qed

lemma shortest_at_rounds: "shortest_at x m = Some c \<Longrightarrow> nearest_double c = Some x"
  by (auto simp: shortest_at_def Let_def split: if_splits)

lemma shortest_rounds: "shortest x = x \<or> nearest_double (shortest x) = Some x"
proof (cases "List.map_filter (shortest_at x) (rev [0..<length (decimal x)])")
  case Nil
  then show ?thesis by (simp add: shortest_def)
next
  case (Cons c cs)
  then have "c \<in> set (List.map_filter (shortest_at x) (rev [0..<length (decimal x)]))" by simp
  then obtain m where "shortest_at x m = Some c" by (auto simp: map_filter_def)
  from shortest_at_rounds [OF this] Cons show ?thesis by (simp add: shortest_def)
qed

lemma shortest_lower:
  assumes "2 ^ 53 \<le> x"
  shows "10 \<le> shortest x"
proof (rule ccontr)
  assume "\<not> 10 \<le> shortest x"
  then have s: "shortest x < 2 ^ 53" by simp
  from shortest_rounds [of x] nearest_double_small [OF s] assms s show False by auto
qed

lemma render_hd: "hd (render c) = hd (decimal c)"
  by (simp add: render_def Let_def significant_def)

lemma render_length: "10 \<le> c \<Longrightarrow> 2 \<le> length (render c)"
  using decimal_large [of c] by (auto simp: render_def Let_def)

lemma unsigned_hd: "hd (unsigned_to_string n) \<in> set ''0123456789I''"
  using decimal_hd by (auto simp: unsigned_to_string_def render_hd split: option.splits)

lemma unsigned_nonempty: "unsigned_to_string n \<noteq> []"
  using decimal_nonempty by (auto simp: unsigned_to_string_def render_def Let_def split: option.splits)

lemma unsigned_large:
  assumes "9 \<le> n"
  shows "unsigned_to_string n = ''9'' \<or> 2 \<le> length (unsigned_to_string n)"
proof (cases "nearest_double n")
  case None
  then show ?thesis by (simp add: unsigned_to_string_def)
next
  case (Some x)
  from nearest_double_lower [OF Some assms] have x: "9 \<le> x" .
  show ?thesis
  proof (cases "x < 2 ^ 53")
    case True
    show ?thesis
    proof (cases "x = 9")
      case True
      with Some show ?thesis by (simp add: unsigned_to_string_def decimal_small)
    next
      case False
      with x have "10 \<le> x" by simp
      from decimal_large [OF this] Some True show ?thesis by (simp add: unsigned_to_string_def)
    qed
  next
    case False
    then have "2 ^ 53 \<le> x" by simp
    from render_length [OF shortest_lower [OF this]] Some False show ?thesis
      by (simp add: unsigned_to_string_def)
  qed
qed

lemma number_key_not_prototype: "number_to_string c \<notin> set object_prototype_keys"
proof
  assume a: "number_to_string c \<in> set object_prototype_keys"
  then have "hd (number_to_string c) \<in> {CHR ''c'', CHR ''_'', CHR ''h'', CHR ''i'', CHR ''p'', CHR ''t'', CHR ''v''}"
    by (auto simp: object_prototype_keys_def)
  moreover have "hd (number_to_string c) \<in> set ''0123456789I-''"
    using unsigned_hd [of c] by (auto simp: number_to_string_def)
  ultimately show False by auto
qed

lemma number_key_zero: "number_to_string 0 = ''0''"
  by (simp add: number_to_string_def unsigned_to_string_def nearest_double_small decimal_small)

lemma number_to_string_one: "number_to_string 1 = ''1''"
  by (simp add: number_to_string_def unsigned_to_string_def nearest_double_small decimal_small)

lemma number_to_string_ten: "number_to_string 10 = ''10''"
  by (simp add: number_to_string_def unsigned_to_string_def nearest_double_small decimal.simps)

lemma number_key_unmapped:
  assumes "c < 0 \<or> 8 < c"
  shows "number_to_string c \<notin> set [''0'', ''1'', ''2'', ''3'', ''4'', ''5'', ''6'', ''7'', ''8'']"
proof (cases "c < 0")
  case True
  then show ?thesis by (simp add: number_to_string_def)
next
  case False
  with assms have "9 \<le> c" by simp
  from unsigned_large [OF this] False show ?thesis
    by (auto simp: number_to_string_def)
qed

lemma size_inherited_member [simp]: "size (inherited_member kind k) = 0"
  by (simp add: inherited_member_def)

lemma truthy_inherited_member [simp]: "truthy (inherited_member kind k)"
  by (simp add: inherited_member_def)

lemma truthy_not_nullish: "truthy v \<Longrightarrow> \<not> nullish v"
  by (cases v) (simp_all add: nullish_def)

lemma js_get_total: "\<not> nullish v \<Longrightarrow> \<exists>w. js_get v k = Some w"
  by (cases v) (simp_all add: nullish_def)

lemma js_get_truthy: "truthy v \<Longrightarrow> \<exists>w. js_get v k = Some w"
  by (simp add: js_get_total truthy_not_nullish)

lemma js_get_Some_not_nullish: "js_get v k = Some w \<Longrightarrow> \<not> nullish v"
  by (cases v) (simp_all add: nullish_def)

lemma js_opt_get_total: "\<exists>w. js_opt_get v k = Some w"
  by (cases v) (simp_all add: js_opt_get_def nullish_def)

lemma js_opt_path_total: "\<exists>w. js_opt_path v ks = Some w"
proof (induction ks arbitrary: v)
  case Nil
  show ?case by simp
next
  case (Cons k ks)
  from js_opt_get_total obtain w where "js_opt_get v k = Some w" by blast
  with Cons [of w] show ?case by simp
qed

lemma js_get_truthy_parent:
  assumes "js_get v k = Some w" and "truthy w" and "k \<noteq> ''length''"
  shows "truthy v"
proof (cases v)
  case (Str s)
  show ?thesis
  proof (cases "s = []")
    case True
    with Str assms show ?thesis by (simp add: index_of_key_def)
  next
    case False
    with Str show ?thesis by simp
  qed
qed (use assms in auto)

lemma size_map_of: "map_of kvs k = Some v \<Longrightarrow> size v < size (Obj kvs)"
  by (induction kvs) (auto split: if_splits)

lemma size_elem: "x \<in> set xs \<Longrightarrow> size x < size (Arr xs)"
  by (induction xs) auto

lemma index_of_key_Some: "index_of_key n k = Some i \<Longrightarrow> i < n \<and> digits i = k"
  by (auto simp: index_of_key_def find_Some_iff)

lemma index_of_key_name:
  assumes "hd k \<notin> set ''0123456789''"
  shows "index_of_key n k = None"
proof (cases "index_of_key n k")
  case (Some i)
  with index_of_key_Some [OF Some] digits_hd [of i] assms show ?thesis by simp
qed simp

text \<open>A truthy value read under a property name is a proper part of the value read from.\<close>

lemma js_get_size:
  assumes "js_get v k = Some w" and "truthy w"
    and "k \<noteq> ''length''" and "hd k \<notin> set ''0123456789''"
  shows "size w < size v"
proof (cases v)
  case (Obj kvs)
  with assms show ?thesis
    by (auto split: option.splits if_splits dest: size_map_of)
next
  case (Arr xs)
  with assms index_of_key_name [OF assms(4)] show ?thesis by (auto split: if_splits)
next
  case (Str s)
  with assms index_of_key_name [OF assms(4)] show ?thesis by simp
qed (use assms in auto)

lemma js_arr_size: "js_arr a = Some xs \<Longrightarrow> x \<in> set xs \<Longrightarrow> size x < size a"
  by (cases a) (auto dest: size_elem)

lemma lookup_zero:
  "map_of table ''0'' = Some v \<Longrightarrow> js_lookup table (Num 0) = Some v"
  by (simp add: js_lookup_def number_key_zero)

lemma lookup_unmapped:
  assumes "c < 0 \<or> 8 < c"
    and "fst ` set table \<subseteq> set [''0'', ''1'', ''2'', ''3'', ''4'', ''5'', ''6'', ''7'', ''8'']"
  shows "js_lookup table (Num c) = Some Undefined"
proof -
  from number_key_unmapped [OF assms(1)] assms(2)
  have "number_to_string c \<notin> fst ` set table" by blast
  then have "map_of table (number_to_string c) = None"
    by (simp add: map_of_eq_None_iff)
  then show ?thesis
    by (simp add: js_lookup_def number_key_not_prototype)
qed

lemma aggregation_name:
  assumes "c = 0 \<or> c < 0 \<or> 8 < c"
    and "map_of table ''0'' = Some (Str ''Sum'')"
    and "fst ` set table \<subseteq> set [''0'', ''1'', ''2'', ''3'', ''4'', ''5'', ''6'', ''7'', ''8'']"
  shows "\<exists>n. js_lookup table (Num c) = Some n \<and>
             js_or n (Str ''Unknown'') = Str (if c = 0 then ''Sum'' else ''Unknown'')"
proof (cases "c = 0")
  case True
  with assms(2) show ?thesis by (simp add: lookup_zero js_or_def)
next
  case False
  with assms(1) have "c < 0 \<or> 8 < c" by simp
  from lookup_unmapped [OF this assms(3)] False show ?thesis by (simp add: js_or_def)
qed

section \<open>Aggregation codes\<close>

text \<open>\<^verbatim>\<open>PBIRParser.getAggregationFunction\<close>.\<close>

definition getAggregationFunction :: "jsval \<Rightarrow> jsval option" where
  "getAggregationFunction funcId =
     (let functions = [(''0'', Str ''Sum''), (''1'', Str ''Average''), (''2'', Str ''Min''),
                       (''3'', Str ''Max''), (''4'', Str ''Count''), (''5'', Str ''CountDistinct'')]
      in map_option (\<lambda>f. js_or f (Str ''Unknown'')) (js_lookup functions funcId))"

text \<open>\<^verbatim>\<open>PBIRReportGenerator.parseProjectionField\<close>.\<close>

definition parseProjectionField :: "jsval \<Rightarrow> jsval \<Rightarrow> jsval option" where
  "parseProjectionField roleKey projection = do {
     field \<leftarrow> js_get projection ''field'';
     if truthy field then do {
       measure \<leftarrow> js_get field ''Measure'';
       if truthy measure then do {
         queryRef \<leftarrow> js_get projection ''queryRef'';
         property \<leftarrow> js_get measure ''Property'';
         expression \<leftarrow> js_get measure ''Expression'';
         entity \<leftarrow> js_opt_path expression [''SourceRef'', ''Entity''];
         Some (Obj [(''type'', Str ''measure''), (''role'', roleKey),
                    (''name'', js_or queryRef property),
                    (''table'', js_or entity (Str ''Unknown Table'')),
                    (''field'', property)])
       } else do {
         column \<leftarrow> js_get field ''Column'';
         if truthy column then do {
           queryRef \<leftarrow> js_get projection ''queryRef'';
           property \<leftarrow> js_get column ''Property'';
           expression \<leftarrow> js_get column ''Expression'';
           entity \<leftarrow> js_opt_path expression [''SourceRef'', ''Entity''];
           Some (Obj [(''type'', Str ''dimension''), (''role'', roleKey),
                      (''name'', js_or queryRef property),
                      (''table'', js_or entity (Str ''Unknown Table'')),
                      (''field'', property)])
         } else do {
           aggregation \<leftarrow> js_get field ''Aggregation'';
           if truthy aggregation then do {
             let aggregationTypes =
               [(''0'', Str ''Sum''), (''1'', Str ''Average''), (''2'', Str ''Count (Distinct)''),
                (''3'', Str ''Min''), (''4'', Str ''Max''), (''5'', Str ''Count'')];
             queryRef \<leftarrow> js_get projection ''queryRef'';
             func \<leftarrow> js_get aggregation ''Function'';
             aggName \<leftarrow> js_lookup aggregationTypes func;
             expression \<leftarrow> js_get aggregation ''Expression'';
             entity \<leftarrow> js_opt_path expression [''Column'', ''Expression'', ''SourceRef'', ''Entity''];
             property \<leftarrow> js_opt_path expression [''Column'', ''Property''];
             Some (Obj [(''type'', Str ''measure''), (''role'', roleKey),
                        (''name'', js_or queryRef (Str ''Aggregated Field'')),
                        (''aggregation'', js_or aggName (Str ''Unknown'')),
                        (''table'', js_or entity (Str ''Unknown Table'')),
                        (''field'', js_or property (Str ''Unknown Field''))])
           } else Some Null
         }
       }
     } else Some Null
   }"

text \<open>
  \<^verbatim>\<open>PBIRParserEnhanced.parseSelectExpression\<close>, with the table
  \<^verbatim>\<open>schemas.aggregationFunctions\<close> of \<^verbatim>\<open>loadSchemaDefinitions\<close>.
\<close>

definition aggregationFunctions :: "(string \<times> jsval) list" where
  "aggregationFunctions =
     [(''0'', Str ''Sum''), (''1'', Str ''Average''), (''2'', Str ''DistinctCount''),
      (''3'', Str ''Min''), (''4'', Str ''Max''), (''5'', Str ''Count''),
      (''6'', Str ''Median''), (''7'', Str ''StandardDeviation''), (''8'', Str ''Variance'')]"

definition parseSelectExpression :: "jsval \<Rightarrow> jsval option" where
  "parseSelectExpression select = do {
     name \<leftarrow> js_get select ''Name'';
     measure \<leftarrow> js_get select ''Measure'';
     if truthy measure then do {
       expression \<leftarrow> js_get measure ''Expression'';
       property \<leftarrow> js_get measure ''Property'';
       sourceRef \<leftarrow> js_opt_get expression ''SourceRef'';
       source \<leftarrow> js_opt_get expression ''Source'';
       Some (Obj [(''type'', Str ''measure''), (''name'', name), (''expression'', expression),
                  (''property'', property), (''source'', js_or sourceRef source)])
     } else do {
       column \<leftarrow> js_get select ''Column'';
       if truthy column then do {
         expression \<leftarrow> js_get column ''Expression'';
         property \<leftarrow> js_get column ''Property'';
         sourceRef \<leftarrow> js_opt_get expression ''SourceRef'';
         source \<leftarrow> js_opt_get expression ''Source'';
         Some (Obj [(''type'', Str ''dimension''), (''name'', name), (''expression'', expression),
                    (''property'', property), (''source'', js_or sourceRef source)])
       } else do {
         hierarchy \<leftarrow> js_get select ''Hierarchy'';
         if truthy hierarchy then do {
           h \<leftarrow> js_get hierarchy ''Hierarchy'';
           expression \<leftarrow> js_get hierarchy ''Expression'';
           Some (Obj [(''type'', Str ''hierarchy''), (''name'', name), (''hierarchy'', h),
                      (''expression'', expression)])
         } else do {
           aggregation \<leftarrow> js_get select ''Aggregation'';
           if truthy aggregation then do {
             func \<leftarrow> js_get aggregation ''Function'';
             aggName \<leftarrow> js_lookup aggregationFunctions func;
             expression \<leftarrow> js_get aggregation ''Expression'';
             Some (Obj [(''type'', Str ''measure''), (''name'', name),
                        (''aggregation'', js_or aggName (Str ''Unknown'')),
                        (''expression'', expression)])
           } else Some Null
         }
       }
     }
   }"

text \<open>\<^verbatim>\<open>PBIRReportGenerator.extractTableName\<close>, \<^verbatim>\<open>extractFieldName\<close> and
  \<^verbatim>\<open>parseFieldFromSelect\<close>.\<close>

definition extractTableName :: "jsval \<Rightarrow> jsval option" where
  "extractTableName expression =
     (if truthy expression then do {
        sourceRef \<leftarrow> js_get expression ''SourceRef'';
        if truthy sourceRef then do {
          entity \<leftarrow> js_get sourceRef ''Entity'';
          Some (js_or entity (Str ''Unknown Table''))
        } else do {
          column \<leftarrow> js_get expression ''Column'';
          if truthy column then do {
            inner \<leftarrow> js_get column ''Expression'';
            if truthy inner then do {
              innerRef \<leftarrow> js_get inner ''SourceRef'';
              if truthy innerRef then do {
                entity \<leftarrow> js_get innerRef ''Entity'';
                Some (js_or entity (Str ''Unknown Table''))
              } else Some (Str ''Unknown Table'')
            } else Some (Str ''Unknown Table'')
          } else Some (Str ''Unknown Table'')
        }
      } else Some (Str ''Unknown Table''))"

definition extractFieldName :: "jsval \<Rightarrow> jsval option" where
  "extractFieldName expression =
     (if truthy expression then do {
        column \<leftarrow> js_get expression ''Column'';
        if truthy column then do {
          property \<leftarrow> js_get column ''Property'';
          Some (js_or property (Str ''Unknown Field''))
        } else Some (Str ''Unknown Field'')
      } else Some (Str ''Unknown Field''))"

definition parseFieldFromSelect :: "jsval \<Rightarrow> jsval option" where
  "parseFieldFromSelect select = do {
     measure \<leftarrow> js_get select ''Measure'';
     if truthy measure then do {
       name \<leftarrow> js_get select ''Name'';
       expression \<leftarrow> js_get measure ''Expression'';
       table \<leftarrow> extractTableName expression;
       property \<leftarrow> js_get measure ''Property'';
       Some (Obj [(''type'', Str ''measure''), (''name'', js_or name (Str ''Unnamed Measure'')),
                  (''table'', table), (''field'', property)])
     } else do {
       column \<leftarrow> js_get select ''Column'';
       if truthy column then do {
         name \<leftarrow> js_get select ''Name'';
         expression \<leftarrow> js_get column ''Expression'';
         table \<leftarrow> extractTableName expression;
         property \<leftarrow> js_get column ''Property'';
         Some (Obj [(''type'', Str ''dimension''), (''name'', js_or name (Str ''Unnamed Column'')),
                    (''table'', table), (''field'', property)])
       } else do {
         aggregation \<leftarrow> js_get select ''Aggregation'';
         if truthy aggregation then do {
           let aggregationTypes =
             [(''0'', Str ''Sum''), (''1'', Str ''Average''), (''2'', Str ''Count (Distinct)''),
              (''3'', Str ''Min''), (''4'', Str ''Max''), (''5'', Str ''Count'')];
           name \<leftarrow> js_get select ''Name'';
           func \<leftarrow> js_get aggregation ''Function'';
           aggName \<leftarrow> js_lookup aggregationTypes func;
           expression \<leftarrow> js_get aggregation ''Expression'';
           table \<leftarrow> extractTableName expression;
           field \<leftarrow> extractFieldName expression;
           Some (Obj [(''type'', Str ''measure''), (''name'', js_or name (Str ''Aggregated Field'')),
                      (''aggregation'', js_or aggName (Str ''Unknown'')),
                      (''table'', table), (''field'', field)])
         } else Some Null
       }
     }
   }"

text \<open>
  A field descriptor that carries an \<^verbatim>\<open>Aggregation\<close> with the numeric function code
  \<open>c\<close> and none of the properties \<open>others\<close> that the extractors test before it.
\<close>

definition carries_aggregation :: "string list \<Rightarrow> jsval \<Rightarrow> int \<Rightarrow> bool" where
  "carries_aggregation others d c \<longleftrightarrow>
     truthy d \<and>
     list_all (\<lambda>k. case js_get d k of Some v \<Rightarrow> \<not> truthy v | None \<Rightarrow> False) others \<and>
     (case js_get d ''Aggregation'' of
        Some a \<Rightarrow> truthy a \<and> js_get a ''Function'' = Some (Num c)
      | None \<Rightarrow> False)"

section \<open>Visual type\<close>

text \<open>
  \<^verbatim>\<open>PBIRReportGenerator.getVisualType\<close>, in two steps: the raw type string is read
  from \<^verbatim>\<open>visual.visualType\<close>, else from \<^verbatim>\<open>visual.singleVisual.visualType\<close>,
  else it is \<^verbatim>\<open>unknown\<close>; then it is canonicalised. \<^verbatim>\<open>startsWith\<close>,
  \<^verbatim>\<open>includes\<close> and \<^verbatim>\<open>length\<close> are \<open>prefix\<close>, \<open>sublist\<close> and
  \<open>length\<close>; calling them on a raw type that is no string throws.
\<close>

definition typeMapping :: "(string \<times> jsval) list" where
  "typeMapping =
     [(''columnChart'', Str ''Column Chart''),
      (''barChart'', Str ''Bar Chart''),
      (''lineChart'', Str ''Line Chart''),
      (''pieChart'', Str ''Pie Chart''),
      (''card'', Str ''Card''),
      (''multiRowCard'', Str ''Multi-row Card''),
      (''tableEx'', Str ''Table''),
      (''matrix'', Str ''Matrix''),
      (''slicer'', Str ''Slicer''),
      (''textbox'', Str ''Text Box''),
      (''image'', Str ''Image''),
      (''basicShape'', Str ''Shape''),
      (''actionButton'', Str ''Button''),
      (''pivotTable'', Str ''Pivot Table''),
      (''qnaVisual'', Str ''Q&A Visual''),
      (''keyDriversVisual'', Str ''Key Drivers''),
      (''decompositionTreeVisual'', Str ''Decomposition Tree'')]"

definition rawVisualType :: "jsval \<Rightarrow> jsval option" where
  "rawVisualType visualData = do {
     visual \<leftarrow> js_get visualData ''visual'';
     if truthy visual then do {
       visualType \<leftarrow> js_get visual ''visualType'';
       if truthy visualType then Some visualType
       else do {
         singleVisual \<leftarrow> js_get visual ''singleVisual'';
         if truthy singleVisual then do {
           singleType \<leftarrow> js_get singleVisual ''visualType'';
           if truthy singleType then Some singleType else Some (Str ''unknown'')
         } else Some (Str ''unknown'')
       }
     } else Some (Str ''unknown'')
   }"

definition getVisualType :: "jsval \<Rightarrow> jsval option" where
  "getVisualType visualData = do {
     visualType \<leftarrow> rawVisualType visualData;
     s \<leftarrow> js_str visualType;
     if prefix ''PBI_CV_'' s \<or> sublist ''CV_'' s \<or> length s > 30
     then Some (Str ''Custom Visual'')
     else do {
       mapped \<leftarrow> js_lookup typeMapping visualType;
       Some (js_or mapped visualType)
     }
   }"

section \<open>Display name\<close>

text \<open>
  \<^verbatim>\<open>PBIRReportGenerator.getVisualDisplayName\<close> is a sequence of blocks, each of
  which returns a title, falls through to the next block, or throws. Every title is a
  string, and a block has the
  type \<open>early\<close>: \<open>None\<close> is a throw, \<open>falls\<close> is falling through and
  \<open>returns t\<close> is \<^verbatim>\<open>return t\<close>.
\<close>

type_synonym early = "string option option"

definition returns :: "string \<Rightarrow> early" where
  "returns t = Some (Some t)"

definition falls :: early where
  "falls = Some None"

definition orelse :: "early \<Rightarrow> early \<Rightarrow> early" where
  "orelse a b = (case a of Some None \<Rightarrow> b | _ \<Rightarrow> a)"

text \<open>
  \<^verbatim>\<open>title = value.replace(/^'|'$/g, '').trim(); if (title && title !== 'Title') return title\<close>
\<close>

definition quotedTitle :: "jsval \<Rightarrow> early" where
  "quotedTitle value = do {
     s \<leftarrow> js_str value;
     let title = js_trim (strip_quotes s);
     if title \<noteq> [] \<and> title \<noteq> ''Title'' then returns title else falls
   }"

text \<open>\<^verbatim>\<open>title = value.trim(); if (title) return title\<close>\<close>

definition literalTitle :: "jsval \<Rightarrow> early" where
  "literalTitle value = do {
     s \<leftarrow> js_str value;
     let title = js_trim s;
     if title \<noteq> [] then returns title else falls
   }"

text \<open>\<^verbatim>\<open>visualData.visual?.visualContainerObjects || visualData.visualContainerObjects\<close>\<close>

definition containerObjects :: "jsval \<Rightarrow> jsval option" where
  "containerObjects visualData = do {
     visual \<leftarrow> js_get visualData ''visual'';
     fromVisual \<leftarrow> js_opt_get visual ''visualContainerObjects'';
     if truthy fromVisual then Some fromVisual else js_get visualData ''visualContainerObjects''
   }"

text \<open>The first block: the title of the visual container objects.\<close>

definition containerTitle :: "jsval \<Rightarrow> early" where
  "containerTitle visualData = do {
     container \<leftarrow> containerObjects visualData;
     title \<leftarrow> js_and_path container [''title''];
     if truthy title then do {
       titleConfig \<leftarrow> js_get title ''0'';
       text \<leftarrow> js_and_path titleConfig [''properties'', ''text''];
       if truthy text then do {
         textExpr \<leftarrow> js_get text ''expr'';
         value \<leftarrow> js_and_path textExpr [''Literal'', ''Value''];
         if truthy value then quotedTitle value else falls
       } else falls
     } else falls
   }"

text \<open>The title object of \<^verbatim>\<open>visual.singleVisual.objects\<close>: literal shape, then
  expression shape.\<close>

definition singleVisualTitle :: "jsval \<Rightarrow> early" where
  "singleVisualTitle objects = do {
     properties \<leftarrow> js_and_path objects [''title'', ''0'', ''properties''];
     if truthy properties then do {
       titleProp \<leftarrow> js_get properties ''text'';
       value \<leftarrow> js_and_path titleProp [''literal'', ''value''];
       orelse (if truthy value then literalTitle value else falls)
         (do {
            literal \<leftarrow> js_and_path titleProp [''expr'', ''Literal''];
            if truthy literal then do {
              v \<leftarrow> js_get literal ''Value'';
              quotedTitle v
            } else falls
          })
     } else falls
   }"

text \<open>For text boxes: the first text run of the first paragraph.\<close>

definition textBoxTitle :: "jsval \<Rightarrow> early" where
  "textBoxTitle objects = do {
     properties \<leftarrow> js_and_path objects [''general'', ''0'', ''properties''];
     if truthy properties then do {
       paragraphs \<leftarrow> js_get properties ''paragraphs'';
       if truthy paragraphs then do {
         paragraphCount \<leftarrow> js_get paragraphs ''length'';
         some \<leftarrow> js_gt_zero paragraphCount;
         if some then do {
           firstParagraph \<leftarrow> js_get paragraphs ''0'';
           textRuns \<leftarrow> js_get firstParagraph ''textRuns'';
           if truthy textRuns then do {
             runCount \<leftarrow> js_get textRuns ''length'';
             someRuns \<leftarrow> js_gt_zero runCount;
             if someRuns then do {
               firstRun \<leftarrow> js_get textRuns ''0'';
               firstText \<leftarrow> js_get firstRun ''value'';
               if truthy firstText then do {
                 s \<leftarrow> js_str firstText;
                 if js_trim s \<noteq> [] \<and> length s < 50 then returns (js_trim s) else falls
               } else falls
             } else falls
           } else falls
         } else falls
       } else falls
     } else falls
   }"

text \<open>The title object of \<^verbatim>\<open>visual.objects\<close>.\<close>

definition directTitle :: "jsval \<Rightarrow> early" where
  "directTitle visual = do {
     title \<leftarrow> js_and_path visual [''objects'', ''title''];
     if truthy title then do {
       titleObj \<leftarrow> js_get title ''0'';
       text \<leftarrow> js_and_path titleObj [''properties'', ''text''];
       if truthy text then do {
         literal \<leftarrow> js_get text ''literal'';
         value \<leftarrow> js_opt_get literal ''value'';
         orelse (if truthy value then literalTitle value else falls)
           (do {
              exprLiteral \<leftarrow> js_and_path text [''expr'', ''Literal''];
              if truthy exprLiteral then do {
                v \<leftarrow> js_get exprLiteral ''Value'';
                quotedTitle v
              } else falls
            })
       } else falls
     } else falls
   }"

text \<open>The second block: the titles of the visual configuration.\<close>

definition configTitle :: "jsval \<Rightarrow> early" where
  "configTitle visualData = do {
     visual \<leftarrow> js_get visualData ''visual'';
     if truthy visual then
       orelse (do {
                 objects \<leftarrow> js_and_path visual [''singleVisual'', ''objects''];
                 if truthy objects then orelse (singleVisualTitle objects) (textBoxTitle objects)
                 else falls
               })
         (directTitle visual)
     else falls
   }"

text \<open>The last block: a name generated from the visual type and the first eight
  characters of the visual's name.\<close>

definition generatedName :: "jsval \<Rightarrow> string option" where
  "generatedName visualData = do {
     visualType \<leftarrow> getVisualType visualData;
     name \<leftarrow> js_get visualData ''name'';
     shortId \<leftarrow> (if truthy name then map_option (take 8) (js_str name) else Some ''unknown'');
     if visualType \<noteq> Str ''unknown'' then do {
       t \<leftarrow> js_to_string visualType;
       Some (t @ '' ('' @ shortId @ '')'')
     } else Some (''Visual ('' @ shortId @ '')'')
   }"

definition getVisualDisplayName :: "jsval \<Rightarrow> string option" where
  "getVisualDisplayName visualData =
     (case orelse (containerTitle visualData) (configTitle visualData) of
        None \<Rightarrow> None
      | Some (Some title) \<Rightarrow> Some title
      | Some None \<Rightarrow> generatedName visualData)"

section \<open>Literal values\<close>

text \<open>\<^verbatim>\<open>PBIRParserEnhanced.extractLiteralValue\<close>.\<close>

definition extractLiteralValue :: "jsval \<Rightarrow> jsval option" where
  "extractLiteralValue property =
     (if \<not> truthy property then Some Null
      else do {
        literal \<leftarrow> js_get property ''literal'';
        if truthy literal then js_get literal ''value''
        else do {
          solid \<leftarrow> js_get property ''solid'';
          if truthy solid then js_get solid ''color''
          else Some property
        }
      })"

section \<open>Position and layout\<close>

text \<open>\<^verbatim>\<open>pos.k || 0\<close>.\<close>

definition or_zero :: "jsval \<Rightarrow> string \<Rightarrow> jsval option" where
  "or_zero pos k = map_option (\<lambda>v. js_or v (Num 0)) (js_get pos k)"

text \<open>\<^verbatim>\<open>PBIRParserEnhanced.validatePosition\<close>.\<close>

definition validatePosition :: "jsval \<Rightarrow> jsval option" where
  "validatePosition position =
     (if \<not> truthy position then Some Null
      else do {
        x \<leftarrow> or_zero position ''x'';
        y \<leftarrow> or_zero position ''y'';
        z \<leftarrow> or_zero position ''z'';
        height \<leftarrow> or_zero position ''height'';
        width \<leftarrow> or_zero position ''width'';
        tabOrder \<leftarrow> js_get position ''tabOrder'';
        angle \<leftarrow> js_get position ''angle'';
        Some (Obj [(''x'', x), (''y'', y), (''z'', z), (''height'', height), (''width'', width),
                   (''tabOrder'', tabOrder), (''angle'', angle)])
      })"

text \<open>\<^verbatim>\<open>PBIRParserEnhanced.extractLayoutEnhanced\<close>.\<close>

definition extractLayoutEnhanced :: "jsval \<Rightarrow> jsval option" where
  "extractLayoutEnhanced visualData = do {
     pos \<leftarrow> js_get visualData ''position'';
     if truthy pos then do {
       x \<leftarrow> or_zero pos ''x'';
       y \<leftarrow> or_zero pos ''y'';
       width \<leftarrow> or_zero pos ''width'';
       height \<leftarrow> or_zero pos ''height'';
       z \<leftarrow> or_zero pos ''z'';
       tabOrder \<leftarrow> js_get pos ''tabOrder'';
       angle \<leftarrow> js_get pos ''angle'';
       Some (Obj [(''x'', x), (''y'', y), (''width'', width), (''height'', height), (''z'', z),
                  (''tabOrder'', tabOrder), (''angle'', angle)])
     } else
       Some (Obj [(''x'', Num 0), (''y'', Num 0), (''width'', Num 0), (''height'', Num 0),
                  (''z'', Num 0), (''tabOrder'', Null), (''angle'', Null)])
   }"

text \<open>\<^verbatim>\<open>EnhancedPBIRParser.extractLayout\<close> (cli-parser.js).\<close>

definition extractLayout :: "jsval \<Rightarrow> jsval option" where
  "extractLayout visualData = do {
     position \<leftarrow> js_get visualData ''position'';
     if truthy position then do {
       x \<leftarrow> or_zero position ''x'';
       y \<leftarrow> or_zero position ''y'';
       width \<leftarrow> or_zero position ''width'';
       height \<leftarrow> or_zero position ''height'';
       z \<leftarrow> or_zero position ''z'';
       tabOrder \<leftarrow> or_zero position ''tabOrder'';
       Some (Obj [(''x'', x), (''y'', y), (''width'', width), (''height'', height), (''z'', z),
                  (''tabOrder'', tabOrder)])
     } else
       Some (Obj [(''x'', Num 0), (''y'', Num 0), (''width'', Num 0), (''height'', Num 0),
                  (''z'', Num 0), (''tabOrder'', Num 0)])
   }"

text \<open>
  What a coordinate \<open>k\<close> of a layout record has to be, given the document's
  \<^verbatim>\<open>position\<close>: never \<^verbatim>\<open>null\<close> or \<^verbatim>\<open>undefined\<close>; the document's value
  when the position is present and the value is truthy, and 0 otherwise.
\<close>

definition coordinate_of :: "jsval \<Rightarrow> string \<Rightarrow> jsval \<Rightarrow> bool" where
  "coordinate_of pos k v \<longleftrightarrow>
     \<not> nullish v \<and>
     (if truthy pos then map_option (\<lambda>p. js_or p (Num 0)) (js_get pos k) = Some v
      else v = Num 0)"

section \<open>Filter rendering\<close>

text \<open>
  \<^verbatim>\<open>PBIRParser.formatExpression\<close> and \<^verbatim>\<open>PBIRParser.formatFilterObject\<close>.
  \<^verbatim>\<open>JSON.stringify\<close> belongs to the host and is the parameter \<open>stringify\<close>.
  A template literal converts each hole with \<open>js_to_string\<close>; \<^verbatim>\<open>map\<close> needs an
  array receiver and stops at the first element that throws.
\<close>

definition formatExpression :: "(jsval \<Rightarrow> jsval) \<Rightarrow> jsval \<Rightarrow> jsval option" where
  "formatExpression stringify expression =
     (case expression of
        Str s \<Rightarrow> Some (Str s)
      | _ \<Rightarrow>
        if truthy expression then do {
          column \<leftarrow> js_get expression ''Column'';
          if truthy column then do {
            e \<leftarrow> js_get column ''Expression'';
            p \<leftarrow> js_get column ''Property'';
            es \<leftarrow> js_to_string e;
            ps \<leftarrow> js_to_string p;
            Some (Str (es @ ''.'' @ ps))
          } else do {
            aggregation \<leftarrow> js_get expression ''Aggregation'';
            if truthy aggregation then do {
              e \<leftarrow> js_get aggregation ''Expression'';
              f \<leftarrow> js_get aggregation ''Function'';
              es \<leftarrow> js_to_string e;
              fs \<leftarrow> js_to_string f;
              Some (Str (es @ '' ('' @ fs @ '')''))
            } else do {
              literal \<leftarrow> js_get expression ''Literal'';
              if truthy literal then js_get literal ''Value''
              else Some (stringify expression)
            }
          }
        } else Some (stringify expression))"

function formatFilterObject :: "(jsval \<Rightarrow> jsval) \<Rightarrow> jsval \<Rightarrow> jsval option" where
  "formatFilterObject stringify filterObj = do {
     inNode \<leftarrow> js_get filterObj ''In'';
     expressions \<leftarrow> (if truthy inNode then js_get inNode ''Expressions'' else Some inNode);
     if truthy expressions then do {
       exprs \<leftarrow> js_arr expressions;
       values \<leftarrow> those (map (formatExpression stringify) exprs);
       joined \<leftarrow> js_join '', '' values;
       Some (Str (''IN ('' @ joined @ '')''))
     } else do {
       between \<leftarrow> js_get filterObj ''Between'';
       if truthy between then do {
         lowerBound \<leftarrow> js_get between ''LowerBound'';
         lower \<leftarrow> formatExpression stringify lowerBound;
         ls \<leftarrow> js_to_string lower;
         upperBound \<leftarrow> js_get between ''UpperBound'';
         upper \<leftarrow> formatExpression stringify upperBound;
         us \<leftarrow> js_to_string upper;
         Some (Str (''BETWEEN '' @ ls @ '' AND '' @ us))
       } else do {
         andNode \<leftarrow> js_get filterObj ''And'';
         if truthy andNode then do {
           conds \<leftarrow> js_arr andNode;
           conditions \<leftarrow> those (map (formatFilterObject stringify) conds);
           joined \<leftarrow> js_join '' AND '' conditions;
           Some (Str (''('' @ joined @ '')''))
         } else do {
           orNode \<leftarrow> js_get filterObj ''Or'';
           if truthy orNode then do {
             conds \<leftarrow> js_arr orNode;
             conditions \<leftarrow> those (map (formatFilterObject stringify) conds);
             joined \<leftarrow> js_join '' OR '' conditions;
             Some (Str (''('' @ joined @ '')''))
           } else do {
             notNode \<leftarrow> js_get filterObj ''Not'';
             if truthy notNode then do {
               inner \<leftarrow> formatFilterObject stringify notNode;
               s \<leftarrow> js_to_string inner;
               Some (Str (''NOT ('' @ s @ '')''))
             } else do {
               comparison \<leftarrow> js_get filterObj ''Comparison'';
               if truthy comparison then do {
                 kind \<leftarrow> js_get comparison ''ComparisonKind'';
                 ks \<leftarrow> js_to_string kind;
                 right \<leftarrow> js_get comparison ''Right'';
                 r \<leftarrow> formatExpression stringify right;
                 rs \<leftarrow> js_to_string r;
                 Some (Str (ks @ '' '' @ rs))
               } else Some (stringify filterObj)
             }
           }
         }
       }
     }
   }"
  by pat_completeness auto

termination
proof (relation "measure (\<lambda>(sf, v). size v)", goal_cases)
  case 1
  show ?case by simp
next
  case (2 sf filterObj a aa ab ac ad x)
  from js_get_size [OF 2(6,7)] js_arr_size [OF 2(8,9)] show ?case by simp
next
  case (3 sf filterObj a aa ab ac ad ae x)
  from js_get_size [OF 3(8,9)] js_arr_size [OF 3(10,11)] show ?case by simp
next
  case (4 sf filterObj a aa ab ac ad ae)
  from js_get_size [OF 4(10,11)] show ?case by simp
qed

declare formatFilterObject.simps [simp del]

section \<open>Identifiers from paths\<close>

text \<open>
  The three parsers share \<^verbatim>\<open>extractPageName\<close>, \<^verbatim>\<open>extractVisualName\<close> and
  \<^verbatim>\<open>extractBookmarkName\<close>: a regular expression
  \<^verbatim>\<open>/PRE([^\/]+)SUF$/\<close> whose prefix \<open>PRE\<close> ends with a slash. It matches when
  the path ends with \<open>SUF\<close>, the segment before \<open>SUF\<close> (the longest run of
  characters other than a slash) is not empty, and \<open>PRE\<close> stands right before that
  segment. The segment is the captured group.
\<close>

definition capture_segment :: "string \<Rightarrow> string \<Rightarrow> string \<Rightarrow> string option" where
  "capture_segment pre suf path =
     (if suffix suf path then
        (let body = take (length path - length suf) path;
             seg = rev (takeWhile (\<lambda>c. c \<noteq> CHR ''/'') (rev body));
             front = take (length body - length seg) body
         in if seg \<noteq> [] \<and> suffix pre front then Some seg else None)
      else None)"

definition extractPageName :: "string \<Rightarrow> string" where
  "extractPageName path =
     (case capture_segment ''/pages/'' ''/page.json'' path of Some m \<Rightarrow> m | None \<Rightarrow> ''unknown'')"

definition extractVisualName :: "string \<Rightarrow> string" where
  "extractVisualName path =
     (case capture_segment ''/visuals/'' ''/visual.json'' path of Some m \<Rightarrow> m | None \<Rightarrow> ''unknown'')"

definition extractBookmarkName :: "string \<Rightarrow> string" where
  "extractBookmarkName path =
     (case capture_segment ''/'' ''.bookmark.json'' path of Some m \<Rightarrow> m | None \<Rightarrow> ''unknown'')"

text \<open>The path filters of the page loop and of the visual loop.\<close>

definition is_page_path :: "string \<Rightarrow> bool" where
  "is_page_path path \<longleftrightarrow> sublist ''/pages/'' path \<and> suffix ''/page.json'' path"

definition is_visual_path :: "string \<Rightarrow> string \<Rightarrow> bool" where
  "is_visual_path pageName path \<longleftrightarrow>
     sublist (''/pages/'' @ pageName @ ''/visuals/'') path \<and> suffix ''/visual.json'' path"

definition is_bookmark_path :: "string \<Rightarrow> bool" where
  "is_bookmark_path path \<longleftrightarrow> sublist ''/bookmarks/'' path \<and> suffix ''.bookmark.json'' path"

text \<open>\<^verbatim>\<open>s.replace(pat, rep)\<close> with a string pattern: the first occurrence only.\<close>

fun replace_first :: "string \<Rightarrow> string \<Rightarrow> string \<Rightarrow> string" where
  "replace_first pat rep [] = (if pat = [] then rep else [])"
| "replace_first pat rep (c # cs) =
     (if prefix pat (c # cs) then rep @ drop (length pat) (c # cs)
      else c # replace_first pat rep cs)"

section \<open>Maps and object spread\<close>

text \<open>
  A \<^verbatim>\<open>Map\<close> is the list of its entries in insertion order. \<^verbatim>\<open>map.set(k, v)\<close>
  replaces the value of an existing key in place and appends a new key at the end; the
  same holds for writing a property of an object. \<^verbatim>\<open>Object.fromEntries(map)\<close>
  keeps keys and values, so the object it returns is the entry list again. (The order in
  which an object enumerates its properties is observed by no function here.)
\<close>

fun map_set :: "string \<Rightarrow> 'v \<Rightarrow> (string \<times> 'v) list \<Rightarrow> (string \<times> 'v) list" where
  "map_set k v [] = [(k, v)]"
| "map_set k v (p # ps) = (if fst p = k then (k, v) # ps else p # map_set k v ps)"

text \<open>The own enumerable properties that \<^verbatim>\<open>{...v}\<close> copies.\<close>

fun js_spread :: "jsval \<Rightarrow> (string \<times> jsval) list" where
  "js_spread (Obj kvs) = kvs"
| "js_spread (Arr xs) = zip (map digits [0..<length xs]) xs"
| "js_spread (Str s) = zip (map digits [0..<length s]) (map (\<lambda>c. Str [c]) s)"
| "js_spread v = []"

text \<open>The fields of a record: the own properties by name.\<close>

definition fields_of :: "jsval \<Rightarrow> string \<Rightarrow> jsval option" where
  "fields_of v = map_of (js_spread v)"

section \<open>Processing a visual document\<close>

text \<open>
  \<^verbatim>\<open>EnhancedPBIRParser.processVisualData\<close> of cli-parser.js and the extractors it
  calls. \<^verbatim>\<open>forEach\<close> needs an array receiver and throws where its callback does.
  A record under construction is the list of its properties.
\<close>

definition extractVisualProperties :: "jsval \<Rightarrow> jsval option" where
  "extractVisualProperties visualData = do {
     visual \<leftarrow> js_get visualData ''visual'';
     visualType \<leftarrow> js_and_path visual [''visualType''];
     let typed = (if truthy visualType then [(''type'', visualType)] else []);
     name \<leftarrow> js_get visualData ''name'';
     let named = (if truthy name then map_set ''name'' name typed else typed);
     singleVisual \<leftarrow> js_and_path visual [''singleVisual''];
     properties \<leftarrow>
       (if truthy singleVisual then do {
          singleType \<leftarrow> js_get singleVisual ''visualType'';
          let retyped = (if truthy singleType then map_set ''type'' singleType named else named);
          titleObj \<leftarrow> js_and_path singleVisual [''objects'', ''title''];
          if truthy titleObj then do {
            text \<leftarrow> js_and_path titleObj [''0'', ''properties'', ''text''];
            if truthy text then do {
              literal \<leftarrow> js_get text ''literal'';
              title \<leftarrow> js_opt_get literal ''value'';
              Some (map_set ''title'' title retyped)
            } else Some retyped
          } else Some retyped
        } else Some named);
     type \<leftarrow> js_get (Obj properties) ''type'';
     Some (Obj (if truthy type then properties else map_set ''type'' (Str ''unknown'') properties))
   }"

text \<open>What the callback of \<^verbatim>\<open>Select.forEach\<close> pushes, and onto which list.\<close>

definition selectField :: "jsval \<Rightarrow> (string \<times> jsval) list option" where
  "selectField select = do {
     measure \<leftarrow> js_get select ''Measure'';
     if truthy measure then do {
       name \<leftarrow> js_get select ''Name'';
       expression \<leftarrow> js_get measure ''Expression'';
       property \<leftarrow> js_get measure ''Property'';
       Some [(''measures'', Obj [(''name'', name), (''expression'', expression),
                                 (''property'', property)])]
     } else do {
       column \<leftarrow> js_get select ''Column'';
       if truthy column then do {
         name \<leftarrow> js_get select ''Name'';
         expression \<leftarrow> js_get column ''Expression'';
         property \<leftarrow> js_get column ''Property'';
         Some [(''dimensions'', Obj [(''name'', name), (''expression'', expression),
                                     (''property'', property)])]
       } else Some []
     }
   }"

definition extractFields :: "jsval \<Rightarrow> jsval option" where
  "extractFields visualData = do {
     visual \<leftarrow> js_get visualData ''visual'';
     singleVisual \<leftarrow> js_and_path visual [''singleVisual''];
     if truthy singleVisual then do {
       dataRoles \<leftarrow> js_get singleVisual ''dataRoles'';
       select \<leftarrow> js_and_path singleVisual [''prototypeQuery'', ''Select''];
       pushed \<leftarrow> (if truthy select then do {
                    selects \<leftarrow> js_arr select;
                    map_option concat (those (map selectField selects))
                  } else Some []);
       Some (Obj [(''dataRoles'', if truthy dataRoles then dataRoles else Obj []),
                  (''measures'', Arr (map snd (filter (\<lambda>p. fst p = ''measures'') pushed))),
                  (''dimensions'', Arr (map snd (filter (\<lambda>p. fst p = ''dimensions'') pushed)))])
     } else Some (Obj [(''dataRoles'', Obj []), (''measures'', Arr []), (''dimensions'', Arr [])])
   }"

definition parseFilterFromSchema :: "jsval \<Rightarrow> jsval option" where
  "parseFilterFromSchema filterDef = do {
     type \<leftarrow> js_get filterDef ''type'';
     name \<leftarrow> js_get filterDef ''name'';
     displayName \<leftarrow> js_get filterDef ''displayName'';
     field \<leftarrow> js_get filterDef ''field'';
     inner \<leftarrow> js_get filterDef ''filter'';
     restatement \<leftarrow> js_get filterDef ''restatement'';
     howCreated \<leftarrow> js_get filterDef ''howCreated'';
     isHiddenInViewMode \<leftarrow> js_get filterDef ''isHiddenInViewMode'';
     isLockedInViewMode \<leftarrow> js_get filterDef ''isLockedInViewMode'';
     Some (Obj [(''type'', js_or type (Str ''Unknown'')), (''name'', name),
                (''displayName'', displayName), (''field'', field), (''filter'', inner),
                (''restatement'', restatement), (''howCreated'', howCreated),
                (''isHiddenInViewMode'', isHiddenInViewMode),
                (''isLockedInViewMode'', isLockedInViewMode)])
   }"

text \<open>What the callback of \<^verbatim>\<open>Where.forEach\<close> pushes.\<close>

definition queryFilter :: "jsval \<Rightarrow> jsval option" where
  "queryFilter clause = do {
     condition \<leftarrow> js_get clause ''Condition'';
     target \<leftarrow> js_get clause ''Target'';
     Some (Obj [(''type'', Str ''Query Filter''), (''condition'', condition),
                (''target'', target), (''raw'', clause)])
   }"

definition extractFilters :: "jsval \<Rightarrow> jsval option" where
  "extractFilters visualData = do {
     filterConfig \<leftarrow> js_get visualData ''filterConfig'';
     configured \<leftarrow> js_and_path filterConfig [''filters''];
     fromConfig \<leftarrow> (if truthy configured then do {
                      defs \<leftarrow> js_arr configured;
                      those (map parseFilterFromSchema defs)
                    } else Some []);
     visual \<leftarrow> js_get visualData ''visual'';
     singleVisual \<leftarrow> js_and_path visual [''singleVisual''];
     fromQuery \<leftarrow> (if truthy singleVisual then do {
                     clauses \<leftarrow> js_and_path singleVisual [''prototypeQuery'', ''Where''];
                     if truthy clauses then do {
                       cs \<leftarrow> js_arr clauses;
                       those (map queryFilter cs)
                     } else Some []
                   } else Some []);
     Some (Arr (fromConfig @ fromQuery))
   }"

text \<open>What the callback of \<^verbatim>\<open>dataColors.forEach\<close> pushes.\<close>

definition colorFill :: "jsval \<Rightarrow> jsval list option" where
  "colorFill colorObj = do {
     properties \<leftarrow> js_get colorObj ''properties'';
     fill \<leftarrow> js_and_path properties [''fill''];
     Some (if truthy fill then [fill] else [])
   }"

definition extractFormatting :: "jsval \<Rightarrow> jsval option" where
  "extractFormatting visualData = do {
     visual \<leftarrow> js_get visualData ''visual'';
     objects \<leftarrow> js_and_path visual [''singleVisual'', ''objects''];
     if truthy objects then do {
       background \<leftarrow> js_get objects ''background'';
       backgroundProperties \<leftarrow>
         (if truthy background then do {
            first \<leftarrow> js_get background ''0'';
            js_opt_get first ''properties''
          } else Some Null);
       border \<leftarrow> js_get objects ''border'';
       borderProperties \<leftarrow>
         (if truthy border then do {
            first \<leftarrow> js_get border ''0'';
            js_opt_get first ''properties''
          } else Some Null);
       dataColors \<leftarrow> js_get objects ''dataColors'';
       colors \<leftarrow> (if truthy dataColors then do {
                    colorObjs \<leftarrow> js_arr dataColors;
                    map_option concat (those (map colorFill colorObjs))
                  } else Some []);
       Some (Obj [(''background'', backgroundProperties), (''border'', borderProperties),
                  (''font'', Null), (''colors'', Arr colors)])
     } else Some (Obj [(''background'', Null), (''border'', Null), (''font'', Null),
                       (''colors'', Arr [])])
   }"

text \<open>The parameter \<^verbatim>\<open>mobileData\<close> defaults to \<^verbatim>\<open>null\<close> when it is
  \<^verbatim>\<open>undefined\<close>.\<close>

definition cli_processVisualData :: "jsval \<Rightarrow> jsval \<Rightarrow> jsval option" where
  "cli_processVisualData visualData mobileData = do {
     properties \<leftarrow> extractVisualProperties visualData;
     fields \<leftarrow> extractFields visualData;
     filters \<leftarrow> extractFilters visualData;
     layout \<leftarrow> extractLayout visualData;
     formatting \<leftarrow> extractFormatting visualData;
     Some (Obj (map_set ''formatting'' formatting
             (map_set ''layout'' layout
               (map_set ''filters'' filters
                 (map_set ''fields'' fields
                   (map_set ''properties'' properties
                     (map_set ''mobile'' (if mobileData = Undefined then Null else mobileData)
                        (js_spread visualData))))))))
   }"

section \<open>Files and parser state\<close>

text \<open>
  A collected file is its path relative to the report directory and what reading and
  \<^verbatim>\<open>JSON.parse\<close> make of it: the parsed value, or the message of the error thrown.
\<close>

record source_file =
  relativePath :: string
  content :: "string + jsval"

record parser_state =
  reportData :: jsval
  pages :: "(string \<times> jsval) list"
  visuals :: "(string \<times> jsval) list"
  bookmarks :: "(string \<times> jsval) list"

record cli_state = parser_state +
  parseErrors :: "string list"
  parseWarnings :: "string list"

text \<open>\<^verbatim>\<open>files.find(f => f.relativePath.endsWith(relativePath))\<close>\<close>

definition findFile :: "source_file list \<Rightarrow> string \<Rightarrow> source_file option" where
  "findFile files path = find (\<lambda>f. suffix path (relativePath f)) files"

section \<open>The command-line parser\<close>

text \<open>
  \<^verbatim>\<open>EnhancedPBIRParser\<close> of cli-parser.js. The schema validator is a parameter:
  \<open>validate\<close> is given the parsed value and the schema name and answers with validity
  and error messages, or throws (\<open>Inl\<close> the message; the \<^verbatim>\<open>try\<close> of
  \<^verbatim>\<open>parseJsonFileWithValidation\<close> catches it).
\<close>

type_synonym validator = "jsval \<Rightarrow> string \<Rightarrow> string + (bool \<times> string list)"

text \<open>\<^verbatim>\<open>parseJsonFileWithValidation\<close>: the value returned, and the state after it.\<close>

definition parsedData :: "validator \<Rightarrow> source_file \<Rightarrow> string \<Rightarrow> jsval" where
  "parsedData validate f schemaName =
     (case content f of
        Inl message \<Rightarrow> Null
      | Inr data \<Rightarrow> (case validate data schemaName of Inl message \<Rightarrow> Null | Inr validation \<Rightarrow> data))"

definition parseLog :: "validator \<Rightarrow> source_file \<Rightarrow> string \<Rightarrow> 'a cli_state_scheme \<Rightarrow> 'a cli_state_scheme" where
  "parseLog validate f schemaName st =
     (case content f of
        Inl message \<Rightarrow>
          st\<lparr>parseErrors := parseErrors st @ [''Error parsing '' @ relativePath f @ '': '' @ message]\<rparr>
      | Inr data \<Rightarrow>
          (case validate data schemaName of
             Inl message \<Rightarrow>
               st\<lparr>parseErrors := parseErrors st @
                     [''Error parsing '' @ relativePath f @ '': '' @ message]\<rparr>
           | Inr (valid, errors) \<Rightarrow>
               if \<not> valid then
                 st\<lparr>parseWarnings := parseWarnings st @
                       [''Schema validation failed for '' @ relativePath f @ '' ('' @ schemaName @
                        ''): '' @ join_with '', '' errors]\<rparr>
               else st))"

text \<open>\<^verbatim>\<open>EnhancedPBIRParser.parseReportStructure\<close>, one definition for each of its
  three steps.\<close>

definition cli_parseReport :: "validator \<Rightarrow> source_file list \<Rightarrow> cli_state \<Rightarrow> cli_state" where
  "cli_parseReport validate files st =
     (case findFile files ''definition/report.json'' of
        Some reportFile \<Rightarrow>
          (parseLog validate reportFile ''report'' st)
            \<lparr>reportData := parsedData validate reportFile ''report''\<rparr>
      | None \<Rightarrow> st\<lparr>parseWarnings := parseWarnings st @ [''No main report.json found'']\<rparr>)"

definition cli_mergeDocument ::
  "validator \<Rightarrow> string \<Rightarrow> string \<Rightarrow> string \<Rightarrow> source_file list \<Rightarrow> cli_state \<Rightarrow> cli_state" where
  "cli_mergeDocument validate path schemaName key files st =
     (case findFile files path of
        Some f \<Rightarrow>
          (let data = parsedData validate f schemaName;
               st1 = parseLog validate f schemaName st
           in if truthy (reportData st1) \<and> truthy data
              then st1\<lparr>reportData := Obj (map_set key data (js_spread (reportData st1)))\<rparr>
              else st1)
      | None \<Rightarrow> st)"

definition cli_parseReportStructure :: "validator \<Rightarrow> source_file list \<Rightarrow> cli_state \<Rightarrow> cli_state" where
  "cli_parseReportStructure validate files st =
     cli_mergeDocument validate ''definition/reportExtensions.json'' ''reportExtension''
       ''extensions'' files
       (cli_mergeDocument validate ''definition/version.json'' ''versionMetadata''
          ''version'' files
          (cli_parseReport validate files st))"

text \<open>
  \<^verbatim>\<open>EnhancedPBIRParser.parsePageVisuals\<close>: the loop over the visual files of a page,
  carrying the page's own \<^verbatim>\<open>visuals\<close> map and the parser state. The mobile file
  of a visual file is found by its path; \<open>cli_processedVisual\<close> is the call of
  \<^verbatim>\<open>processVisualData\<close> that the loop makes for a visual file.
\<close>

definition cli_mobileFile :: "source_file list \<Rightarrow> source_file \<Rightarrow> source_file option" where
  "cli_mobileFile files visualFile =
     find (\<lambda>f. relativePath f =
                replace_first ''/visual.json'' ''/mobile.json'' (relativePath visualFile)) files"

definition cli_processedVisual :: "validator \<Rightarrow> source_file list \<Rightarrow> source_file \<Rightarrow> jsval option" where
  "cli_processedVisual validate files visualFile =
     cli_processVisualData (parsedData validate visualFile ''visualContainer'')
       (case cli_mobileFile files visualFile of
          Some m \<Rightarrow> parsedData validate m ''visualContainerMobileState''
        | None \<Rightarrow> Null)"

fun cli_visualsLoop ::
  "validator \<Rightarrow> source_file list \<Rightarrow> string \<Rightarrow> source_file list \<Rightarrow>
   (string \<times> jsval) list \<times> cli_state \<Rightarrow> ((string \<times> jsval) list \<times> cli_state) option" where
  "cli_visualsLoop validate files pageName [] acc = Some acc"
| "cli_visualsLoop validate files pageName (visualFile # rest) (vmap, st) =
     (let visualName = extractVisualName (relativePath visualFile);
          visualData = parsedData validate visualFile ''visualContainer'';
          st1 = parseLog validate visualFile ''visualContainer'' st
      in if truthy visualData then
           (let st2 = (case cli_mobileFile files visualFile of
                         Some m \<Rightarrow> parseLog validate m ''visualContainerMobileState'' st1
                       | None \<Rightarrow> st1)
            in case cli_processedVisual validate files visualFile of
                 None \<Rightarrow> None
               | Some processedVisual \<Rightarrow>
                   cli_visualsLoop validate files pageName rest
                     (map_set visualName processedVisual vmap,
                      st2\<lparr>visuals :=
                            map_set (pageName @ '':'' @ visualName)
                              (Obj (map_set ''visualName'' (Str visualName)
                                      (map_set ''pageName'' (Str pageName)
                                         (js_spread processedVisual))))
                              (visuals st2)\<rparr>))
         else cli_visualsLoop validate files pageName rest (vmap, st1))"

definition cli_parsePageVisuals ::
  "validator \<Rightarrow> source_file list \<Rightarrow> string \<Rightarrow> cli_state \<Rightarrow>
   ((string \<times> jsval) list \<times> cli_state) option" where
  "cli_parsePageVisuals validate files pageName st =
     cli_visualsLoop validate files pageName
       (filter (\<lambda>f. is_visual_path pageName (relativePath f)) files) ([], st)"

text \<open>\<^verbatim>\<open>EnhancedPBIRParser.parsePages\<close>.\<close>

fun cli_pagesLoop ::
  "validator \<Rightarrow> source_file list \<Rightarrow> source_file list \<Rightarrow> cli_state \<Rightarrow> cli_state option" where
  "cli_pagesLoop validate files [] st = Some st"
| "cli_pagesLoop validate files (pageFile # rest) st =
     (let pageName = extractPageName (relativePath pageFile);
          pageData = parsedData validate pageFile ''page'';
          st1 = parseLog validate pageFile ''page'' st
      in if truthy pageData then
           (case cli_parsePageVisuals validate files pageName st1 of
              None \<Rightarrow> None
            | Some (pageVisuals, st2) \<Rightarrow>
                cli_pagesLoop validate files rest
                  (st2\<lparr>pages :=
                        map_set pageName
                          (Obj (map_set ''visuals'' (Obj pageVisuals)
                                  (map_set ''name'' (Str pageName) (js_spread pageData))))
                          (pages st2)\<rparr>))
         else cli_pagesLoop validate files rest st1)"

definition cli_parsePages :: "validator \<Rightarrow> source_file list \<Rightarrow> cli_state \<Rightarrow> cli_state option" where
  "cli_parsePages validate files st =
     cli_pagesLoop validate files
       (filter (\<lambda>f. is_page_path (relativePath f)) files)
       (case findFile files ''definition/pages/pages.json'' of
          Some pagesFile \<Rightarrow> parseLog validate pagesFile ''pagesMetadata'' st
        | None \<Rightarrow> st)"

text \<open>\<^verbatim>\<open>EnhancedPBIRParser.parseBookmarks\<close>.\<close>

definition cli_bookmarkStep :: "validator \<Rightarrow> cli_state \<Rightarrow> source_file \<Rightarrow> cli_state" where
  "cli_bookmarkStep validate st bookmarkFile =
     (let bookmarkName = extractBookmarkName (relativePath bookmarkFile);
          bookmarkData = parsedData validate bookmarkFile ''bookmark'';
          st1 = parseLog validate bookmarkFile ''bookmark'' st
      in if truthy bookmarkData
         then st1\<lparr>bookmarks := map_set bookmarkName bookmarkData (bookmarks st1)\<rparr>
         else st1)"

definition cli_parseBookmarks :: "validator \<Rightarrow> source_file list \<Rightarrow> cli_state \<Rightarrow> cli_state" where
  "cli_parseBookmarks validate files st =
     (case findFile files ''definition/bookmarks/bookmarks.json'' of
        Some bookmarksFile \<Rightarrow>
          foldl (cli_bookmarkStep validate)
            (parseLog validate bookmarksFile ''bookmarksMetadata'' st)
            (filter (\<lambda>f. is_bookmark_path (relativePath f)) files)
      | None \<Rightarrow> st)"

text \<open>
  \<^verbatim>\<open>EnhancedPBIRParser.parseDirectory\<close> on the files collected from an existing
  directory. The result record has the fields of the final state.
\<close>

definition cli_initial :: cli_state where
  "cli_initial = \<lparr>reportData = Null, pages = [], visuals = [], bookmarks = [],
                   parseErrors = [], parseWarnings = []\<rparr>"

definition cli_parseDirectory :: "validator \<Rightarrow> source_file list \<Rightarrow> cli_state option" where
  "cli_parseDirectory validate files =
     map_option (cli_parseBookmarks validate files)
       (cli_parsePages validate files
          (cli_parseReportStructure validate files cli_initial))"

text \<open>
  The documents an entry of the result is built from: the last page file with the
  identifier \<open>n\<close> that parsed to a truthy value, and the last visual file of page
  \<open>n\<close> with the identifier \<open>vn\<close> that parsed to a truthy value.
\<close>

definition cli_lastPageFile :: "validator \<Rightarrow> source_file list \<Rightarrow> string \<Rightarrow> source_file option" where
  "cli_lastPageFile validate files n =
     find (\<lambda>f. is_page_path (relativePath f) \<and> extractPageName (relativePath f) = n \<and>
                truthy (parsedData validate f ''page'')) (rev files)"

definition cli_lastVisualFile ::
  "validator \<Rightarrow> source_file list \<Rightarrow> string \<Rightarrow> string \<Rightarrow> source_file option" where
  "cli_lastVisualFile validate files n vn =
     find (\<lambda>g. is_visual_path n (relativePath g) \<and> extractVisualName (relativePath g) = vn \<and>
                truthy (parsedData validate g ''visualContainer'')) (rev files)"

section \<open>The browser parser\<close>

text \<open>
  \<^verbatim>\<open>PBIRParser\<close>. Its \<^verbatim>\<open>fileMap\<close> maps each path to a file; an entry here is
  the path with what \<^verbatim>\<open>parseJsonFile\<close> returns for the file: the parsed value, or
  \<^verbatim>\<open>null\<close> when reading or parsing fails. Its \<^verbatim>\<open>processVisualData\<close> is the
  parameter \<open>processVisualData\<close>: it turns a visual document and its mobile state into
  the processed record, or throws; the parser spreads its result and looks no further
  into it.
\<close>

type_synonym visual_processor = "jsval \<Rightarrow> jsval \<Rightarrow> jsval option"

definition pbir_findFile :: "(string \<times> jsval) list \<Rightarrow> string \<Rightarrow> jsval option" where
  "pbir_findFile fileMap path = map_option snd (find (\<lambda>entry. suffix path (fst entry)) fileMap)"

text \<open>\<^verbatim>\<open>PBIRParser.parseReportStructure\<close>, one definition for each of its three steps.\<close>

definition pbir_parseReport :: "(string \<times> jsval) list \<Rightarrow> parser_state \<Rightarrow> parser_state" where
  "pbir_parseReport fileMap st =
     (case pbir_findFile fileMap ''definition/report.json'' of
        Some data \<Rightarrow> st\<lparr>reportData := data\<rparr>
      | None \<Rightarrow> st)"

definition pbir_mergeDocument ::
  "string \<Rightarrow> string \<Rightarrow> (string \<times> jsval) list \<Rightarrow> parser_state \<Rightarrow> parser_state" where
  "pbir_mergeDocument path key fileMap st =
     (case pbir_findFile fileMap path of
        Some data \<Rightarrow> st\<lparr>reportData := Obj (map_set key data (js_spread (reportData st)))\<rparr>
      | None \<Rightarrow> st)"

definition pbir_parseReportStructure :: "(string \<times> jsval) list \<Rightarrow> parser_state \<Rightarrow> parser_state" where
  "pbir_parseReportStructure fileMap st =
     pbir_mergeDocument ''definition/reportExtensions.json'' ''extensions'' fileMap
       (pbir_mergeDocument ''definition/version.json'' ''version'' fileMap
          (pbir_parseReport fileMap st))"

text \<open>\<^verbatim>\<open>PBIRParser.parsePageVisuals\<close>. \<open>pbir_processedVisual\<close> is the call of
  \<^verbatim>\<open>processVisualData\<close> that the loop makes for an entry of the file map.\<close>

definition pbir_processedVisual ::
  "visual_processor \<Rightarrow> (string \<times> jsval) list \<Rightarrow> string \<times> jsval \<Rightarrow> jsval option" where
  "pbir_processedVisual processVisualData fileMap entry =
     processVisualData (snd entry)
       (case map_of fileMap (replace_first ''/visual.json'' ''/mobile.json'' (fst entry)) of
          Some m \<Rightarrow> m
        | None \<Rightarrow> Null)"

fun pbir_visualsLoop ::
  "visual_processor \<Rightarrow> (string \<times> jsval) list \<Rightarrow> string \<Rightarrow> (string \<times> jsval) list \<Rightarrow>
   (string \<times> jsval) list \<times> parser_state \<Rightarrow> ((string \<times> jsval) list \<times> parser_state) option" where
  "pbir_visualsLoop processVisualData fileMap pageName [] acc = Some acc"
| "pbir_visualsLoop processVisualData fileMap pageName (entry # rest) (vmap, st) =
     (let visualName = extractVisualName (fst entry)
      in case pbir_processedVisual processVisualData fileMap entry of
           None \<Rightarrow> None
         | Some processedVisual \<Rightarrow>
             pbir_visualsLoop processVisualData fileMap pageName rest
               (map_set visualName processedVisual vmap,
                st\<lparr>visuals :=
                     map_set (pageName @ '':'' @ visualName)
                       (Obj (map_set ''visualName'' (Str visualName)
                               (map_set ''pageName'' (Str pageName)
                                  (js_spread processedVisual))))
                       (visuals st)\<rparr>))"

definition pbir_parsePageVisuals ::
  "visual_processor \<Rightarrow> (string \<times> jsval) list \<Rightarrow> string \<Rightarrow> parser_state \<Rightarrow>
   ((string \<times> jsval) list \<times> parser_state) option" where
  "pbir_parsePageVisuals processVisualData fileMap pageName st =
     pbir_visualsLoop processVisualData fileMap pageName
       (filter (\<lambda>entry. is_visual_path pageName (fst entry)) fileMap) ([], st)"

text \<open>\<^verbatim>\<open>PBIRParser.parsePages\<close>. Reading \<^verbatim>\<open>pagesData.pages\<close> throws when
  pages.json did not parse.\<close>

fun pbir_pagesLoop ::
  "visual_processor \<Rightarrow> (string \<times> jsval) list \<Rightarrow> (string \<times> jsval) list \<Rightarrow>
   parser_state \<Rightarrow> parser_state option" where
  "pbir_pagesLoop processVisualData fileMap [] st = Some st"
| "pbir_pagesLoop processVisualData fileMap (entry # rest) st =
     (let pageName = extractPageName (fst entry);
          pageData = snd entry
      in case pbir_parsePageVisuals processVisualData fileMap pageName st of
           None \<Rightarrow> None
         | Some (pageVisuals, st1) \<Rightarrow>
             pbir_pagesLoop processVisualData fileMap rest
               (st1\<lparr>pages :=
                     map_set pageName
                       (Obj (map_set ''visuals'' (Obj pageVisuals)
                               (map_set ''name'' (Str pageName) (js_spread pageData))))
                       (pages st1)\<rparr>))"

definition pbir_parsePages ::
  "visual_processor \<Rightarrow> (string \<times> jsval) list \<Rightarrow> parser_state \<Rightarrow> parser_state option" where
  "pbir_parsePages processVisualData fileMap st =
     (case (case pbir_findFile fileMap ''definition/pages/pages.json'' of
              Some pagesData \<Rightarrow> js_get pagesData ''pages''
            | None \<Rightarrow> Some Undefined) of
        None \<Rightarrow> None
      | Some pagesList \<Rightarrow>
          pbir_pagesLoop processVisualData fileMap
            (filter (\<lambda>entry. is_page_path (fst entry)) fileMap) st)"

text \<open>\<^verbatim>\<open>PBIRParser.parseBookmarks\<close>.\<close>

definition pbir_bookmarkStep :: "parser_state \<Rightarrow> string \<times> jsval \<Rightarrow> parser_state" where
  "pbir_bookmarkStep st entry =
     st\<lparr>bookmarks := map_set (extractBookmarkName (fst entry)) (snd entry) (bookmarks st)\<rparr>"

definition pbir_parseBookmarks :: "(string \<times> jsval) list \<Rightarrow> parser_state \<Rightarrow> parser_state" where
  "pbir_parseBookmarks fileMap st =
     (case pbir_findFile fileMap ''definition/bookmarks/bookmarks.json'' of
        Some bookmarksData \<Rightarrow>
          foldl pbir_bookmarkStep st (filter (\<lambda>entry. is_bookmark_path (fst entry)) fileMap)
      | None \<Rightarrow> st)"

text \<open>\<^verbatim>\<open>PBIRParser.parseFiles\<close>, from the file map on.\<close>

definition pbir_initial :: parser_state where
  "pbir_initial = \<lparr>reportData = Null, pages = [], visuals = [], bookmarks = []\<rparr>"

definition pbir_parseFiles ::
  "visual_processor \<Rightarrow> (string \<times> jsval) list \<Rightarrow> parser_state option" where
  "pbir_parseFiles processVisualData fileMap =
     map_option (pbir_parseBookmarks fileMap)
       (pbir_parsePages processVisualData fileMap
          (pbir_parseReportStructure fileMap pbir_initial))"

text \<open>
  The documents an entry of the result is built from: the last entry of the file map
  with a path of the role and the identifier \<open>n\<close>.
\<close>

definition pbir_lastPage :: "(string \<times> jsval) list \<Rightarrow> string \<Rightarrow> (string \<times> jsval) option" where
  "pbir_lastPage fileMap n =
     find (\<lambda>entry. is_page_path (fst entry) \<and> extractPageName (fst entry) = n) (rev fileMap)"

definition pbir_lastVisual ::
  "(string \<times> jsval) list \<Rightarrow> string \<Rightarrow> string \<Rightarrow> (string \<times> jsval) option" where
  "pbir_lastVisual fileMap n vn =
     find (\<lambda>entry. is_visual_path n (fst entry) \<and> extractVisualName (fst entry) = vn)
       (rev fileMap)"

definition pbir_lastBookmark :: "(string \<times> jsval) list \<Rightarrow> string \<Rightarrow> (string \<times> jsval) option" where
  "pbir_lastBookmark fileMap n =
     find (\<lambda>entry. is_bookmark_path (fst entry) \<and> extractBookmarkName (fst entry) = n)
       (rev fileMap)"

section \<open>The report generator\<close>

text \<open>
  \<^verbatim>\<open>PBIRReportGenerator.extractVisualInfo\<close>. The display name and the type are the
  functions above; \<^verbatim>\<open>getVisualPosition\<close>, \<^verbatim>\<open>getVisualFields\<close> and
  \<^verbatim>\<open>getVisualFilters\<close> are parameters: each returns a value or throws.
\<close>

record visual_info =
  info_id :: string
  info_name :: string
  info_type :: jsval
  info_position :: jsval
  info_fields :: jsval
  info_filters :: jsval
  info_isHidden :: jsval

type_synonym extractor = "jsval \<Rightarrow> jsval option"

definition extractVisualInfo ::
  "extractor \<Rightarrow> extractor \<Rightarrow> extractor \<Rightarrow> string \<Rightarrow> jsval \<Rightarrow> visual_info option" where
  "extractVisualInfo getVisualPosition getVisualFields getVisualFilters visualName visualData = do {
     displayName \<leftarrow> getVisualDisplayName visualData;
     visualType \<leftarrow> getVisualType visualData;
     position \<leftarrow> getVisualPosition visualData;
     visualFields \<leftarrow> getVisualFields visualData;
     filters \<leftarrow> getVisualFilters visualData;
     isHidden \<leftarrow> js_get visualData ''isHidden'';
     Some \<lparr>info_id = visualName, info_name = displayName, info_type = visualType,
           info_position = position, info_fields = visualFields, info_filters = filters,
           info_isHidden = js_or isHidden (Bool False)\<rparr>
   }"

text \<open>\<^verbatim>\<open>PBIRReportGenerator.parseJsonFile\<close>: \<^verbatim>\<open>null\<close> when reading or parsing throws.\<close>

definition gen_parseJsonFile :: "source_file \<Rightarrow> jsval" where
  "gen_parseJsonFile f = (case content f of Inl message \<Rightarrow> Null | Inr data \<Rightarrow> data)"

text \<open>
  \<^verbatim>\<open>array.sort(compare)\<close> is stable. For a consistent comparator every stable sort
  returns the same array; it is computed here by insertion from the right, an element
  going in front of the first one it does not exceed.
\<close>

fun insert_sorted :: "('a \<Rightarrow> 'a \<Rightarrow> int) \<Rightarrow> 'a \<Rightarrow> 'a list \<Rightarrow> 'a list" where
  "insert_sorted compare x [] = [x]"
| "insert_sorted compare x (y # ys) =
     (if compare x y \<le> 0 then x # y # ys else y # insert_sorted compare x ys)"

definition js_sort :: "('a \<Rightarrow> 'a \<Rightarrow> int) \<Rightarrow> 'a list \<Rightarrow> 'a list" where
  "js_sort compare xs = foldr (insert_sorted compare) xs []"

text \<open>
  \<^verbatim>\<open>PBIRReportGenerator.parsePageVisuals\<close>. \<^verbatim>\<open>String.prototype.localeCompare\<close>
  belongs to the host and is the parameter \<open>localeCompare\<close>.
\<close>

fun gen_visualsLoop ::
  "extractor \<Rightarrow> extractor \<Rightarrow> extractor \<Rightarrow> source_file list \<Rightarrow> visual_info list \<Rightarrow>
   visual_info list option" where
  "gen_visualsLoop getVisualPosition getVisualFields getVisualFilters [] acc = Some acc"
| "gen_visualsLoop getVisualPosition getVisualFields getVisualFilters (visualFile # rest) acc =
     (let visualName = extractVisualName (relativePath visualFile);
          visualData = gen_parseJsonFile visualFile
      in if truthy visualData then
           (case extractVisualInfo getVisualPosition getVisualFields getVisualFilters
                   visualName visualData of
              None \<Rightarrow> None
            | Some visualInfo \<Rightarrow>
                gen_visualsLoop getVisualPosition getVisualFields getVisualFilters rest
                  (acc @ [visualInfo]))
         else gen_visualsLoop getVisualPosition getVisualFields getVisualFilters rest acc)"

definition gen_parsePageVisuals ::
  "(string \<Rightarrow> string \<Rightarrow> int) \<Rightarrow> extractor \<Rightarrow> extractor \<Rightarrow> extractor \<Rightarrow>
   source_file list \<Rightarrow> string \<Rightarrow> visual_info list option" where
  "gen_parsePageVisuals localeCompare getVisualPosition getVisualFields getVisualFilters
     files pageName =
     map_option (js_sort (\<lambda>a b. localeCompare (info_name a) (info_name b)))
       (gen_visualsLoop getVisualPosition getVisualFields getVisualFilters
          (filter (\<lambda>f. is_visual_path pageName (relativePath f)) files) [])"

text \<open>A comparator a host could supply: comparison by code units.\<close>

fun compare_code_units :: "string \<Rightarrow> string \<Rightarrow> int" where
  "compare_code_units [] [] = 0"
| "compare_code_units [] (y # ys) = - 1"
| "compare_code_units (x # xs) [] = 1"
| "compare_code_units (x # xs) (y # ys) =
     (if (of_char x :: nat) < of_char y then - 1
      else if (of_char y :: nat) < of_char x then 1
      else compare_code_units xs ys)"

section \<open>Sample documents\<close>

text \<open>A visual document with a name and a title in the direct literal shape under
  \<^verbatim>\<open>visual.objects\<close>.\<close>

definition titled_visual :: "string \<Rightarrow> string \<Rightarrow> jsval" where
  "titled_visual n t =
     Obj [(''name'', Str n), (''visual'', Obj [(''objects'',
       Obj [(''title'', Arr [Obj [(''properties'', Obj [(''text'',
         Obj [(''literal'', Obj [(''value'', Str t)])])])]])])])]"

text \<open>A file map with two page documents, two visual documents and two bookmark
  documents whose paths all miss their patterns.\<close>

definition colliding_files :: "(string \<times> jsval) list" where
  "colliding_files =
     [(''definition/pages/page.json'', Obj [(''displayName'', Str ''First'')]),
      (''definition/pages/a/b/page.json'', Obj [(''displayName'', Str ''Second'')]),
      (''definition/pages/unknown/visuals/visual.json'', Obj [(''name'', Str ''v1'')]),
      (''definition/pages/unknown/visuals/a/b/visual.json'', Obj [(''name'', Str ''v2'')]),
      (''definition/bookmarks/bookmarks.json'', Obj [(''items'', Arr [])]),
      (''definition/bookmarks/.bookmark.json'', Obj [(''displayName'', Str ''B1'')]),
      (''definition/bookmarks/x/.bookmark.json'', Obj [(''displayName'', Str ''B2'')])]"

text \<open>A report directory without report.json: one page with one visual.\<close>

definition rootless_files :: "source_file list" where
  "rootless_files =
     [\<lparr>relativePath = ''definition/pages/P1/page.json'',
       content = Inr (Obj [(''displayName'', Str ''Overview'')])\<rparr>,
      \<lparr>relativePath = ''definition/pages/P1/visuals/v1/visual.json'',
       content = Inr (Obj [(''name'', Str ''v1''), (''position'', Obj [(''x'', Num 3)]),
                           (''visual'', Obj [(''visualType'', Str ''card'')])])\<rparr>]"

section \<open>Aggregation codes resolve to names\<close>

lemma getAggregationFunction_code:
  assumes "c = 0 \<or> c < 0 \<or> 8 < c"
  shows "getAggregationFunction (Num c) = Some (Str (if c = 0 then ''Sum'' else ''Unknown''))"
proof (cases "c = 0")
  case True
  then show ?thesis
    by (simp add: getAggregationFunction_def lookup_zero js_or_def)
next
  case False
  with assms have "c < 0 \<or> 8 < c" by simp
  then show ?thesis using False
    by (simp add: getAggregationFunction_def lookup_unmapped js_or_def)
qed

lemma parseProjectionField_code:
  assumes c: "c = 0 \<or> c < 0 \<or> 8 < c"
    and f: "js_get projection ''field'' = Some field"
    and a: "carries_aggregation [''Measure'', ''Column''] field c"
  shows "\<exists>r. parseProjectionField roleKey projection = Some r \<and>
             js_get r ''aggregation'' = Some (Str (if c = 0 then ''Sum'' else ''Unknown''))"
proof -
  from a obtain m cl ag where
    m: "js_get field ''Measure'' = Some m" "\<not> truthy m" and
    cl: "js_get field ''Column'' = Some cl" "\<not> truthy cl" and
    ag: "js_get field ''Aggregation'' = Some ag" "truthy ag" "js_get ag ''Function'' = Some (Num c)"
    and t: "truthy field"
    by (auto simp: carries_aggregation_def split: option.splits)
  from js_get_total [OF js_get_Some_not_nullish [OF f]]
  obtain q where q: "js_get projection ''queryRef'' = Some q" by blast
  from js_get_truthy [OF ag(2)] obtain e where e: "js_get ag ''Expression'' = Some e" by blast
  from js_opt_path_total
  obtain en where en: "js_opt_path e [''Column'', ''Expression'', ''SourceRef'', ''Entity''] = Some en"
    by blast
  from js_opt_path_total
  obtain pr where pr: "js_opt_path e [''Column'', ''Property''] = Some pr" by blast
  from aggregation_name [OF c, of "[(''0'', Str ''Sum''), (''1'', Str ''Average''), (''2'', Str ''Count (Distinct)''),
                (''3'', Str ''Min''), (''4'', Str ''Max''), (''5'', Str ''Count'')]"]
  obtain n where n: "js_lookup [(''0'', Str ''Sum''), (''1'', Str ''Average''), (''2'', Str ''Count (Distinct)''),
                (''3'', Str ''Min''), (''4'', Str ''Max''), (''5'', Str ''Count'')] (Num c) = Some n"
     "js_or n (Str ''Unknown'') = Str (if c = 0 then ''Sum'' else ''Unknown'')"
    by auto
  show ?thesis
    unfolding parseProjectionField_def
    using f t m cl ag q e en pr n by (simp del: js_opt_path.simps)
qed

lemma extractTableName_total: "\<exists>t. extractTableName e = Some t"
proof (cases "truthy e")
  case False
  then show ?thesis by (simp add: extractTableName_def)
next
  case True
  from js_get_truthy [OF True] obtain sr where sr: "js_get e ''SourceRef'' = Some sr" by blast
  from js_get_truthy [OF True] obtain cl where cl: "js_get e ''Column'' = Some cl" by blast
  show ?thesis
  proof (cases "truthy sr")
    case True
    from js_get_truthy [OF True] obtain en where "js_get sr ''Entity'' = Some en" by blast
    with \<open>truthy e\<close> sr True show ?thesis by (simp add: extractTableName_def)
  next
    case nsr: False
    show ?thesis
    proof (cases "truthy cl")
      case False
      with \<open>truthy e\<close> sr nsr cl show ?thesis by (simp add: extractTableName_def)
    next
      case True
      from js_get_truthy [OF True] obtain i where i: "js_get cl ''Expression'' = Some i" by blast
      show ?thesis
      proof (cases "truthy i")
        case False
        with \<open>truthy e\<close> sr nsr cl True i show ?thesis by (simp add: extractTableName_def)
      next
        case ti: True
        from js_get_truthy [OF ti] obtain ir where ir: "js_get i ''SourceRef'' = Some ir" by blast
        show ?thesis
        proof (cases "truthy ir")
          case False
          with \<open>truthy e\<close> sr nsr cl True i ti ir show ?thesis by (simp add: extractTableName_def)
        next
          case tir: True
          from js_get_truthy [OF tir] obtain en where "js_get ir ''Entity'' = Some en" by blast
          with \<open>truthy e\<close> sr nsr cl True i ti ir tir show ?thesis by (simp add: extractTableName_def)
        qed
      qed
    qed
  qed
qed

lemma extractFieldName_total: "\<exists>t. extractFieldName e = Some t"
proof (cases "truthy e")
  case False
  then show ?thesis by (simp add: extractFieldName_def)
next
  case True
  from js_get_truthy [OF True] obtain cl where cl: "js_get e ''Column'' = Some cl" by blast
  show ?thesis
  proof (cases "truthy cl")
    case False
    with True cl show ?thesis by (simp add: extractFieldName_def)
  next
    case tc: True
    from js_get_truthy [OF tc] obtain pr where "js_get cl ''Property'' = Some pr" by blast
    with True cl tc show ?thesis by (simp add: extractFieldName_def)
  qed
qed

lemma parseFieldFromSelect_code:
  assumes c: "c = 0 \<or> c < 0 \<or> 8 < c"
    and a: "carries_aggregation [''Measure'', ''Column''] select c"
  shows "\<exists>r. parseFieldFromSelect select = Some r \<and>
             js_get r ''aggregation'' = Some (Str (if c = 0 then ''Sum'' else ''Unknown''))"
proof -
  from a obtain m cl ag where
    m: "js_get select ''Measure'' = Some m" "\<not> truthy m" and
    cl: "js_get select ''Column'' = Some cl" "\<not> truthy cl" and
    ag: "js_get select ''Aggregation'' = Some ag" "truthy ag" "js_get ag ''Function'' = Some (Num c)"
    and t: "truthy select"
    by (auto simp: carries_aggregation_def split: option.splits)
  from js_get_truthy [OF t] obtain q where q: "js_get select ''Name'' = Some q" by blast
  from js_get_truthy [OF ag(2)] obtain e where e: "js_get ag ''Expression'' = Some e" by blast
  from extractTableName_total obtain tb where tb: "extractTableName e = Some tb" by blast
  from extractFieldName_total obtain fd where fd: "extractFieldName e = Some fd" by blast
  from aggregation_name [OF c, of "[(''0'', Str ''Sum''), (''1'', Str ''Average''), (''2'', Str ''Count (Distinct)''),
                (''3'', Str ''Min''), (''4'', Str ''Max''), (''5'', Str ''Count'')]"]
  obtain n where n: "js_lookup [(''0'', Str ''Sum''), (''1'', Str ''Average''), (''2'', Str ''Count (Distinct)''),
                (''3'', Str ''Min''), (''4'', Str ''Max''), (''5'', Str ''Count'')] (Num c) = Some n"
     "js_or n (Str ''Unknown'') = Str (if c = 0 then ''Sum'' else ''Unknown'')"
    by auto
  show ?thesis
    unfolding parseFieldFromSelect_def
    using t m cl ag q e tb fd n by simp
qed

lemma parseSelectExpression_code:
  assumes c: "c = 0 \<or> c < 0 \<or> 8 < c"
    and a: "carries_aggregation [''Measure'', ''Column'', ''Hierarchy''] select c"
  shows "\<exists>r. parseSelectExpression select = Some r \<and>
             js_get r ''aggregation'' = Some (Str (if c = 0 then ''Sum'' else ''Unknown''))"
proof -
  from a obtain m cl h ag where
    m: "js_get select ''Measure'' = Some m" "\<not> truthy m" and
    cl: "js_get select ''Column'' = Some cl" "\<not> truthy cl" and
    h: "js_get select ''Hierarchy'' = Some h" "\<not> truthy h" and
    ag: "js_get select ''Aggregation'' = Some ag" "truthy ag" "js_get ag ''Function'' = Some (Num c)"
    and t: "truthy select"
    by (auto simp: carries_aggregation_def split: option.splits)
  from js_get_truthy [OF t] obtain q where q: "js_get select ''Name'' = Some q" by blast
  from js_get_truthy [OF ag(2)] obtain e where e: "js_get ag ''Expression'' = Some e" by blast
  from aggregation_name [OF c, of aggregationFunctions]
  obtain n where n: "js_lookup aggregationFunctions (Num c) = Some n"
     "js_or n (Str ''Unknown'') = Str (if c = 0 then ''Sum'' else ''Unknown'')"
    by (auto simp: aggregationFunctions_def)
  show ?thesis
    unfolding parseSelectExpression_def
    using t m cl h ag q e n by simp
qed

text \<open>
  C6. At each of the four places that turn an aggregation function code into a name
  (\<^verbatim>\<open>getAggregationFunction\<close>, \<^verbatim>\<open>parseProjectionField\<close>,
  \<^verbatim>\<open>parseFieldFromSelect\<close>, \<^verbatim>\<open>parseSelectExpression\<close>) the code 0
  resolves to \<^verbatim>\<open>Sum\<close>, and a code that no table maps (below 0 or above 8, such as
  99) resolves to \<^verbatim>\<open>Unknown\<close>; the extractor returns a record and does not throw.
\<close>

theorem aggregation_code_resolution:
  assumes "c = 0 \<or> c < 0 \<or> 8 < c"
  shows "getAggregationFunction (Num c) = Some (Str (if c = 0 then ''Sum'' else ''Unknown'')) \<and>
    (js_get projection ''field'' = Some field \<and> carries_aggregation [''Measure'', ''Column''] field c \<longrightarrow>
       (\<exists>r. parseProjectionField roleKey projection = Some r \<and>
            js_get r ''aggregation'' = Some (Str (if c = 0 then ''Sum'' else ''Unknown'')))) \<and>
    (carries_aggregation [''Measure'', ''Column''] select c \<longrightarrow>
       (\<exists>r. parseFieldFromSelect select = Some r \<and>
            js_get r ''aggregation'' = Some (Str (if c = 0 then ''Sum'' else ''Unknown'')))) \<and>
    (carries_aggregation [''Measure'', ''Column'', ''Hierarchy''] select c \<longrightarrow>
       (\<exists>r. parseSelectExpression select = Some r \<and>
            js_get r ''aggregation'' = Some (Str (if c = 0 then ''Sum'' else ''Unknown''))))"
  using getAggregationFunction_code [OF assms] parseProjectionField_code [OF assms]
    parseFieldFromSelect_code [OF assms] parseSelectExpression_code [OF assms]
  by blast

theorem aggregation_code_resolution_witness:
  "getAggregationFunction (Num 99) = Some (Str ''Unknown'') \<and>
   (\<exists>r. parseProjectionField (Str ''Values'')
           (Obj [(''field'', Obj [(''Aggregation'', Obj [(''Function'', Num 99)])])]) = Some r \<and>
        js_get r ''aggregation'' = Some (Str ''Unknown'')) \<and>
   (\<exists>r. parseFieldFromSelect (Obj [(''Aggregation'', Obj [(''Function'', Num 99)])]) = Some r \<and>
        js_get r ''aggregation'' = Some (Str ''Unknown'')) \<and>
   (\<exists>r. parseSelectExpression (Obj [(''Aggregation'', Obj [(''Function'', Num 99)])]) = Some r \<and>
        js_get r ''aggregation'' = Some (Str ''Unknown''))"
  using aggregation_code_resolution [where c = 99
      and projection = "Obj [(''field'', Obj [(''Aggregation'', Obj [(''Function'', Num 99)])])]"
      and field = "Obj [(''Aggregation'', Obj [(''Function'', Num 99)])]"
      and roleKey = "Str ''Values''"
      and select = "Obj [(''Aggregation'', Obj [(''Function'', Num 99)])]"]
  by (simp add: carries_aggregation_def object_prototype_keys_def)

section \<open>Visual type resolution\<close>

text \<open>
  C2 as stated fails at the boundary: a raw type of exactly 30 characters without the
  token \<^verbatim>\<open>CV_\<close> is not canonicalised to \<^verbatim>\<open>Custom Visual\<close>; the test in
  \<^verbatim>\<open>getVisualType\<close> is \<^verbatim>\<open>visualType.length > 30\<close>. The string is in no
  table, so it passes through unchanged.
\<close>

theorem visual_type_thirty_counterexample: "length ''aaaaaaaaaaaaaaaaaaaaaaaaaaaaaa'' = 30 \<and>
  rawVisualType (Obj [(''visual'', Obj [(''visualType'', Str ''aaaaaaaaaaaaaaaaaaaaaaaaaaaaaa'')])])
   = Some (Str ''aaaaaaaaaaaaaaaaaaaaaaaaaaaaaa'') \<and>
  getVisualType (Obj [(''visual'', Obj [(''visualType'', Str ''aaaaaaaaaaaaaaaaaaaaaaaaaaaaaa'')])])
   = Some (Str ''aaaaaaaaaaaaaaaaaaaaaaaaaaaaaa'')"
  by (simp add: getVisualType_def rawVisualType_def js_lookup_def typeMapping_def js_or_def
      object_prototype_keys_def sublist_code(3))

text \<open>No key of the mapping table looks like a custom visual, and every mapped name is
  a non-empty string.\<close>

lemma typeMapping_all_plain:
  "list_all (\<lambda>(k, v). \<not> prefix ''PBI_CV_'' k \<and> \<not> sublist ''CV_'' k \<and> \<not> length k > 30 \<and> truthy v)
     typeMapping"
  unfolding typeMapping_def by code_simp

lemma typeMapping_keys_plain:
  assumes "map_of typeMapping s = Some d"
  shows "\<not> prefix ''PBI_CV_'' s \<and> \<not> sublist ''CV_'' s \<and> \<not> length s > 30 \<and> truthy d"
proof -
  from assms have "(s, d) \<in> set typeMapping" by (rule map_of_SomeD)
  with typeMapping_all_plain show ?thesis
    unfolding list_all_iff by blast
qed

text \<open>
  C2, amended. For every visual document whose raw type is the string \<open>s\<close>: when
  \<open>s\<close> contains \<^verbatim>\<open>CV_\<close> or is longer than 30 characters, type resolution
  returns \<^verbatim>\<open>Custom Visual\<close>; when \<open>s\<close> is a key of the mapping table, it
  returns exactly the mapped display name.
\<close>

theorem visual_type_resolution:
  assumes "rawVisualType visualData = Some (Str s)"
  shows "(sublist ''CV_'' s \<or> 30 < length s \<longrightarrow>
            getVisualType visualData = Some (Str ''Custom Visual'')) \<and>
         (\<forall>d. map_of typeMapping s = Some d \<longrightarrow> getVisualType visualData = Some d)"
proof (intro conjI allI impI)
  assume "sublist ''CV_'' s \<or> 30 < length s"
  with assms show "getVisualType visualData = Some (Str ''Custom Visual'')"
    by (auto simp: getVisualType_def)
next
  fix d assume d: "map_of typeMapping s = Some d"
  from typeMapping_keys_plain [OF d] assms d
  show "getVisualType visualData = Some d"
    by (simp add: getVisualType_def js_lookup_def js_or_def)
qed

theorem visual_type_resolution_witness:
  "getVisualType (Obj [(''visual'', Obj [(''visualType'', Str ''card'')])]) = Some (Str ''Card'') \<and>
   getVisualType (Obj [(''visual'', Obj [(''singleVisual'',
       Obj [(''visualType'', Str ''PBI_CV_9D783E83'')])])]) = Some (Str ''Custom Visual'')"
  using visual_type_resolution [where s = "''card''"
      and visualData = "Obj [(''visual'', Obj [(''visualType'', Str ''card'')])]"]
    visual_type_resolution [where s = "''PBI_CV_9D783E83''"
      and visualData = "Obj [(''visual'', Obj [(''singleVisual'',
             Obj [(''visualType'', Str ''PBI_CV_9D783E83'')])])]"]
  by (simp add: rawVisualType_def typeMapping_def object_prototype_keys_def sublist_code(3))

section \<open>Literal resolution\<close>

text \<open>
  C3 as stated fails on both of its last two points. An expression-literal wrapper
  \<^verbatim>\<open>{expr: {Literal: {Value: "'abc'"}}}\<close> is returned as it is, not resolved to
  \<^verbatim>\<open>abc\<close>; and a wrapper that matches no shape is returned as it is, not replaced
  by \<^verbatim>\<open>null\<close>.
\<close>

theorem literal_resolver_counterexample:
  "extractLiteralValue
     (Obj [(''expr'', Obj [(''Literal'', Obj [(''Value'', Str (CHR 0x27 # ''abc'' @ [CHR 0x27]))])])])
     = Some (Obj [(''expr'', Obj [(''Literal'', Obj [(''Value'', Str (CHR 0x27 # ''abc'' @ [CHR 0x27]))])])]) \<and>
   extractLiteralValue (Obj [(''unit'', Str ''px'')]) = Some (Obj [(''unit'', Str ''px'')])"
  by (simp add: extractLiteralValue_def object_prototype_keys_def)

text \<open>
  C3, amended. For every property-value wrapper \<^verbatim>\<open>extractLiteralValue\<close> returns
  without throwing, and it tries two shapes in this order. A missing or falsy wrapper
  yields \<^verbatim>\<open>null\<close>. Otherwise a truthy \<^verbatim>\<open>literal\<close> property yields
  \<^verbatim>\<open>literal.value\<close> as it is, whatever else the wrapper holds; otherwise a truthy
  \<^verbatim>\<open>solid\<close> property yields \<^verbatim>\<open>solid.color\<close>; otherwise, in particular for
  an expression-literal wrapper, the wrapper itself is returned unchanged.
\<close>

theorem literal_resolver_order:
  "(\<exists>r. extractLiteralValue property = Some r) \<and>
   (\<not> truthy property \<longrightarrow> extractLiteralValue property = Some Null) \<and>
   (truthy property \<longrightarrow>
      (\<exists>literal. js_get property ''literal'' = Some literal \<and>
         (truthy literal \<longrightarrow>
            (\<exists>v. js_get literal ''value'' = Some v \<and> extractLiteralValue property = Some v)) \<and>
         (\<not> truthy literal \<longrightarrow>
            (\<exists>solid. js_get property ''solid'' = Some solid \<and>
               (truthy solid \<longrightarrow>
                  (\<exists>c. js_get solid ''color'' = Some c \<and> extractLiteralValue property = Some c)) \<and>
               (\<not> truthy solid \<longrightarrow> extractLiteralValue property = Some property)))))"
proof (cases "truthy property")
  case False
  then show ?thesis by (simp add: extractLiteralValue_def)
next
  case True
  from js_get_truthy [OF True] obtain l where l: "js_get property ''literal'' = Some l" by blast
  from js_get_truthy [OF True] obtain s where s: "js_get property ''solid'' = Some s" by blast
  show ?thesis
  proof (cases "truthy l")
    case tl: True
    from js_get_truthy [OF tl] obtain v where "js_get l ''value'' = Some v" by blast
    with True l tl show ?thesis by (simp add: extractLiteralValue_def)
  next
    case fl: False
    show ?thesis
    proof (cases "truthy s")
      case ts: True
      from js_get_truthy [OF ts] obtain c where "js_get s ''color'' = Some c" by blast
      with True l fl s ts show ?thesis by (simp add: extractLiteralValue_def)
    next
      case False
      with True l fl s show ?thesis by (simp add: extractLiteralValue_def)
    qed
  qed
qed

theorem literal_resolver_order_witness:
  "extractLiteralValue (Obj [(''solid'', Obj [(''color'', Str ''#118DFF'')])]) = Some (Str ''#118DFF'') \<and>
   extractLiteralValue (Obj [(''literal'', Obj [(''value'', Str ''Sales'')]),
                             (''solid'', Obj [(''color'', Str ''#118DFF'')])]) = Some (Str ''Sales'') \<and>
   extractLiteralValue Undefined = Some Null"
  using literal_resolver_order [of "Obj [(''solid'', Obj [(''color'', Str ''#118DFF'')])]"]
    literal_resolver_order [of "Obj [(''literal'', Obj [(''value'', Str ''Sales'')]),
                             (''solid'', Obj [(''color'', Str ''#118DFF'')])]"]
    literal_resolver_order [of Undefined]
  by (simp add: object_prototype_keys_def)

section \<open>Filter rendering\<close>







text \<open>
  Two remarks on other encodings of the same filter. A comparison kind given as its
  numeric code is printed as the number: the renderer has no table of kinds. And an
  \<^verbatim>\<open>And\<close> node that holds its children as an object with the properties
  \<^verbatim>\<open>Left\<close> and \<^verbatim>\<open>Right\<close> makes the renderer throw, as an object has no
  \<^verbatim>\<open>map\<close>.
\<close>

lemma filter_rendering_numeric_kind:
  "formatFilterObject stringify
     (Obj [(''And'', Arr
        [Obj [(''In'', Obj [(''Expressions'', Arr [Str ''A'', Str ''B''])])],
         Obj [(''Comparison'', Obj [(''ComparisonKind'', Num 1),
                                    (''Right'', Obj [(''Literal'', Obj [(''Value'', Num 10)])])])]])])
   = Some (Str ''(IN (A, B) AND 1 10)'')"
  by (simp add: formatFilterObject.simps formatExpression_def js_join_def number_to_string_ten
      number_to_string_one object_prototype_keys_def)

lemma filter_rendering_left_right:
  "formatFilterObject stringify
     (Obj [(''And'', Obj
        [(''Left'', Obj [(''In'', Obj [(''Expressions'', Arr [Str ''A'', Str ''B''])])]),
         (''Right'', Obj [(''Comparison'', Obj [(''ComparisonKind'', Str ''GreaterThan''),
                                    (''Right'', Obj [(''Literal'', Obj [(''Value'', Num 10)])])])])])])
   = None"
  by (simp add: formatFilterObject.simps object_prototype_keys_def)

section \<open>Position and layout\<close>

lemma or_zero_total: "truthy pos \<Longrightarrow> \<exists>p. js_get pos k = Some p \<and> or_zero pos k = Some (js_or p (Num 0))"
  using js_get_truthy [of pos k] by (auto simp: or_zero_def)

lemma js_or_zero_not_nullish: "\<not> nullish (js_or p (Num 0))"
  by (cases p) (auto simp: js_or_def nullish_def)

lemma js_or_zero_negative: "js_or p (Num 0) = Num n \<Longrightarrow> n < 0 \<Longrightarrow> p = Num n"
  by (auto simp: js_or_def split: if_splits)

lemma coordinate_of_or_zero:
  "truthy pos \<Longrightarrow> \<exists>v. or_zero pos k = Some v \<and> coordinate_of pos k v"
  using or_zero_total [of pos k] by (auto simp: coordinate_of_def js_or_zero_not_nullish)

lemma extractLayoutEnhanced_coordinate:
  assumes "js_get visualData ''position'' = Some pos"
    and "k \<in> set [''x'', ''y'', ''z'', ''width'', ''height'']"
  shows "\<exists>layout v. extractLayoutEnhanced visualData = Some layout \<and>
           js_get layout k = Some v \<and> coordinate_of pos k v"
proof (cases "truthy pos")
  case False
  with assms show ?thesis
    by (auto simp: extractLayoutEnhanced_def coordinate_of_def nullish_def)
next
  case True
  from coordinate_of_or_zero [OF True] obtain x y z w h where
    c: "or_zero pos ''x'' = Some x" "coordinate_of pos ''x'' x"
       "or_zero pos ''y'' = Some y" "coordinate_of pos ''y'' y"
       "or_zero pos ''z'' = Some z" "coordinate_of pos ''z'' z"
       "or_zero pos ''width'' = Some w" "coordinate_of pos ''width'' w"
       "or_zero pos ''height'' = Some h" "coordinate_of pos ''height'' h"
    by metis
  from js_get_truthy [OF True] obtain t a where
    t: "js_get pos ''tabOrder'' = Some t" "js_get pos ''angle'' = Some a" by metis
  from assms True c t show ?thesis
    by (auto simp: extractLayoutEnhanced_def)
qed

lemma extractLayout_coordinate:
  assumes "js_get visualData ''position'' = Some pos"
    and "k \<in> set [''x'', ''y'', ''z'', ''width'', ''height'', ''tabOrder'']"
  shows "\<exists>layout v. extractLayout visualData = Some layout \<and>
           js_get layout k = Some v \<and> coordinate_of pos k v"
proof (cases "truthy pos")
  case False
  with assms show ?thesis
    by (auto simp: extractLayout_def coordinate_of_def nullish_def)
next
  case True
  from coordinate_of_or_zero [OF True] obtain x y z w h t where
    c: "or_zero pos ''x'' = Some x" "coordinate_of pos ''x'' x"
       "or_zero pos ''y'' = Some y" "coordinate_of pos ''y'' y"
       "or_zero pos ''z'' = Some z" "coordinate_of pos ''z'' z"
       "or_zero pos ''width'' = Some w" "coordinate_of pos ''width'' w"
       "or_zero pos ''height'' = Some h" "coordinate_of pos ''height'' h"
       "or_zero pos ''tabOrder'' = Some t" "coordinate_of pos ''tabOrder'' t"
    by metis
  from assms True c show ?thesis
    by (auto simp: extractLayout_def)
qed

lemma validatePosition_coordinate:
  assumes "truthy pos"
    and "k \<in> set [''x'', ''y'', ''z'', ''width'', ''height'']"
  shows "\<exists>r v. validatePosition pos = Some r \<and> js_get r k = Some v \<and> coordinate_of pos k v"
proof -
  from coordinate_of_or_zero [OF assms(1)] obtain x y z w h where
    c: "or_zero pos ''x'' = Some x" "coordinate_of pos ''x'' x"
       "or_zero pos ''y'' = Some y" "coordinate_of pos ''y'' y"
       "or_zero pos ''z'' = Some z" "coordinate_of pos ''z'' z"
       "or_zero pos ''width'' = Some w" "coordinate_of pos ''width'' w"
       "or_zero pos ''height'' = Some h" "coordinate_of pos ''height'' h"
    by metis
  from js_get_truthy [OF assms(1)] obtain t a where
    t: "js_get pos ''tabOrder'' = Some t" "js_get pos ''angle'' = Some a" by metis
  from assms c t show ?thesis
    by (auto simp: validatePosition_def)
qed

lemma coordinate_of_negative:
  "coordinate_of pos k (Num n) \<Longrightarrow> n < 0 \<Longrightarrow> truthy pos \<and> js_get pos k = Some (Num n)"
  by (auto simp: coordinate_of_def dest: js_or_zero_negative split: if_splits)

text \<open>
  C9 as stated fails. A negative width in the document is copied into the layout record
  by \<^verbatim>\<open>extractLayoutEnhanced\<close> and by \<^verbatim>\<open>extractLayout\<close>: nothing clamps it.
  Not every missing value defaults to 0: \<^verbatim>\<open>tabOrder\<close> and \<^verbatim>\<open>angle\<close> of
  \<^verbatim>\<open>extractLayoutEnhanced\<close> are \<^verbatim>\<open>undefined\<close> when the position lacks them
  and \<^verbatim>\<open>null\<close> when the document has no position. And for a document without a
  position \<^verbatim>\<open>validatePosition\<close> returns \<^verbatim>\<open>null\<close> in place of the record.
\<close>

theorem layout_counterexample:
  "extractLayoutEnhanced (Obj [(''position'', Obj [(''width'', Num (- 5)), (''height'', Num 40)])])
     = Some (Obj [(''x'', Num 0), (''y'', Num 0), (''width'', Num (- 5)), (''height'', Num 40),
                  (''z'', Num 0), (''tabOrder'', Undefined), (''angle'', Undefined)]) \<and>
   extractLayout (Obj [(''position'', Obj [(''width'', Num (- 5)), (''height'', Num 40)])])
     = Some (Obj [(''x'', Num 0), (''y'', Num 0), (''width'', Num (- 5)), (''height'', Num 40),
                  (''z'', Num 0), (''tabOrder'', Num 0)]) \<and>
   extractLayoutEnhanced (Obj [(''name'', Str ''v1'')])
     = Some (Obj [(''x'', Num 0), (''y'', Num 0), (''width'', Num 0), (''height'', Num 0),
                  (''z'', Num 0), (''tabOrder'', Null), (''angle'', Null)]) \<and>
   js_get (Obj [(''name'', Str ''v1'')]) ''position'' = Some Undefined \<and>
   validatePosition Undefined = Some Null"
  by (simp add: extractLayoutEnhanced_def extractLayout_def validatePosition_def or_zero_def
      js_or_def object_prototype_keys_def)

text \<open>
  C9, amended. For every visual document (any value that is not \<^verbatim>\<open>null\<close> or
  \<^verbatim>\<open>undefined\<close>) and each of the coordinates x, y, z, width and height, the layout
  record of \<^verbatim>\<open>extractLayoutEnhanced\<close> and the layout record of
  \<^verbatim>\<open>extractLayout\<close> hold a value that is never \<^verbatim>\<open>null\<close> or
  \<^verbatim>\<open>undefined\<close>: the document's value when truthy, 0 when it is missing or falsy.
  \<^verbatim>\<open>validatePosition\<close> returns such a record when the document's position is
  truthy, and returns \<^verbatim>\<open>null\<close> instead of a record when it is missing or falsy.
  A negative width or height appears only when the document's own value is that negative
  number.
\<close>

theorem layout_defaults:
  assumes "js_get visualData ''position'' = Some pos"
    and "k \<in> set [''x'', ''y'', ''z'', ''width'', ''height'']"
  shows "(\<exists>layout v. extractLayoutEnhanced visualData = Some layout \<and>
            js_get layout k = Some v \<and> coordinate_of pos k v) \<and>
         (\<exists>layout v. extractLayout visualData = Some layout \<and>
            js_get layout k = Some v \<and> coordinate_of pos k v) \<and>
         (truthy pos \<longrightarrow>
            (\<exists>r v. validatePosition pos = Some r \<and> js_get r k = Some v \<and> coordinate_of pos k v)) \<and>
         (\<not> truthy pos \<longrightarrow> validatePosition pos = Some Null) \<and>
         (\<forall>n. coordinate_of pos k (Num n) \<and> n < 0 \<longrightarrow> js_get pos k = Some (Num n))"
  using extractLayoutEnhanced_coordinate [OF assms] extractLayout_coordinate [OF assms(1), of k]
    validatePosition_coordinate [OF _ assms(2), of pos] coordinate_of_negative [of pos k] assms(2)
  by (auto simp: validatePosition_def)

theorem layout_defaults_witness:
  "(\<exists>layout. extractLayoutEnhanced (Obj [(''position'', Obj [(''x'', Num 12), (''height'', Null)])])
       = Some layout \<and> js_get layout ''width'' = Some (Num 0)) \<and>
   (\<exists>layout. extractLayout (Obj [(''position'', Obj [(''x'', Num 12), (''height'', Null)])])
       = Some layout \<and> js_get layout ''width'' = Some (Num 0)) \<and>
   (\<exists>r. validatePosition (Obj [(''x'', Num 12), (''height'', Null)]) = Some r \<and>
       js_get r ''width'' = Some (Num 0))"
  using layout_defaults [where visualData = "Obj [(''position'', Obj [(''x'', Num 12), (''height'', Null)])]"
      and pos = "Obj [(''x'', Num 12), (''height'', Null)]" and k = "''width''"]
  by (simp add: coordinate_of_def object_prototype_keys_def js_or_def nullish_def)

section \<open>Title resolution\<close>

lemma container_title_resolves:
  assumes co: "containerObjects visualData = Some container"
    and p: "js_path container
              [''title'', ''0'', ''properties'', ''text'', ''expr'', ''Literal'', ''Value'']
            = Some (Str v)"
    and t: "js_trim (strip_quotes v) \<noteq> []" "js_trim (strip_quotes v) \<noteq> ''Title''"
  shows "containerTitle visualData = returns (js_trim (strip_quotes v))"
proof -
  from p obtain ti tc pr tx ex li where
    g: "js_get container ''title'' = Some ti" "js_get ti ''0'' = Some tc"
       "js_get tc ''properties'' = Some pr" "js_get pr ''text'' = Some tx"
       "js_get tx ''expr'' = Some ex" "js_get ex ''Literal'' = Some li"
       "js_get li ''Value'' = Some (Str v)"
    by (auto split: option.splits)
  from t(1) have "v \<noteq> []" by (auto simp: js_trim_def strip_quotes_def)
  then have tv: "truthy (Str v)" by simp
  from js_get_truthy_parent [OF g(7) tv] have tl: "truthy li" by simp
  from js_get_truthy_parent [OF g(6) tl] have te: "truthy ex" by simp
  from js_get_truthy_parent [OF g(5) te] have tt: "truthy tx" by simp
  from js_get_truthy_parent [OF g(4) tt] have tp: "truthy pr" by simp
  from js_get_truthy_parent [OF g(3) tp] have tc: "truthy tc" by simp
  from js_get_truthy_parent [OF g(2) tc] have tti: "truthy ti" by simp
  from js_get_truthy_parent [OF g(1) tti] have tco: "truthy container" by simp
  show ?thesis
    unfolding containerTitle_def
    using co g tv tl te tt tp tc tti tco t \<open>v \<noteq> []\<close>
    by (simp add: quotedTitle_def)
qed

text \<open>
  C1, amended. The container-level title is read from the container objects that
  \<^verbatim>\<open>getVisualDisplayName\<close> selects: \<^verbatim>\<open>visual.visualContainerObjects\<close> when that
  is truthy, and the root-level \<^verbatim>\<open>visualContainerObjects\<close> otherwise. For every
  visual document whose selected container objects carry the title as an expression
  literal (\<^verbatim>\<open>title[0].properties.text.expr.Literal.Value\<close>) that is, once one
  surrounding quote is stripped on each side and the white space trimmed, non-empty and
  not the placeholder \<^verbatim>\<open>Title\<close>, title resolution returns that container-level
  value, whatever the legacy objects title and every other part of the document hold.
\<close>

theorem container_title_wins:
  assumes "containerObjects visualData = Some container"
    and "js_path container
           [''title'', ''0'', ''properties'', ''text'', ''expr'', ''Literal'', ''Value'']
         = Some (Str v)"
    and "js_trim (strip_quotes v) \<noteq> []" and "js_trim (strip_quotes v) \<noteq> ''Title''"
  shows "getVisualDisplayName visualData = Some (js_trim (strip_quotes v))"
  using container_title_resolves [OF assms]
  by (simp add: getVisualDisplayName_def orelse_def returns_def)

theorem container_title_wins_witness:
  "getVisualDisplayName
     (Obj [(''name'', Str ''44929275ab''),
           (''visual'', Obj
              [(''visualType'', Str ''lineChart''),
               (''visualContainerObjects'', Obj [(''title'', Arr [Obj [(''properties'', Obj [(''text'',
                   Obj [(''expr'', Obj [(''Literal'', Obj [(''Value'',
                      Str (CHR 0x27 # ''Revenue Trend'' @ [CHR 0x27]))])])])])]])]),
               (''singleVisual'', Obj [(''objects'', Obj [(''title'', Arr [Obj [(''properties'',
                   Obj [(''text'', Obj [(''literal'', Obj [(''value'', Str ''Chart1'')])])])]])])])])])
   = Some ''Revenue Trend''"
  using container_title_wins [where v = "CHR 0x27 # ''Revenue Trend'' @ [CHR 0x27]"
      and container = "Obj [(''title'', Arr [Obj [(''properties'', Obj [(''text'',
                   Obj [(''expr'', Obj [(''Literal'', Obj [(''Value'',
                      Str (CHR 0x27 # ''Revenue Trend'' @ [CHR 0x27]))])])])])]])]"
      and visualData = "Obj [(''name'', Str ''44929275ab''),
           (''visual'', Obj
              [(''visualType'', Str ''lineChart''),
               (''visualContainerObjects'', Obj [(''title'', Arr [Obj [(''properties'', Obj [(''text'',
                   Obj [(''expr'', Obj [(''Literal'', Obj [(''Value'',
                      Str (CHR 0x27 # ''Revenue Trend'' @ [CHR 0x27]))])])])])]])]),
               (''singleVisual'', Obj [(''objects'', Obj [(''title'', Arr [Obj [(''properties'',
                   Obj [(''text'', Obj [(''literal'', Obj [(''value'', Str ''Chart1'')])])])]])])])])]"]
  by (simp add: containerObjects_def js_opt_get_def nullish_def index_of_key_def digits.simps
      js_trim_def strip_quotes_def is_space_def)

text \<open>
  C1 as stated fails in two ways. When the container-level title is carried in the
  direct literal shape, both title wrappers of the first document below resolve, by the
  literal resolver, to non-empty strings that are not the placeholder; the container
  block of \<^verbatim>\<open>getVisualDisplayName\<close> reads \<^verbatim>\<open>text.expr\<close> only, so it falls
  through and the legacy title \<^verbatim>\<open>Chart1\<close> is returned instead of the container
  title \<^verbatim>\<open>Revenue Trend\<close>. And when \<^verbatim>\<open>visual.visualContainerObjects\<close> is
  present without a title, as in the second document, the root-level
  \<^verbatim>\<open>visualContainerObjects\<close> are not looked at, whatever shape their title has.
\<close>

theorem container_title_literal_counterexample:
  "extractLiteralValue (Obj [(''literal'', Obj [(''value'', Str ''Revenue Trend'')])])
     = Some (Str ''Revenue Trend'') \<and>
   extractLiteralValue (Obj [(''literal'', Obj [(''value'', Str ''Chart1'')])])
     = Some (Str ''Chart1'') \<and>
   getVisualDisplayName
     (Obj [(''name'', Str ''44929275ab''),
           (''visual'', Obj
              [(''visualType'', Str ''lineChart''),
               (''visualContainerObjects'', Obj [(''title'', Arr [Obj [(''properties'', Obj [(''text'',
                   Obj [(''literal'', Obj [(''value'', Str ''Revenue Trend'')])])])]])]),
               (''singleVisual'', Obj [(''objects'', Obj [(''title'', Arr [Obj [(''properties'',
                   Obj [(''text'', Obj [(''literal'', Obj [(''value'', Str ''Chart1'')])])])]])])])])])
   = Some ''Chart1'' \<and>
   getVisualDisplayName
     (Obj [(''name'', Str ''44929275ab''),
           (''visualContainerObjects'', Obj [(''title'', Arr [Obj [(''properties'', Obj [(''text'',
               Obj [(''expr'', Obj [(''Literal'', Obj [(''Value'',
                  Str (CHR 0x27 # ''Revenue Trend'' @ [CHR 0x27]))])])])])]])]),
           (''visual'', Obj
              [(''visualType'', Str ''lineChart''),
               (''visualContainerObjects'', Obj [(''border'', Arr [])]),
               (''singleVisual'', Obj [(''objects'', Obj [(''title'', Arr [Obj [(''properties'',
                   Obj [(''text'', Obj [(''literal'', Obj [(''value'', Str ''Chart1'')])])])]])])])])])
   = Some ''Chart1''"
  by (simp add: extractLiteralValue_def getVisualDisplayName_def containerTitle_def
      containerObjects_def configTitle_def singleVisualTitle_def literalTitle_def orelse_def
      returns_def falls_def js_opt_get_def nullish_def index_of_key_def digits.simps
      js_trim_def is_space_def object_prototype_keys_def)

section \<open>Merging the report documents\<close>

lemma map_of_map_set: "map_of (map_set k v m) k' = (if k' = k then Some v else map_of m k')"
  by (induction m) auto

lemma keys_map_set: "fst ` set (map_set k v m) = insert k (fst ` set m)"
  by (induction m) auto

lemma distinct_map_set: "distinct (map fst m) \<Longrightarrow> distinct (map fst (map_set k v m))"
  by (induction m) (auto simp: keys_map_set)

lemma reportData_parseLog [simp]: "reportData (parseLog validate f schemaName st) = reportData st"
  by (auto simp: parseLog_def split: sum.splits prod.splits)

text \<open>
  C5 as stated fails for the field named after the later document. When report.json
  itself has a field \<^verbatim>\<open>version\<close>, merging version.json replaces its value: both
  parsers build \<^verbatim>\<open>{ ...this.reportData, version: versionData }\<close>.
\<close>

theorem merge_overwrites_counterexample:
  "fields_of (reportData (cli_parseReport (\<lambda>d s. Inr (True, []))
      [\<lparr>relativePath = ''definition/report.json'',
        content = Inr (Obj [(''version'', Str ''5.0''), (''theme'', Str ''Dark'')])\<rparr>,
       \<lparr>relativePath = ''definition/version.json'',
        content = Inr (Obj [(''version'', Str ''2.0.0'')])\<rparr>] cli_initial)) ''version''
     = Some (Str ''5.0'') \<and>
   fields_of (reportData (cli_parseReportStructure (\<lambda>d s. Inr (True, []))
      [\<lparr>relativePath = ''definition/report.json'',
        content = Inr (Obj [(''version'', Str ''5.0''), (''theme'', Str ''Dark'')])\<rparr>,
       \<lparr>relativePath = ''definition/version.json'',
        content = Inr (Obj [(''version'', Str ''2.0.0'')])\<rparr>] cli_initial)) ''version''
     = Some (Obj [(''version'', Str ''2.0.0'')]) \<and>
   fields_of (reportData (pbir_parseReport
      [(''definition/report.json'', Obj [(''version'', Str ''5.0''), (''theme'', Str ''Dark'')]),
       (''definition/version.json'', Obj [(''version'', Str ''2.0.0'')])] pbir_initial)) ''version''
     = Some (Str ''5.0'') \<and>
   fields_of (reportData (pbir_parseReportStructure
      [(''definition/report.json'', Obj [(''version'', Str ''5.0''), (''theme'', Str ''Dark'')]),
       (''definition/version.json'', Obj [(''version'', Str ''2.0.0'')])] pbir_initial)) ''version''
     = Some (Obj [(''version'', Str ''2.0.0'')])"
  by (simp add: cli_parseReportStructure_def cli_mergeDocument_def cli_parseReport_def findFile_def
      parsedData_def parseLog_def cli_initial_def fields_of_def pbir_parseReportStructure_def
      pbir_mergeDocument_def pbir_parseReport_def pbir_findFile_def pbir_initial_def
      suffix_to_prefix Let_def)

text \<open>
  C5, amended. A later merge (of version.json under the key \<^verbatim>\<open>version\<close>, of
  reportExtensions.json under the key \<^verbatim>\<open>extensions\<close>) that takes place stores the
  document whole under its own key, setting or replacing the field of that name, and
  leaves every field under any other name as it was. \<^verbatim>\<open>EnhancedPBIRParser\<close> merges
  when the file is found and both the Report record so far and the parsed document are
  truthy, and otherwise leaves the Report record as it is; \<^verbatim>\<open>PBIRParser\<close> merges
  whenever the file is found (storing \<^verbatim>\<open>null\<close> for a document that does not
  parse), and otherwise leaves the Report record as it is. So after
  \<^verbatim>\<open>parseReportStructure\<close> every field named neither \<^verbatim>\<open>version\<close> nor
  \<^verbatim>\<open>extensions\<close> is as report.json set it.
\<close>

theorem merge_document_effect:
  "(\<forall>f. findFile files path = Some f \<and> truthy (reportData st) \<and>
        truthy (parsedData validate f schemaName) \<longrightarrow>
        fields_of (reportData (cli_mergeDocument validate path schemaName key files st)) key
          = Some (parsedData validate f schemaName)) \<and>
   (findFile files path = None \<or> \<not> truthy (reportData st) \<or>
      (\<exists>f. findFile files path = Some f \<and> \<not> truthy (parsedData validate f schemaName)) \<longrightarrow>
      reportData (cli_mergeDocument validate path schemaName key files st) = reportData st) \<and>
   (k \<noteq> key \<longrightarrow>
      fields_of (reportData (cli_mergeDocument validate path schemaName key files st)) k
        = fields_of (reportData st) k) \<and>
   (\<forall>data. pbir_findFile fileMap path = Some data \<longrightarrow>
        fields_of (reportData (pbir_mergeDocument path key fileMap st')) key = Some data) \<and>
   (pbir_findFile fileMap path = None \<longrightarrow>
      reportData (pbir_mergeDocument path key fileMap st') = reportData st') \<and>
   (k \<noteq> key \<longrightarrow>
      fields_of (reportData (pbir_mergeDocument path key fileMap st')) k
        = fields_of (reportData st') k) \<and>
   (k \<noteq> ''version'' \<and> k \<noteq> ''extensions'' \<longrightarrow>
      fields_of (reportData (cli_parseReportStructure validate files st)) k
        = fields_of (reportData (cli_parseReport validate files st)) k \<and>
      fields_of (reportData (pbir_parseReportStructure fileMap st')) k
        = fields_of (reportData (pbir_parseReport fileMap st')) k)"
proof -
  have other_cli: "fields_of (reportData (cli_mergeDocument v p sn ky fs s)) j
        = fields_of (reportData s) j" if "j \<noteq> ky" for v p sn ky fs s j
    using that
    by (auto simp: cli_mergeDocument_def fields_of_def map_of_map_set Let_def split: option.splits)
  have other_pbir: "fields_of (reportData (pbir_mergeDocument p ky fm s)) j
        = fields_of (reportData s) j" if "j \<noteq> ky" for p ky fm s j
    using that
    by (auto simp: pbir_mergeDocument_def fields_of_def map_of_map_set split: option.splits)
  have stored_cli: "\<forall>f. findFile files path = Some f \<and> truthy (reportData st) \<and>
        truthy (parsedData validate f schemaName) \<longrightarrow>
        fields_of (reportData (cli_mergeDocument validate path schemaName key files st)) key
          = Some (parsedData validate f schemaName)"
    by (simp add: cli_mergeDocument_def fields_of_def map_of_map_set Let_def)
  have kept_cli: "findFile files path = None \<or> \<not> truthy (reportData st) \<or>
      (\<exists>f. findFile files path = Some f \<and> \<not> truthy (parsedData validate f schemaName)) \<longrightarrow>
      reportData (cli_mergeDocument validate path schemaName key files st) = reportData st"
    by (auto simp: cli_mergeDocument_def Let_def split: option.splits)
  have stored_pbir: "\<forall>data. pbir_findFile fileMap path = Some data \<longrightarrow>
        fields_of (reportData (pbir_mergeDocument path key fileMap st')) key = Some data"
    by (simp add: pbir_mergeDocument_def fields_of_def map_of_map_set)
  have kept_pbir: "pbir_findFile fileMap path = None \<longrightarrow>
      reportData (pbir_mergeDocument path key fileMap st') = reportData st'"
    by (simp add: pbir_mergeDocument_def)
  have composed: "k \<noteq> ''version'' \<and> k \<noteq> ''extensions'' \<longrightarrow>
      fields_of (reportData (cli_parseReportStructure validate files st)) k
        = fields_of (reportData (cli_parseReport validate files st)) k \<and>
      fields_of (reportData (pbir_parseReportStructure fileMap st')) k
        = fields_of (reportData (pbir_parseReport fileMap st')) k"
    by (simp add: cli_parseReportStructure_def pbir_parseReportStructure_def other_cli other_pbir)
  from stored_cli kept_cli other_cli [of k key] stored_pbir kept_pbir other_pbir [of k key] composed
  show ?thesis by blast
qed

theorem merge_document_effect_witness:
  "fields_of (reportData (cli_mergeDocument (\<lambda>d s. Inr (True, [])) ''definition/version.json''
      ''versionMetadata'' ''version''
      [\<lparr>relativePath = ''definition/version.json'', content = Inr (Obj [(''version'', Str ''2.0.0'')])\<rparr>]
      (cli_initial\<lparr>reportData := Obj [(''version'', Str ''5.0''), (''theme'', Str ''Dark'')]\<rparr>)))
      ''version'' = Some (Obj [(''version'', Str ''2.0.0'')]) \<and>
   fields_of (reportData (cli_mergeDocument (\<lambda>d s. Inr (True, [])) ''definition/version.json''
      ''versionMetadata'' ''version''
      [\<lparr>relativePath = ''definition/version.json'', content = Inr (Obj [(''version'', Str ''2.0.0'')])\<rparr>]
      (cli_initial\<lparr>reportData := Obj [(''version'', Str ''5.0''), (''theme'', Str ''Dark'')]\<rparr>)))
      ''theme'' = Some (Str ''Dark'') \<and>
   reportData (cli_mergeDocument (\<lambda>d s. Inr (True, [])) ''definition/version.json''
      ''versionMetadata'' ''version''
      [\<lparr>relativePath = ''definition/version.json'', content = Inl ''Unexpected end of JSON input''\<rparr>]
      (cli_initial\<lparr>reportData := Obj [(''version'', Str ''5.0''), (''theme'', Str ''Dark'')]\<rparr>))
      = Obj [(''version'', Str ''5.0''), (''theme'', Str ''Dark'')] \<and>
   fields_of (reportData (pbir_mergeDocument ''definition/version.json'' ''version''
      [(''definition/version.json'', Obj [(''version'', Str ''2.0.0'')])]
      (pbir_initial\<lparr>reportData := Obj [(''version'', Str ''5.0''), (''theme'', Str ''Dark'')]\<rparr>)))
      ''version'' = Some (Obj [(''version'', Str ''2.0.0'')]) \<and>
   fields_of (reportData (pbir_mergeDocument ''definition/version.json'' ''version''
      [(''definition/version.json'', Obj [(''version'', Str ''2.0.0'')])]
      (pbir_initial\<lparr>reportData := Obj [(''version'', Str ''5.0''), (''theme'', Str ''Dark'')]\<rparr>)))
      ''theme'' = Some (Str ''Dark'')"
  using merge_document_effect [where k = "''theme''" and key = "''version''"
      and validate = "\<lambda>d s. Inr (True, [])" and path = "''definition/version.json''"
      and schemaName = "''versionMetadata''"
      and files = "[\<lparr>relativePath = ''definition/version.json'',
                      content = Inr (Obj [(''version'', Str ''2.0.0'')])\<rparr>]"
      and st = "cli_initial\<lparr>reportData := Obj [(''version'', Str ''5.0''), (''theme'', Str ''Dark'')]\<rparr>"
      and fileMap = "[(''definition/version.json'', Obj [(''version'', Str ''2.0.0'')])]"
      and st' = "pbir_initial\<lparr>reportData := Obj [(''version'', Str ''5.0''), (''theme'', Str ''Dark'')]\<rparr>"]
    merge_document_effect [where k = "''theme''" and key = "''version''"
      and validate = "\<lambda>d s. Inr (True, [])" and path = "''definition/version.json''"
      and schemaName = "''versionMetadata''"
      and files = "[\<lparr>relativePath = ''definition/version.json'',
                      content = Inl ''Unexpected end of JSON input''\<rparr>]"
      and st = "cli_initial\<lparr>reportData := Obj [(''version'', Str ''5.0''), (''theme'', Str ''Dark'')]\<rparr>"
      and fileMap = "[(''definition/version.json'', Obj [(''version'', Str ''2.0.0'')])]"
      and st' = "pbir_initial\<lparr>reportData := Obj [(''version'', Str ''5.0''), (''theme'', Str ''Dark'')]\<rparr>"]
  by (simp add: fields_of_def cli_initial_def pbir_initial_def findFile_def pbir_findFile_def
      parsedData_def suffix_to_prefix)

section \<open>Identifiers and colliding keys\<close>

text \<open>The function \<open>capture_segment\<close> accepts exactly the paths the regular expression
  matches, and yields the captured group.\<close>

lemma capture_segment_iff:
  assumes "pre \<noteq> []" and "last pre = CHR ''/''"
  shows "capture_segment pre suf path = Some seg \<longleftrightarrow>
           (\<exists>a. path = a @ pre @ seg @ suf) \<and> seg \<noteq> [] \<and> CHR ''/'' \<notin> set seg"
proof
  assume c: "capture_segment pre suf path = Some seg"
  then have s: "suffix suf path" by (auto simp: capture_segment_def split: if_splits)
  then obtain b where b: "path = b @ suf" by (auto simp: suffix_def)
  define tw where "tw = takeWhile (\<lambda>c. c \<noteq> CHR ''/'') (rev b)"
  define dw where "dw = dropWhile (\<lambda>c. c \<noteq> CHR ''/'') (rev b)"
  have rb: "rev b = tw @ dw" by (simp add: tw_def dw_def)
  then have bb: "b = rev dw @ rev tw" by (metis rev_append rev_rev_ident)
  have len: "length b - length (rev tw) = length (rev dw)" using bb by (metis add_diff_cancel_right' length_append)
  from c s b have seg: "seg = rev tw" and ne: "seg \<noteq> []"
    and sf: "suffix pre (take (length b - length (rev tw)) b)"
    by (auto simp: capture_segment_def Let_def tw_def split: if_splits)
  from sf len bb have "suffix pre (rev dw)" by (metis append_eq_conv_conj)
  then obtain a where a: "rev dw = a @ pre" by (auto simp: suffix_def)
  have "CHR ''/'' \<notin> set tw" unfolding tw_def by (auto dest: set_takeWhileD)
  with seg ne a bb b show "(\<exists>a. path = a @ pre @ seg @ suf) \<and> seg \<noteq> [] \<and> CHR ''/'' \<notin> set seg"
    by auto
next
  assume "(\<exists>a. path = a @ pre @ seg @ suf) \<and> seg \<noteq> [] \<and> CHR ''/'' \<notin> set seg"
  then obtain a where p: "path = a @ pre @ seg @ suf" and ne: "seg \<noteq> []"
    and ns: "CHR ''/'' \<notin> set seg" by blast
  from assms obtain pr where pre: "pre = pr @ [CHR ''/'']" by (metis append_butlast_last_id)
  have body: "take (length path - length suf) path = a @ pre @ seg" using p by simp
  have "rev (a @ pre @ seg) = rev seg @ (CHR ''/'' # rev pr @ rev a)" using pre by simp
  moreover have "\<forall>x\<in>set (rev seg). x \<noteq> CHR ''/''" using ns by auto
  ultimately have tw: "takeWhile (\<lambda>c. c \<noteq> CHR ''/'') (rev (a @ pre @ seg)) = rev seg"
    by (simp add: takeWhile_tail)
  have "suffix suf path" using p by (simp add: suffix_def)
  with body tw ne show "capture_segment pre suf path = Some seg"
    by (simp add: capture_segment_def Let_def suffix_def)
qed

lemma capture_segment_none:
  assumes "pre \<noteq> []" and "last pre = CHR ''/''"
    and "\<not> (\<exists>a seg. path = a @ pre @ seg @ suf \<and> seg \<noteq> [] \<and> CHR ''/'' \<notin> set seg)"
  shows "capture_segment pre suf path = None"
proof (cases "capture_segment pre suf path")
  case (Some m)
  with capture_segment_iff [OF assms(1,2), of suf path m] assms(3) show ?thesis by blast
qed simp

lemma extractPageName_sentinel:
  "\<not> (\<exists>a seg. path = a @ ''/pages/'' @ seg @ ''/page.json'' \<and> seg \<noteq> [] \<and> CHR ''/'' \<notin> set seg)
   \<Longrightarrow> extractPageName path = ''unknown''"
  using capture_segment_none [of "''/pages/''" path "''/page.json''"]
  by (simp add: extractPageName_def)

lemma extractVisualName_sentinel:
  "\<not> (\<exists>a seg. path = a @ ''/visuals/'' @ seg @ ''/visual.json'' \<and> seg \<noteq> [] \<and> CHR ''/'' \<notin> set seg)
   \<Longrightarrow> extractVisualName path = ''unknown''"
  using capture_segment_none [of "''/visuals/''" path "''/visual.json''"]
  by (simp add: extractVisualName_def)

lemma extractBookmarkName_sentinel:
  "\<not> (\<exists>a seg. path = a @ ''/'' @ seg @ ''.bookmark.json'' \<and> seg \<noteq> [] \<and> CHR ''/'' \<notin> set seg)
   \<Longrightarrow> extractBookmarkName path = ''unknown''"
  using capture_segment_none [of "''/''" path "''.bookmark.json''"]
  by (simp add: extractBookmarkName_def)

text \<open>
  A loop that writes its entries with \<^verbatim>\<open>Map.set\<close> leaves, under each key, the
  entry of the last element with that key.
\<close>

lemma find_snoc:
  "find P (xs @ [x]) =
     (case find P xs of Some y \<Rightarrow> Some y | None \<Rightarrow> if P x then Some x else None)"
  by (induction xs) auto

lemma find_snoc_skip: "\<not> P x \<Longrightarrow> find P (xs @ [x]) = find P xs"
  by (simp add: find_snoc split: option.splits)

lemma find_rev_Cons:
  "find P (rev (x # xs)) =
     (case find P (rev xs) of Some y \<Rightarrow> Some y | None \<Rightarrow> if P x then Some x else None)"
  by (simp add: find_snoc)

lemma find_filter: "find P (filter Q xs) = find (\<lambda>x. Q x \<and> P x) xs"
  by (induction xs) auto

lemma pbir_visualsLoop_char:
  assumes "pbir_visualsLoop pvd fileMap pageName entries (vmap, st) = Some (vmap', st')"
  shows "pages st' = pages st \<and> bookmarks st' = bookmarks st \<and> reportData st' = reportData st \<and>
         (distinct (map fst vmap) \<longrightarrow> distinct (map fst vmap')) \<and>
         (\<forall>vn. map_of vmap' vn =
            (case find (\<lambda>e. extractVisualName (fst e) = vn) (rev entries) of
               Some e \<Rightarrow> pbir_processedVisual pvd fileMap e
             | None \<Rightarrow> map_of vmap vn))"
  using assms
proof (induction entries arbitrary: vmap st)
  case Nil
  then show ?case by simp
next
  case (Cons e entries)
  from Cons.prems obtain processed where
    p: "pbir_processedVisual pvd fileMap e = Some processed" and
    r: "pbir_visualsLoop pvd fileMap pageName entries
          (map_set (extractVisualName (fst e)) processed vmap,
           st\<lparr>visuals := map_set (pageName @ '':'' @ extractVisualName (fst e))
                 (Obj (map_set ''visualName'' (Str (extractVisualName (fst e)))
                    (map_set ''pageName'' (Str pageName) (js_spread processed))))
                 (visuals st)\<rparr>) = Some (vmap', st')"
    by (auto simp: Let_def split: option.splits)
  note ih = Cons.IH [OF r]
  have "map_of vmap' vn =
            (case find (\<lambda>e. extractVisualName (fst e) = vn) (rev (e # entries)) of
               Some e \<Rightarrow> pbir_processedVisual pvd fileMap e
             | None \<Rightarrow> map_of vmap vn)" for vn
    using ih p unfolding find_rev_Cons
    by (auto simp: map_of_map_set split: option.splits)
  with ih show ?case by (simp add: distinct_map_set)
qed

lemma pbir_parsePageVisuals_char:
  assumes "pbir_parsePageVisuals pvd fileMap n st = Some (vs, st')"
  shows "pages st' = pages st \<and> bookmarks st' = bookmarks st \<and> reportData st' = reportData st \<and>
         distinct (map fst vs) \<and>
         (\<forall>vn. map_of vs vn =
            Option.bind (pbir_lastVisual fileMap n vn) (pbir_processedVisual pvd fileMap))"
proof -
  note c = pbir_visualsLoop_char [OF assms [unfolded pbir_parsePageVisuals_def]]
  have "find (\<lambda>e. extractVisualName (fst e) = vn)
          (rev (filter (\<lambda>entry. is_visual_path n (fst entry)) fileMap))
        = pbir_lastVisual fileMap n vn" for vn
    by (simp add: pbir_lastVisual_def rev_filter find_filter)
  with c show ?thesis by (auto split: option.splits)
qed

lemma pbir_pagesLoop_char:
  assumes "pbir_pagesLoop pvd fileMap entries st = Some st'"
  shows "bookmarks st' = bookmarks st \<and> reportData st' = reportData st \<and>
         (distinct (map fst (pages st)) \<longrightarrow> distinct (map fst (pages st'))) \<and>
         (\<forall>n. case find (\<lambda>e. extractPageName (fst e) = n) (rev entries) of
                 None \<Rightarrow> map_of (pages st') n = map_of (pages st) n
               | Some e \<Rightarrow>
                   (\<exists>vs. map_of (pages st') n =
                           Some (Obj (map_set ''visuals'' (Obj vs)
                                   (map_set ''name'' (Str n) (js_spread (snd e))))) \<and>
                         distinct (map fst vs) \<and>
                         (\<forall>vn. map_of vs vn =
                            Option.bind (pbir_lastVisual fileMap n vn)
                              (pbir_processedVisual pvd fileMap))))"
  using assms
proof (induction entries arbitrary: st)
  case Nil
  then show ?case by simp
next
  case (Cons e entries)
  define m where "m = extractPageName (fst e)"
  from Cons.prems obtain vs st1 where
    v: "pbir_parsePageVisuals pvd fileMap m st = Some (vs, st1)" and
    r: "pbir_pagesLoop pvd fileMap entries
          (st1\<lparr>pages := map_set m
                 (Obj (map_set ''visuals'' (Obj vs) (map_set ''name'' (Str m) (js_spread (snd e)))))
                 (pages st1)\<rparr>) = Some st'"
    by (auto simp: Let_def m_def split: option.splits)
  note pv = pbir_parsePageVisuals_char [OF v]
  note ih = Cons.IH [OF r]
  have "case find (\<lambda>e. extractPageName (fst e) = n) (rev (e # entries)) of
                 None \<Rightarrow> map_of (pages st') n = map_of (pages st) n
               | Some e \<Rightarrow>
                   (\<exists>vs. map_of (pages st') n =
                           Some (Obj (map_set ''visuals'' (Obj vs)
                                   (map_set ''name'' (Str n) (js_spread (snd e))))) \<and>
                         distinct (map fst vs) \<and>
                         (\<forall>vn. map_of vs vn =
                            Option.bind (pbir_lastVisual fileMap n vn)
                              (pbir_processedVisual pvd fileMap)))" for n
  proof (cases "find (\<lambda>e. extractPageName (fst e) = n) (rev entries)")
    case (Some y)
    with ih [THEN conjunct2, THEN conjunct2, THEN conjunct2, THEN spec, of n]
    show ?thesis unfolding find_rev_Cons by simp
  next
    case None
    with ih [THEN conjunct2, THEN conjunct2, THEN conjunct2, THEN spec, of n]
    have k: "map_of (pages st') n =
        map_of (map_set m
                 (Obj (map_set ''visuals'' (Obj vs) (map_set ''name'' (Str m) (js_spread (snd e)))))
                 (pages st1)) n"
      by simp
    show ?thesis
    proof (cases "extractPageName (fst e) = n")
      case True
      with None k pv show ?thesis unfolding find_rev_Cons
        by (auto simp: map_of_map_set m_def)
    next
      case False
      with None k pv show ?thesis unfolding find_rev_Cons
        by (simp add: map_of_map_set m_def)
    qed
  qed
  with ih pv show ?case by (simp add: distinct_map_set)
qed

lemma pbir_parsePages_loop:
  "pbir_parsePages pvd fileMap st = Some st' \<Longrightarrow>
   pbir_pagesLoop pvd fileMap (filter (\<lambda>entry. is_page_path (fst entry)) fileMap) st = Some st'"
  by (auto simp: pbir_parsePages_def split: option.splits)

lemma pbir_parsePages_char:
  assumes "pbir_parsePages pvd fileMap st = Some st'"
  shows "bookmarks st' = bookmarks st \<and> reportData st' = reportData st \<and>
         (distinct (map fst (pages st)) \<longrightarrow> distinct (map fst (pages st'))) \<and>
         (\<forall>n. case pbir_lastPage fileMap n of
                 None \<Rightarrow> map_of (pages st') n = map_of (pages st) n
               | Some e \<Rightarrow>
                   (\<exists>vs. map_of (pages st') n =
                           Some (Obj (map_set ''visuals'' (Obj vs)
                                   (map_set ''name'' (Str n) (js_spread (snd e))))) \<and>
                         distinct (map fst vs) \<and>
                         (\<forall>vn. map_of vs vn =
                            Option.bind (pbir_lastVisual fileMap n vn)
                              (pbir_processedVisual pvd fileMap))))"
proof -
  have "find (\<lambda>e. extractPageName (fst e) = n)
          (rev (filter (\<lambda>entry. is_page_path (fst entry)) fileMap))
        = pbir_lastPage fileMap n" for n
    by (simp add: pbir_lastPage_def rev_filter find_filter)
  with pbir_pagesLoop_char [OF pbir_parsePages_loop [OF assms]] show ?thesis by simp
qed

lemma pbir_bookmarkStep_simps [simp]:
  "pages (pbir_bookmarkStep st e) = pages st"
  "bookmarks (pbir_bookmarkStep st e) = map_set (extractBookmarkName (fst e)) (snd e) (bookmarks st)"
  by (simp_all add: pbir_bookmarkStep_def)

lemma pbir_bookmarks_fold:
  "pages (foldl pbir_bookmarkStep st es) = pages st \<and>
   (distinct (map fst (bookmarks st)) \<longrightarrow>
      distinct (map fst (bookmarks (foldl pbir_bookmarkStep st es)))) \<and>
   (\<forall>n. map_of (bookmarks (foldl pbir_bookmarkStep st es)) n =
      (case find (\<lambda>e. extractBookmarkName (fst e) = n) (rev es) of
         Some e \<Rightarrow> Some (snd e)
       | None \<Rightarrow> map_of (bookmarks st) n))"
proof (induction es arbitrary: st)
  case Nil
  show ?case by simp
next
  case (Cons e es)
  note ih = Cons.IH [of "pbir_bookmarkStep st e"]
  have "map_of (bookmarks (foldl pbir_bookmarkStep (pbir_bookmarkStep st e) es)) n =
      (case find (\<lambda>e. extractBookmarkName (fst e) = n) (rev (e # es)) of
         Some e \<Rightarrow> Some (snd e)
       | None \<Rightarrow> map_of (bookmarks st) n)" for n
    using ih [THEN conjunct2, THEN conjunct2, THEN spec, of n] unfolding find_rev_Cons
    by (simp add: map_of_map_set split: option.splits)
  with ih show ?case by (simp add: distinct_map_set)
qed

lemma pbir_parseBookmarks_char:
  "pages (pbir_parseBookmarks fileMap st) = pages st \<and>
   (distinct (map fst (bookmarks st)) \<longrightarrow>
      distinct (map fst (bookmarks (pbir_parseBookmarks fileMap st)))) \<and>
   (pbir_findFile fileMap ''definition/bookmarks/bookmarks.json'' = None \<longrightarrow>
      bookmarks (pbir_parseBookmarks fileMap st) = bookmarks st) \<and>
   (pbir_findFile fileMap ''definition/bookmarks/bookmarks.json'' \<noteq> None \<longrightarrow>
      (\<forall>n. map_of (bookmarks (pbir_parseBookmarks fileMap st)) n =
         (case pbir_lastBookmark fileMap n of
            Some e \<Rightarrow> Some (snd e)
          | None \<Rightarrow> map_of (bookmarks st) n)))"
proof -
  have "find (\<lambda>e. extractBookmarkName (fst e) = n)
          (rev (filter (\<lambda>entry. is_bookmark_path (fst entry)) fileMap))
        = pbir_lastBookmark fileMap n" for n
    by (simp add: pbir_lastBookmark_def rev_filter find_filter)
  with pbir_bookmarks_fold [of st "filter (\<lambda>entry. is_bookmark_path (fst entry)) fileMap"]
  show ?thesis by (auto simp: pbir_parseBookmarks_def split: option.splits)
qed

lemma pbir_parseReportStructure_frame:
  "pages (pbir_parseReportStructure fileMap st) = pages st \<and>
   bookmarks (pbir_parseReportStructure fileMap st) = bookmarks st"
  by (simp add: pbir_parseReportStructure_def pbir_mergeDocument_def pbir_parseReport_def
      split: option.splits)

text \<open>
  C8, amended. Identifier extraction never fails: a path that does not match the role's
  pattern (some prefix, then \<^verbatim>\<open>/pages/\<close>, a non-empty segment without a slash, and
  \<^verbatim>\<open>/page.json\<close> at the end; likewise for visuals and bookmarks) yields
  \<^verbatim>\<open>unknown\<close>. Documents of one role whose identifiers coincide, in particular
  two that both resolve to \<^verbatim>\<open>unknown\<close>, share one key of the output map. Whatever
  \<^verbatim>\<open>processVisualData\<close> does: when \<^verbatim>\<open>parseFiles\<close> returns,
  \<^verbatim>\<open>pages\<close> holds exactly one entry per identifier of
  a page document, built from the last enumerated page document with that identifier;
  the \<^verbatim>\<open>visuals\<close> of a page hold exactly one entry per identifier of a visual
  document of that page, the processed record of the last one; and, when bookmarks.json
  is present, \<^verbatim>\<open>bookmarks\<close> holds exactly one entry per identifier of a bookmark
  document, the last one (without bookmarks.json it stays empty).
\<close>

theorem unknown_identifiers_collide:
  "(\<not> (\<exists>a seg. path = a @ ''/pages/'' @ seg @ ''/page.json'' \<and> seg \<noteq> [] \<and> CHR ''/'' \<notin> set seg)
      \<longrightarrow> extractPageName path = ''unknown'') \<and>
   (\<not> (\<exists>a seg. path = a @ ''/visuals/'' @ seg @ ''/visual.json'' \<and> seg \<noteq> [] \<and> CHR ''/'' \<notin> set seg)
      \<longrightarrow> extractVisualName path = ''unknown'') \<and>
   (\<not> (\<exists>a seg. path = a @ ''/'' @ seg @ ''.bookmark.json'' \<and> seg \<noteq> [] \<and> CHR ''/'' \<notin> set seg)
      \<longrightarrow> extractBookmarkName path = ''unknown'') \<and>
   (pbir_parseFiles processVisualData fileMap = Some r \<longrightarrow>
      distinct (map fst (pages r)) \<and>
      (\<forall>n. case pbir_lastPage fileMap n of
              None \<Rightarrow> map_of (pages r) n = None
            | Some page \<Rightarrow>
                (\<exists>vs. map_of (pages r) n =
                        Some (Obj (map_set ''visuals'' (Obj vs)
                                (map_set ''name'' (Str n) (js_spread (snd page))))) \<and>
                      distinct (map fst vs) \<and>
                      (\<forall>vn. map_of vs vn =
                         Option.bind (pbir_lastVisual fileMap n vn)
                           (pbir_processedVisual processVisualData fileMap)))) \<and>
      distinct (map fst (bookmarks r)) \<and>
      (\<forall>n. map_of (bookmarks r) n =
         (if pbir_findFile fileMap ''definition/bookmarks/bookmarks.json'' = None then None
          else map_option snd (pbir_lastBookmark fileMap n))))"
proof (intro conjI impI)
  assume a: "pbir_parseFiles processVisualData fileMap = Some r"
  define st0 where "st0 = pbir_parseReportStructure fileMap pbir_initial"
  from a obtain st1 where
    p: "pbir_parsePages processVisualData fileMap st0 = Some st1" and
    r: "r = pbir_parseBookmarks fileMap st1"
    by (auto simp: pbir_parseFiles_def st0_def)
  have s0: "pages st0 = []" "bookmarks st0 = []"
    using pbir_parseReportStructure_frame [of fileMap pbir_initial]
    by (simp_all add: st0_def pbir_initial_def)
  note pc = pbir_parsePages_char [OF p]
  note bc = pbir_parseBookmarks_char [of fileMap st1]
  from pc bc s0 r show "distinct (map fst (pages r))" by simp
  from pc bc s0 r show "distinct (map fst (bookmarks r))" by simp
  have pr: "pages r = pages st1" using bc r by simp
  from pc have "\<forall>n. case pbir_lastPage fileMap n of
                 None \<Rightarrow> map_of (pages st1) n = map_of (pages st0) n
               | Some e \<Rightarrow>
                   (\<exists>vs. map_of (pages st1) n =
                           Some (Obj (map_set ''visuals'' (Obj vs)
                                   (map_set ''name'' (Str n) (js_spread (snd e))))) \<and>
                         distinct (map fst vs) \<and>
                         (\<forall>vn. map_of vs vn =
                            Option.bind (pbir_lastVisual fileMap n vn)
                              (pbir_processedVisual processVisualData fileMap)))"
    by blast
  then have pg: "case pbir_lastPage fileMap n of
                 None \<Rightarrow> map_of (pages st1) n = map_of (pages st0) n
               | Some e \<Rightarrow>
                   (\<exists>vs. map_of (pages st1) n =
                           Some (Obj (map_set ''visuals'' (Obj vs)
                                   (map_set ''name'' (Str n) (js_spread (snd e))))) \<and>
                         distinct (map fst vs) \<and>
                         (\<forall>vn. map_of vs vn =
                            Option.bind (pbir_lastVisual fileMap n vn)
                              (pbir_processedVisual processVisualData fileMap)))" for n
    by blast
  show "\<forall>n. case pbir_lastPage fileMap n of
              None \<Rightarrow> map_of (pages r) n = None
            | Some page \<Rightarrow>
                (\<exists>vs. map_of (pages r) n =
                        Some (Obj (map_set ''visuals'' (Obj vs)
                                (map_set ''name'' (Str n) (js_spread (snd page))))) \<and>
                      distinct (map fst vs) \<and>
                      (\<forall>vn. map_of vs vn =
                         Option.bind (pbir_lastVisual fileMap n vn)
                           (pbir_processedVisual processVisualData fileMap)))"
  proof
    fix n
    show "case pbir_lastPage fileMap n of
              None \<Rightarrow> map_of (pages r) n = None
            | Some page \<Rightarrow>
                (\<exists>vs. map_of (pages r) n =
                        Some (Obj (map_set ''visuals'' (Obj vs)
                                (map_set ''name'' (Str n) (js_spread (snd page))))) \<and>
                      distinct (map fst vs) \<and>
                      (\<forall>vn. map_of vs vn =
                         Option.bind (pbir_lastVisual fileMap n vn)
                           (pbir_processedVisual processVisualData fileMap)))"
      using pg [of n] by (cases "pbir_lastPage fileMap n") (simp_all add: pr s0)
  qed
  from pc bc s0 r
  show "\<forall>n. map_of (bookmarks r) n =
         (if pbir_findFile fileMap ''definition/bookmarks/bookmarks.json'' = None then None
          else map_option snd (pbir_lastBookmark fileMap n))"
    by (auto split: option.splits)
qed (simp_all add: extractPageName_sentinel extractVisualName_sentinel extractBookmarkName_sentinel)

lemma colliding_files_run:
  "pbir_parseFiles (\<lambda>v m. Some v) colliding_files
   = Some \<lparr>reportData = Null,
           pages = [(''unknown'', Obj [(''displayName'', Str ''Second''), (''name'', Str ''unknown''),
                      (''visuals'', Obj [(''unknown'', Obj [(''name'', Str ''v2'')])])])],
           visuals = [(''unknown:unknown'', Obj [(''name'', Str ''v2''), (''pageName'', Str ''unknown''),
                        (''visualName'', Str ''unknown'')])],
           bookmarks = [(''unknown'', Obj [(''displayName'', Str ''B2'')])]\<rparr>"
  unfolding colliding_files_def by code_simp

text \<open>Paths that miss their patterns.\<close>

lemma unknown_paths:
  "is_page_path ''definition/pages/page.json''"
  "is_page_path ''definition/pages/a/b/page.json''"
  "extractPageName ''definition/pages/page.json'' = ''unknown''"
  "extractPageName ''definition/pages/a/b/page.json'' = ''unknown''"
  "\<not> is_visual_path ''unknown'' ''definition/pages/page.json''"
  "\<not> is_visual_path ''unknown'' ''definition/pages/a/b/page.json''"
  "\<not> is_bookmark_path ''definition/pages/page.json''"
  "\<not> is_bookmark_path ''definition/pages/a/b/page.json''"
  "\<not> suffix ''definition/report.json'' ''definition/pages/page.json''"
  "\<not> suffix ''definition/report.json'' ''definition/pages/a/b/page.json''"
  "\<not> suffix ''definition/version.json'' ''definition/pages/page.json''"
  "\<not> suffix ''definition/version.json'' ''definition/pages/a/b/page.json''"
  "\<not> suffix ''definition/reportExtensions.json'' ''definition/pages/page.json''"
  "\<not> suffix ''definition/reportExtensions.json'' ''definition/pages/a/b/page.json''"
  "\<not> suffix ''definition/pages/pages.json'' ''definition/pages/page.json''"
  "\<not> suffix ''definition/pages/pages.json'' ''definition/pages/a/b/page.json''"
  "\<not> suffix ''definition/bookmarks/bookmarks.json'' ''definition/pages/page.json''"
  "\<not> suffix ''definition/bookmarks/bookmarks.json'' ''definition/pages/a/b/page.json''"
  by code_simp+

lemma unknown_bookmark_paths:
  "is_bookmark_path ''definition/bookmarks/.bookmark.json''"
  "is_bookmark_path ''definition/bookmarks/x/.bookmark.json''"
  "\<not> is_bookmark_path ''definition/bookmarks/bookmarks.json''"
  "extractBookmarkName ''definition/bookmarks/.bookmark.json'' = ''unknown''"
  "extractBookmarkName ''definition/bookmarks/x/.bookmark.json'' = ''unknown''"
  "\<not> is_page_path ''definition/bookmarks/bookmarks.json''"
  "\<not> is_page_path ''definition/bookmarks/.bookmark.json''"
  "\<not> is_page_path ''definition/bookmarks/x/.bookmark.json''"
  "\<not> suffix ''definition/report.json'' ''definition/bookmarks/bookmarks.json''"
  "\<not> suffix ''definition/report.json'' ''definition/bookmarks/.bookmark.json''"
  "\<not> suffix ''definition/report.json'' ''definition/bookmarks/x/.bookmark.json''"
  "\<not> suffix ''definition/version.json'' ''definition/bookmarks/bookmarks.json''"
  "\<not> suffix ''definition/version.json'' ''definition/bookmarks/.bookmark.json''"
  "\<not> suffix ''definition/version.json'' ''definition/bookmarks/x/.bookmark.json''"
  "\<not> suffix ''definition/reportExtensions.json'' ''definition/bookmarks/bookmarks.json''"
  "\<not> suffix ''definition/reportExtensions.json'' ''definition/bookmarks/.bookmark.json''"
  "\<not> suffix ''definition/reportExtensions.json'' ''definition/bookmarks/x/.bookmark.json''"
  "\<not> suffix ''definition/pages/pages.json'' ''definition/bookmarks/bookmarks.json''"
  "\<not> suffix ''definition/pages/pages.json'' ''definition/bookmarks/.bookmark.json''"
  "\<not> suffix ''definition/pages/pages.json'' ''definition/bookmarks/x/.bookmark.json''"
  "suffix ''definition/bookmarks/bookmarks.json'' ''definition/bookmarks/bookmarks.json''"
  by code_simp+

text \<open>
  C8 as stated fails in its second half. The two page paths below pass the page filter
  and resolve to \<^verbatim>\<open>unknown\<close>; \<^verbatim>\<open>this.pages.set(pageName, ...)\<close> then writes the
  second page over the first, and the output holds one page, not two, whatever
  \<^verbatim>\<open>processVisualData\<close> does (it is not called). The same happens to two bookmark
  documents.
\<close>

theorem unknown_pages_merged_counterexample:
  "is_page_path ''definition/pages/page.json'' \<and>
   is_page_path ''definition/pages/a/b/page.json'' \<and>
   extractPageName ''definition/pages/page.json'' = ''unknown'' \<and>
   extractPageName ''definition/pages/a/b/page.json'' = ''unknown'' \<and>
   (\<forall>processVisualData.
      map_option pages (pbir_parseFiles processVisualData
        [(''definition/pages/page.json'', Obj [(''displayName'', Str ''First'')]),
         (''definition/pages/a/b/page.json'', Obj [(''displayName'', Str ''Second'')])])
      = Some [(''unknown'', Obj [(''displayName'', Str ''Second''), (''name'', Str ''unknown''),
                                 (''visuals'', Obj [])])]) \<and>
   is_bookmark_path ''definition/bookmarks/.bookmark.json'' \<and>
   is_bookmark_path ''definition/bookmarks/x/.bookmark.json'' \<and>
   extractBookmarkName ''definition/bookmarks/.bookmark.json'' = ''unknown'' \<and>
   extractBookmarkName ''definition/bookmarks/x/.bookmark.json'' = ''unknown'' \<and>
   (\<forall>processVisualData.
      map_option bookmarks (pbir_parseFiles processVisualData
        [(''definition/bookmarks/bookmarks.json'', Obj [(''items'', Arr [])]),
         (''definition/bookmarks/.bookmark.json'', Obj [(''displayName'', Str ''B1'')]),
         (''definition/bookmarks/x/.bookmark.json'', Obj [(''displayName'', Str ''B2'')])])
      = Some [(''unknown'', Obj [(''displayName'', Str ''B2'')])])"
  by (simp add: unknown_paths unknown_bookmark_paths pbir_parseFiles_def pbir_parsePages_def
      pbir_parseReportStructure_def pbir_parseReport_def pbir_mergeDocument_def pbir_findFile_def
      pbir_parsePageVisuals_def pbir_parseBookmarks_def pbir_bookmarkStep_def pbir_initial_def
      Let_def)

theorem unknown_identifiers_collide_witness:
  "extractPageName ''definition/pages/a/b/page.json'' = ''unknown'' \<and>
   extractVisualName ''definition/pages/unknown/visuals/a/b/visual.json'' = ''unknown'' \<and>
   extractBookmarkName ''definition/bookmarks/x/.bookmark.json'' = ''unknown'' \<and>
   (\<exists>r. pbir_parseFiles (\<lambda>v m. Some v) colliding_files = Some r \<and>
      distinct (map fst (pages r)) \<and>
      map_of (pages r) ''unknown'' =
        Some (Obj [(''displayName'', Str ''Second''), (''name'', Str ''unknown''),
                   (''visuals'', Obj [(''unknown'', Obj [(''name'', Str ''v2'')])])]) \<and>
      map_of (bookmarks r) ''unknown'' = Some (Obj [(''displayName'', Str ''B2'')]))"
proof -
  have s: "\<not> (\<exists>a seg. ''definition/pages/a/b/page.json'' = a @ ''/pages/'' @ seg @ ''/page.json'' \<and>
              seg \<noteq> [] \<and> CHR ''/'' \<notin> set seg) \<longrightarrow>
           extractPageName ''definition/pages/a/b/page.json'' = ''unknown''"
    "\<not> (\<exists>a seg. ''definition/pages/unknown/visuals/a/b/visual.json''
                  = a @ ''/visuals/'' @ seg @ ''/visual.json'' \<and>
              seg \<noteq> [] \<and> CHR ''/'' \<notin> set seg) \<longrightarrow>
           extractVisualName ''definition/pages/unknown/visuals/a/b/visual.json'' = ''unknown''"
    "\<not> (\<exists>a seg. ''definition/bookmarks/x/.bookmark.json'' = a @ ''/'' @ seg @ ''.bookmark.json'' \<and>
              seg \<noteq> [] \<and> CHR ''/'' \<notin> set seg) \<longrightarrow>
           extractBookmarkName ''definition/bookmarks/x/.bookmark.json'' = ''unknown''"
    using unknown_identifiers_collide [of "''definition/pages/a/b/page.json''"]
      unknown_identifiers_collide [of "''definition/pages/unknown/visuals/a/b/visual.json''"]
      unknown_identifiers_collide [of "''definition/bookmarks/x/.bookmark.json''"]
    by blast+
  have e: "extractPageName ''definition/pages/a/b/page.json'' = ''unknown''"
    "extractVisualName ''definition/pages/unknown/visuals/a/b/visual.json'' = ''unknown''"
    "extractBookmarkName ''definition/bookmarks/x/.bookmark.json'' = ''unknown''"
    by code_simp+
  from unknown_identifiers_collide [of _ "\<lambda>v m. Some v" colliding_files, THEN conjunct2,
      THEN conjunct2, THEN conjunct2, rule_format, OF colliding_files_run]
  have "distinct (map fst (pages \<lparr>reportData = Null,
           pages = [(''unknown'', Obj [(''displayName'', Str ''Second''), (''name'', Str ''unknown''),
                      (''visuals'', Obj [(''unknown'', Obj [(''name'', Str ''v2'')])])])],
           visuals = [(''unknown:unknown'', Obj [(''name'', Str ''v2''), (''pageName'', Str ''unknown''),
                        (''visualName'', Str ''unknown'')])],
           bookmarks = [(''unknown'', Obj [(''displayName'', Str ''B2'')])]\<rparr>))"
    by blast
  with e colliding_files_run show ?thesis by simp
qed

section \<open>Parsing without the report root\<close>

lemma parseLog_frame [simp]:
  "pages (parseLog validate f schemaName st) = pages st"
  "visuals (parseLog validate f schemaName st) = visuals st"
  "bookmarks (parseLog validate f schemaName st) = bookmarks st"
  by (auto simp: parseLog_def split: sum.splits prod.splits)

lemma parseLog_missing_root [simp]:
  "count_list (parseWarnings (parseLog validate f schemaName st)) ''No main report.json found''
     = count_list (parseWarnings st) ''No main report.json found''"
  by (auto simp: parseLog_def split: sum.splits prod.splits)

text \<open>The visual loop returns unless processing throws, and then holds the processed
  record of the last parsed visual file under each identifier.\<close>

lemma cli_visualsLoop_returns:
  "cli_visualsLoop validate files pageName vfiles (vmap, st) \<noteq> None \<longleftrightarrow>
     (\<forall>g\<in>set vfiles. truthy (parsedData validate g ''visualContainer'') \<longrightarrow>
        cli_processedVisual validate files g \<noteq> None)"
proof (induction vfiles arbitrary: vmap st)
  case Nil
  show ?case by simp
next
  case (Cons g vfiles)
  show ?case
  proof (cases "truthy (parsedData validate g ''visualContainer'')")
    case False
    with Cons show ?thesis by (simp add: Let_def)
  next
    case True
    show ?thesis
    proof (cases "cli_processedVisual validate files g")
      case None
      with True show ?thesis by (simp add: Let_def)
    next
      case (Some processed)
      with True Cons show ?thesis by (simp add: Let_def)
    qed
  qed
qed

lemma cli_visualsLoop_char:
  assumes "cli_visualsLoop validate files pageName vfiles (vmap, st) = Some (vmap', st')"
  shows "pages st' = pages st \<and> reportData st' = reportData st \<and>
         count_list (parseWarnings st') ''No main report.json found''
           = count_list (parseWarnings st) ''No main report.json found'' \<and>
         (distinct (map fst vmap) \<longrightarrow> distinct (map fst vmap')) \<and>
         (\<forall>vn. map_of vmap' vn =
            (case find (\<lambda>g. extractVisualName (relativePath g) = vn \<and>
                            truthy (parsedData validate g ''visualContainer'')) (rev vfiles) of
               Some g \<Rightarrow> cli_processedVisual validate files g
             | None \<Rightarrow> map_of vmap vn))"
  using assms
proof (induction vfiles arbitrary: vmap st)
  case Nil
  then show ?case by simp
next
  case (Cons g vfiles)
  show ?case
  proof (cases "truthy (parsedData validate g ''visualContainer'')")
    case False
    with Cons.prems have
      "cli_visualsLoop validate files pageName vfiles
         (vmap, parseLog validate g ''visualContainer'' st) = Some (vmap', st')"
      by (simp add: Let_def)
    from Cons.IH [OF this] False show ?thesis by (simp add: find_snoc_skip)
  next
    case True
    with Cons.prems obtain processed st2 where
      p: "cli_processedVisual validate files g = Some processed" and
      r: "cli_visualsLoop validate files pageName vfiles
            (map_set (extractVisualName (relativePath g)) processed vmap, st2) = Some (vmap', st')" and
      f: "pages st2 = pages st" "reportData st2 = reportData st"
         "count_list (parseWarnings st2) ''No main report.json found''
           = count_list (parseWarnings st) ''No main report.json found''"
      by (auto simp: Let_def split: option.splits)
    note ih = Cons.IH [OF r]
    have "map_of vmap' vn =
            (case find (\<lambda>g. extractVisualName (relativePath g) = vn \<and>
                            truthy (parsedData validate g ''visualContainer'')) (rev (g # vfiles)) of
               Some g \<Rightarrow> cli_processedVisual validate files g
             | None \<Rightarrow> map_of vmap vn)" for vn
      using ih [THEN conjunct2, THEN conjunct2, THEN conjunct2, THEN conjunct2, THEN spec, of vn]
        p True
      unfolding find_rev_Cons
      by (simp add: map_of_map_set split: option.splits)
    with ih f show ?thesis by (simp add: distinct_map_set)
  qed
qed

lemma cli_lastVisualFile_filter:
  "find (\<lambda>g. extractVisualName (relativePath g) = vn \<and>
              truthy (parsedData validate g ''visualContainer''))
     (rev (filter (\<lambda>f. is_visual_path n (relativePath f)) files))
   = cli_lastVisualFile validate files n vn"
  by (simp add: cli_lastVisualFile_def rev_filter find_filter)

lemma cli_parsePageVisuals_char:
  assumes "cli_parsePageVisuals validate files n st = Some (vs, st')"
  shows "pages st' = pages st \<and> reportData st' = reportData st \<and>
         count_list (parseWarnings st') ''No main report.json found''
           = count_list (parseWarnings st) ''No main report.json found'' \<and>
         distinct (map fst vs) \<and>
         (\<forall>vn. map_of vs vn =
            Option.bind (cli_lastVisualFile validate files n vn) (cli_processedVisual validate files))"
  using cli_visualsLoop_char [OF assms [unfolded cli_parsePageVisuals_def]]
  unfolding cli_lastVisualFile_filter
  by (auto split: option.splits)

lemma cli_parsePageVisuals_returns:
  "cli_parsePageVisuals validate files n st \<noteq> None \<longleftrightarrow>
     (\<forall>g\<in>set files. is_visual_path n (relativePath g) \<and>
        truthy (parsedData validate g ''visualContainer'') \<longrightarrow>
        cli_processedVisual validate files g \<noteq> None)"
  unfolding cli_parsePageVisuals_def cli_visualsLoop_returns by auto

text \<open>The page loop likewise.\<close>

lemma cli_pagesLoop_returns:
  "cli_pagesLoop validate files pfiles st \<noteq> None \<longleftrightarrow>
     (\<forall>f\<in>set pfiles. truthy (parsedData validate f ''page'') \<longrightarrow>
        (\<forall>g\<in>set files. is_visual_path (extractPageName (relativePath f)) (relativePath g) \<and>
           truthy (parsedData validate g ''visualContainer'') \<longrightarrow>
           cli_processedVisual validate files g \<noteq> None))"
proof (induction pfiles arbitrary: st)
  case Nil
  show ?case by simp
next
  case (Cons f pfiles)
  show ?case
  proof (cases "truthy (parsedData validate f ''page'')")
    case False
    with Cons show ?thesis by (simp add: Let_def)
  next
    case True
    show ?thesis
    proof (cases "cli_parsePageVisuals validate files (extractPageName (relativePath f))
                    (parseLog validate f ''page'' st)")
      case None
      with cli_parsePageVisuals_returns [of validate files "extractPageName (relativePath f)"
          "parseLog validate f ''page'' st"] True
      show ?thesis by (auto simp: Let_def)
    next
      case (Some res)
      with cli_parsePageVisuals_returns [of validate files "extractPageName (relativePath f)"
          "parseLog validate f ''page'' st"]
      have "\<forall>g\<in>set files. is_visual_path (extractPageName (relativePath f)) (relativePath g) \<and>
              truthy (parsedData validate g ''visualContainer'') \<longrightarrow>
              cli_processedVisual validate files g \<noteq> None"
        by simp
      with Some True Cons show ?thesis by (cases res) (simp add: Let_def)
    qed
  qed
qed

lemma cli_pagesLoop_char:
  assumes "cli_pagesLoop validate files pfiles st = Some st'"
  shows "reportData st' = reportData st \<and>
         count_list (parseWarnings st') ''No main report.json found''
           = count_list (parseWarnings st) ''No main report.json found'' \<and>
         (distinct (map fst (pages st)) \<longrightarrow> distinct (map fst (pages st'))) \<and>
         (\<forall>n. case find (\<lambda>f. extractPageName (relativePath f) = n \<and>
                            truthy (parsedData validate f ''page'')) (rev pfiles) of
                 None \<Rightarrow> map_of (pages st') n = map_of (pages st) n
               | Some f \<Rightarrow>
                   (\<exists>vs. map_of (pages st') n =
                           Some (Obj (map_set ''visuals'' (Obj vs)
                                   (map_set ''name'' (Str n)
                                      (js_spread (parsedData validate f ''page''))))) \<and>
                         distinct (map fst vs) \<and>
                         (\<forall>vn. map_of vs vn =
                            Option.bind (cli_lastVisualFile validate files n vn)
                              (cli_processedVisual validate files))))"
  using assms
proof (induction pfiles arbitrary: st)
  case Nil
  then show ?case by simp
next
  case (Cons f pfiles)
  show ?case
  proof (cases "truthy (parsedData validate f ''page'')")
    case False
    with Cons.prems have
      "cli_pagesLoop validate files pfiles (parseLog validate f ''page'' st) = Some st'"
      by (simp add: Let_def)
    note ih = Cons.IH [OF this]
    have "case find (\<lambda>f. extractPageName (relativePath f) = n \<and>
                            truthy (parsedData validate f ''page'')) (rev (f # pfiles)) of
                 None \<Rightarrow> map_of (pages st') n = map_of (pages st) n
               | Some f \<Rightarrow>
                   (\<exists>vs. map_of (pages st') n =
                           Some (Obj (map_set ''visuals'' (Obj vs)
                                   (map_set ''name'' (Str n)
                                      (js_spread (parsedData validate f ''page''))))) \<and>
                         distinct (map fst vs) \<and>
                         (\<forall>vn. map_of vs vn =
                            Option.bind (cli_lastVisualFile validate files n vn)
                              (cli_processedVisual validate files)))" for n
      using ih [THEN conjunct2, THEN conjunct2, THEN conjunct2, THEN spec, of n] False
      by (cases "find (\<lambda>f. extractPageName (relativePath f) = n \<and>
                            truthy (parsedData validate f ''page'')) (rev pfiles)")
        (simp_all add: find_snoc_skip)
    with ih show ?thesis by simp
  next
    case True
    define m where "m = extractPageName (relativePath f)"
    from True Cons.prems obtain vs st2 where
      v: "cli_parsePageVisuals validate files m (parseLog validate f ''page'' st) = Some (vs, st2)"
      and r: "cli_pagesLoop validate files pfiles
            (st2\<lparr>pages := map_set m
                   (Obj (map_set ''visuals'' (Obj vs)
                      (map_set ''name'' (Str m) (js_spread (parsedData validate f ''page'')))))
                   (pages st2)\<rparr>) = Some st'"
      by (auto simp: Let_def m_def split: option.splits)
    note pv = cli_parsePageVisuals_char [OF v]
    note ih = Cons.IH [OF r]
    have "case find (\<lambda>f. extractPageName (relativePath f) = n \<and>
                            truthy (parsedData validate f ''page'')) (rev (f # pfiles)) of
                 None \<Rightarrow> map_of (pages st') n = map_of (pages st) n
               | Some f \<Rightarrow>
                   (\<exists>vs. map_of (pages st') n =
                           Some (Obj (map_set ''visuals'' (Obj vs)
                                   (map_set ''name'' (Str n)
                                      (js_spread (parsedData validate f ''page''))))) \<and>
                         distinct (map fst vs) \<and>
                         (\<forall>vn. map_of vs vn =
                            Option.bind (cli_lastVisualFile validate files n vn)
                              (cli_processedVisual validate files)))" for n
    proof (cases "find (\<lambda>f. extractPageName (relativePath f) = n \<and>
                            truthy (parsedData validate f ''page'')) (rev pfiles)")
      case (Some y)
      with ih [THEN conjunct2, THEN conjunct2, THEN conjunct2, THEN spec, of n]
      show ?thesis unfolding find_rev_Cons by simp
    next
      case None
      with ih [THEN conjunct2, THEN conjunct2, THEN conjunct2, THEN spec, of n]
      have k: "map_of (pages st') n =
          map_of (map_set m
                   (Obj (map_set ''visuals'' (Obj vs)
                      (map_set ''name'' (Str m) (js_spread (parsedData validate f ''page'')))))
                   (pages st2)) n"
        by simp
      show ?thesis
      proof (cases "extractPageName (relativePath f) = n")
        case same: True
        with None k pv True show ?thesis unfolding find_rev_Cons
          by (auto simp: map_of_map_set m_def)
      next
        case False
        with None k pv show ?thesis unfolding find_rev_Cons
          by (simp add: map_of_map_set m_def)
      qed
    qed
    with ih pv show ?thesis by (simp add: distinct_map_set)
  qed
qed

lemma cli_lastPageFile_filter:
  "find (\<lambda>f. extractPageName (relativePath f) = n \<and> truthy (parsedData validate f ''page''))
     (rev (filter (\<lambda>f. is_page_path (relativePath f)) files))
   = cli_lastPageFile validate files n"
  by (simp add: cli_lastPageFile_def rev_filter find_filter)

lemma cli_bookmarkStep_frame:
  "reportData (cli_bookmarkStep validate st f) = reportData st \<and>
   pages (cli_bookmarkStep validate st f) = pages st \<and>
   count_list (parseWarnings (cli_bookmarkStep validate st f)) ''No main report.json found''
     = count_list (parseWarnings st) ''No main report.json found''"
  by (simp add: cli_bookmarkStep_def Let_def)

lemma cli_bookmarks_fold_frame:
  "reportData (foldl (cli_bookmarkStep validate) st fs) = reportData st \<and>
   pages (foldl (cli_bookmarkStep validate) st fs) = pages st \<and>
   count_list (parseWarnings (foldl (cli_bookmarkStep validate) st fs)) ''No main report.json found''
     = count_list (parseWarnings st) ''No main report.json found''"
  by (induction fs arbitrary: st) (simp_all add: cli_bookmarkStep_frame)

lemma cli_parseBookmarks_frame:
  "reportData (cli_parseBookmarks validate files st) = reportData st \<and>
   pages (cli_parseBookmarks validate files st) = pages st \<and>
   count_list (parseWarnings (cli_parseBookmarks validate files st)) ''No main report.json found''
     = count_list (parseWarnings st) ''No main report.json found''"
  by (simp add: cli_parseBookmarks_def cli_bookmarks_fold_frame split: option.splits)

lemma cli_mergeDocument_no_report:
  assumes "reportData st = Null"
  shows "reportData (cli_mergeDocument validate path schemaName key files st) = Null \<and>
         pages (cli_mergeDocument validate path schemaName key files st) = pages st \<and>
         count_list (parseWarnings (cli_mergeDocument validate path schemaName key files st))
            ''No main report.json found''
           = count_list (parseWarnings st) ''No main report.json found''"
  using assms by (simp add: cli_mergeDocument_def Let_def split: option.splits)

lemma cli_parseReportStructure_no_root:
  assumes "findFile files ''definition/report.json'' = None"
  shows "reportData (cli_parseReportStructure validate files cli_initial) = Null \<and>
         pages (cli_parseReportStructure validate files cli_initial) = [] \<and>
         count_list (parseWarnings (cli_parseReportStructure validate files cli_initial))
            ''No main report.json found'' = 1"
proof -
  have r: "reportData (cli_parseReport validate files cli_initial) = Null"
    "pages (cli_parseReport validate files cli_initial) = []"
    "count_list (parseWarnings (cli_parseReport validate files cli_initial))
       ''No main report.json found'' = 1"
    using assms by (simp_all add: cli_parseReport_def cli_initial_def)
  note v = cli_mergeDocument_no_report [OF r(1), of validate "''definition/version.json''"
      "''versionMetadata''" "''version''" files]
  note e = cli_mergeDocument_no_report [OF v [THEN conjunct1],
      of validate "''definition/reportExtensions.json''" "''reportExtension''" "''extensions''" files]
  from r v e show ?thesis by (simp add: cli_parseReportStructure_def)
qed

text \<open>
  C7 as stated fails in both of its first two points. Processing a visual document can
  throw, and then \<^verbatim>\<open>parseDirectory\<close> does not complete: the first set of files
  below has no report.json, a page and a visual whose \<^verbatim>\<open>filterConfig.filters\<close> is
  an object, on which \<^verbatim>\<open>forEach\<close> is not a function. And a visual document enters
  \<^verbatim>\<open>pages\<close> only through a page document that parsed: in the second set of files
  page.json does not parse, and the visual document that is present appears nowhere in
  \<^verbatim>\<open>pages\<close>.
\<close>

theorem missing_root_throwing_visual_counterexample:
  "findFile
     [\<lparr>relativePath = ''definition/pages/P1/page.json'',
       content = Inr (Obj [(''displayName'', Str ''Overview'')])\<rparr>,
      \<lparr>relativePath = ''definition/pages/P1/visuals/v1/visual.json'',
       content = Inr (Obj [(''name'', Str ''v1''),
                           (''filterConfig'', Obj [(''filters'', Obj [])])])\<rparr>]
     ''definition/report.json'' = None \<and>
   cli_parseDirectory (\<lambda>d s. Inr (True, []))
     [\<lparr>relativePath = ''definition/pages/P1/page.json'',
       content = Inr (Obj [(''displayName'', Str ''Overview'')])\<rparr>,
      \<lparr>relativePath = ''definition/pages/P1/visuals/v1/visual.json'',
       content = Inr (Obj [(''name'', Str ''v1''),
                           (''filterConfig'', Obj [(''filters'', Obj [])])])\<rparr>] = None \<and>
   map_option pages (cli_parseDirectory (\<lambda>d s. Inr (True, []))
     [\<lparr>relativePath = ''definition/pages/P1/page.json'',
       content = Inl ''Unexpected end of JSON input''\<rparr>,
      \<lparr>relativePath = ''definition/pages/P1/visuals/v1/visual.json'',
       content = Inr (Obj [(''name'', Str ''v1'')])\<rparr>]) = Some []"
  by code_simp

text \<open>
  C7, amended. When no collected file is \<^verbatim>\<open>definition/report.json\<close>,
  \<^verbatim>\<open>parseDirectory\<close> completes exactly when \<^verbatim>\<open>processVisualData\<close> throws for
  no visual file that parsed to a truthy value and belongs to a page whose page file
  parsed to a truthy value. When it completes, the report of the result is
  \<^verbatim>\<open>null\<close>; the warning \<^verbatim>\<open>No main report.json found\<close> is recorded exactly
  once; and \<^verbatim>\<open>pages\<close> holds exactly one entry per identifier of a page file that
  parsed, built from the last such page file: its fields, its \<^verbatim>\<open>name\<close>, and
  \<^verbatim>\<open>visuals\<close> holding exactly one entry per identifier of a visual file of that
  page that parsed, the processed record of the last such visual file. (A file that
  does not parse is recorded in \<^verbatim>\<open>errors\<close> instead, and contributes nothing.)
\<close>

theorem missing_root_still_parses:
  assumes "findFile files ''definition/report.json'' = None"
  shows "(cli_parseDirectory validate files \<noteq> None \<longleftrightarrow>
            (\<forall>f\<in>set files. \<forall>g\<in>set files.
               is_page_path (relativePath f) \<and> truthy (parsedData validate f ''page'') \<and>
               is_visual_path (extractPageName (relativePath f)) (relativePath g) \<and>
               truthy (parsedData validate g ''visualContainer'') \<longrightarrow>
               cli_processedVisual validate files g \<noteq> None)) \<and>
         (\<forall>r. cli_parseDirectory validate files = Some r \<longrightarrow>
            reportData r = Null \<and>
            count_list (parseWarnings r) ''No main report.json found'' = 1 \<and>
            distinct (map fst (pages r)) \<and>
            (\<forall>n. case cli_lastPageFile validate files n of
                    None \<Rightarrow> map_of (pages r) n = None
                  | Some f \<Rightarrow>
                      (\<exists>vs. map_of (pages r) n =
                              Some (Obj (map_set ''visuals'' (Obj vs)
                                      (map_set ''name'' (Str n)
                                         (js_spread (parsedData validate f ''page''))))) \<and>
                            distinct (map fst vs) \<and>
                            (\<forall>vn. map_of vs vn =
                               Option.bind (cli_lastVisualFile validate files n vn)
                                 (cli_processedVisual validate files)))))"
proof (intro conjI allI impI)
  define st0 where "st0 = cli_parseReportStructure validate files cli_initial"
  define st1 where "st1 = (case findFile files ''definition/pages/pages.json'' of
          Some pagesFile \<Rightarrow> parseLog validate pagesFile ''pagesMetadata'' st0
        | None \<Rightarrow> st0)"
  note s0 = cli_parseReportStructure_no_root [OF assms(1), of validate, folded st0_def]
  have s1: "reportData st1 = Null" "pages st1 = []"
    "count_list (parseWarnings st1) ''No main report.json found'' = 1"
    using s0 by (simp_all add: st1_def split: option.splits)
  have d: "cli_parseDirectory validate files =
      map_option (cli_parseBookmarks validate files)
        (cli_pagesLoop validate files (filter (\<lambda>f. is_page_path (relativePath f)) files) st1)"
    unfolding cli_parseDirectory_def cli_parsePages_def st1_def st0_def by simp
  show "cli_parseDirectory validate files \<noteq> None \<longleftrightarrow>
            (\<forall>f\<in>set files. \<forall>g\<in>set files.
               is_page_path (relativePath f) \<and> truthy (parsedData validate f ''page'') \<and>
               is_visual_path (extractPageName (relativePath f)) (relativePath g) \<and>
               truthy (parsedData validate g ''visualContainer'') \<longrightarrow>
               cli_processedVisual validate files g \<noteq> None)"
    using cli_pagesLoop_returns [of validate files
        "filter (\<lambda>f. is_page_path (relativePath f)) files" st1]
    unfolding d by auto
  fix r
  assume "cli_parseDirectory validate files = Some r"
  then have "map_option (cli_parseBookmarks validate files)
        (cli_pagesLoop validate files (filter (\<lambda>f. is_page_path (relativePath f)) files) st1)
      = Some r"
    unfolding d .
  then obtain st2 where
    l: "cli_pagesLoop validate files (filter (\<lambda>f. is_page_path (relativePath f)) files) st1
          = Some st2" and
    r: "r = cli_parseBookmarks validate files st2"
    by auto
  note c = cli_pagesLoop_char [OF l, unfolded cli_lastPageFile_filter]
  note b = cli_parseBookmarks_frame [of validate files st2]
  from c b s1 r show "reportData r = Null" by simp
  from c b s1 r show "count_list (parseWarnings r) ''No main report.json found'' = 1" by simp
  from c b s1 r show "distinct (map fst (pages r))" by simp
  have pr: "pages r = pages st2" using b r by simp
  fix n
  from c have "case cli_lastPageFile validate files n of
                 None \<Rightarrow> map_of (pages st2) n = map_of (pages st1) n
               | Some f \<Rightarrow>
                   (\<exists>vs. map_of (pages st2) n =
                           Some (Obj (map_set ''visuals'' (Obj vs)
                                   (map_set ''name'' (Str n)
                                      (js_spread (parsedData validate f ''page''))))) \<and>
                         distinct (map fst vs) \<and>
                         (\<forall>vn. map_of vs vn =
                            Option.bind (cli_lastVisualFile validate files n vn)
                              (cli_processedVisual validate files)))"
    by blast
  then show "case cli_lastPageFile validate files n of
                    None \<Rightarrow> map_of (pages r) n = None
                  | Some f \<Rightarrow>
                      (\<exists>vs. map_of (pages r) n =
                              Some (Obj (map_set ''visuals'' (Obj vs)
                                      (map_set ''name'' (Str n)
                                         (js_spread (parsedData validate f ''page''))))) \<and>
                            distinct (map fst vs) \<and>
                            (\<forall>vn. map_of vs vn =
                               Option.bind (cli_lastVisualFile validate files n vn)
                                 (cli_processedVisual validate files)))"
    by (cases "cli_lastPageFile validate files n") (simp_all add: pr s1)
qed

text \<open>A directory without report.json, with one page and one visual, parsed.\<close>

lemma rootless_files_facts:
  "findFile rootless_files ''definition/report.json'' = None"
  "cli_lastPageFile (\<lambda>d s. Inr (True, [])) rootless_files ''P1'' = Some (rootless_files ! 0)"
  "cli_lastPageFile (\<lambda>d s. Inr (True, [])) rootless_files ''P2'' = None"
  "cli_lastVisualFile (\<lambda>d s. Inr (True, [])) rootless_files ''P1'' ''v1''
     = Some (rootless_files ! 1)"
  "parsedData (\<lambda>d s. Inr (True, [])) (rootless_files ! 0) ''page''
     = Obj [(''displayName'', Str ''Overview'')]"
  "cli_processedVisual (\<lambda>d s. Inr (True, [])) rootless_files (rootless_files ! 1) =
     Some (Obj [(''name'', Str ''v1''), (''position'', Obj [(''x'', Num 3)]),
                (''visual'', Obj [(''visualType'', Str ''card'')]),
                (''mobile'', Null),
                (''properties'', Obj [(''type'', Str ''card''), (''name'', Str ''v1'')]),
                (''fields'', Obj [(''dataRoles'', Obj []), (''measures'', Arr []),
                                  (''dimensions'', Arr [])]),
                (''filters'', Arr []),
                (''layout'', Obj [(''x'', Num 3), (''y'', Num 0), (''width'', Num 0),
                                  (''height'', Num 0), (''z'', Num 0), (''tabOrder'', Num 0)]),
                (''formatting'', Obj [(''background'', Null), (''border'', Null), (''font'', Null),
                                      (''colors'', Arr [])])])"
  "list_all (\<lambda>f. list_all (\<lambda>g.
       is_page_path (relativePath f) \<and> truthy (parsedData (\<lambda>d s. Inr (True, [])) f ''page'') \<and>
       is_visual_path (extractPageName (relativePath f)) (relativePath g) \<and>
       truthy (parsedData (\<lambda>d s. Inr (True, [])) g ''visualContainer'') \<longrightarrow>
       cli_processedVisual (\<lambda>d s. Inr (True, [])) rootless_files g \<noteq> None) rootless_files)
     rootless_files"
  unfolding rootless_files_def by code_simp+

theorem missing_root_still_parses_witness:
  "\<exists>r vs. cli_parseDirectory (\<lambda>d s. Inr (True, [])) rootless_files = Some r \<and>
       reportData r = Null \<and>
       count_list (parseWarnings r) ''No main report.json found'' = 1 \<and>
       map_of (pages r) ''P1'' =
         Some (Obj [(''displayName'', Str ''Overview''), (''name'', Str ''P1''),
                    (''visuals'', Obj vs)]) \<and>
       map_of vs ''v1'' =
         Some (Obj [(''name'', Str ''v1''), (''position'', Obj [(''x'', Num 3)]),
                (''visual'', Obj [(''visualType'', Str ''card'')]),
                (''mobile'', Null),
                (''properties'', Obj [(''type'', Str ''card''), (''name'', Str ''v1'')]),
                (''fields'', Obj [(''dataRoles'', Obj []), (''measures'', Arr []),
                                  (''dimensions'', Arr [])]),
                (''filters'', Arr []),
                (''layout'', Obj [(''x'', Num 3), (''y'', Num 0), (''width'', Num 0),
                                  (''height'', Num 0), (''z'', Num 0), (''tabOrder'', Num 0)]),
                (''formatting'', Obj [(''background'', Null), (''border'', Null), (''font'', Null),
                                      (''colors'', Arr [])])]) \<and>
       map_of (pages r) ''P2'' = None"
proof -
  note t = missing_root_still_parses [OF rootless_files_facts(1), of "\<lambda>d s. Inr (True, [])"]
  from t [THEN conjunct1] rootless_files_facts(7)
  have "cli_parseDirectory (\<lambda>d s. Inr (True, [])) rootless_files \<noteq> None"
    unfolding list_all_iff by blast
  then obtain r where
    r: "cli_parseDirectory (\<lambda>d s. Inr (True, [])) rootless_files = Some r" by blast
  note u = t [THEN conjunct2, rule_format, OF r]
  from u have a: "reportData r = Null"
    "count_list (parseWarnings r) ''No main report.json found'' = 1" by simp_all
  from u have "case cli_lastPageFile (\<lambda>d s. Inr (True, [])) rootless_files ''P1'' of
                    None \<Rightarrow> map_of (pages r) ''P1'' = None
                  | Some f \<Rightarrow>
                      (\<exists>vs. map_of (pages r) ''P1'' =
                              Some (Obj (map_set ''visuals'' (Obj vs)
                                      (map_set ''name'' (Str ''P1'')
                                         (js_spread (parsedData (\<lambda>d s. Inr (True, [])) f ''page''))))) \<and>
                            distinct (map fst vs) \<and>
                            (\<forall>vn. map_of vs vn =
                               Option.bind
                                 (cli_lastVisualFile (\<lambda>d s. Inr (True, [])) rootless_files ''P1'' vn)
                                 (cli_processedVisual (\<lambda>d s. Inr (True, [])) rootless_files)))"
    by blast
  then obtain vs where
    v: "map_of (pages r) ''P1'' =
          Some (Obj [(''displayName'', Str ''Overview''), (''name'', Str ''P1''), (''visuals'', Obj vs)])"
       "\<forall>vn. map_of vs vn =
            Option.bind (cli_lastVisualFile (\<lambda>d s. Inr (True, [])) rootless_files ''P1'' vn)
              (cli_processedVisual (\<lambda>d s. Inr (True, [])) rootless_files)"
    by (auto simp: rootless_files_facts)
  from v(2) have w: "map_of vs ''v1'' =
      cli_processedVisual (\<lambda>d s. Inr (True, [])) rootless_files (rootless_files ! 1)"
    by (simp add: rootless_files_facts)
  from u have "case cli_lastPageFile (\<lambda>d s. Inr (True, [])) rootless_files ''P2'' of
                    None \<Rightarrow> map_of (pages r) ''P2'' = None
                  | Some f \<Rightarrow>
                      (\<exists>vs. map_of (pages r) ''P2'' =
                              Some (Obj (map_set ''visuals'' (Obj vs)
                                      (map_set ''name'' (Str ''P2'')
                                         (js_spread (parsedData (\<lambda>d s. Inr (True, [])) f ''page''))))) \<and>
                            distinct (map fst vs) \<and>
                            (\<forall>vn. map_of vs vn =
                               Option.bind
                                 (cli_lastVisualFile (\<lambda>d s. Inr (True, [])) rootless_files ''P2'' vn)
                                 (cli_processedVisual (\<lambda>d s. Inr (True, [])) rootless_files)))"
    by blast
  with rootless_files_facts(3) have "map_of (pages r) ''P2'' = None" by simp
  with r a v(1) w rootless_files_facts(6) show ?thesis by auto
qed

section \<open>Sorted visuals of a page\<close>

text \<open>Comparison by code units is a consistent comparator.\<close>

lemma compare_code_units_flip: "compare_code_units b a = - compare_code_units a b"
  by (induction a b rule: compare_code_units.induct) auto

lemma compare_code_units_total: "compare_code_units a b \<le> 0 \<or> compare_code_units b a \<le> 0"
  using compare_code_units_flip [of b a] by linarith

text \<open>Sorting by insertion permutes the list and, for a consistent comparator, sorts it.\<close>

lemma set_insert_sorted: "set (insert_sorted cmp x xs) = insert x (set xs)"
  by (induction xs) auto

lemma mset_insert_sorted: "mset (insert_sorted cmp x xs) = add_mset x (mset xs)"
  by (induction xs) auto

lemma mset_js_sort: "mset (js_sort cmp xs) = mset xs"
  unfolding js_sort_def by (induction xs) (simp_all add: mset_insert_sorted)

lemma sorted_insert_sorted:
  assumes total: "\<forall>a b. cmp a b \<le> 0 \<or> cmp b a \<le> 0"
    and trans: "\<forall>a b c. cmp a b \<le> 0 \<and> cmp b c \<le> 0 \<longrightarrow> cmp a c \<le> 0"
    and "sorted_wrt (\<lambda>a b. cmp a b \<le> 0) xs"
  shows "sorted_wrt (\<lambda>a b. cmp a b \<le> 0) (insert_sorted cmp x xs)"
  using assms(3)
proof (induction xs)
  case Nil
  show ?case by simp
next
  case (Cons y ys)
  show ?case
  proof (cases "cmp x y \<le> 0")
    case True
    have "\<forall>z\<in>set ys. cmp x z \<le> 0"
    proof
      fix z assume "z \<in> set ys"
      with Cons.prems have "cmp y z \<le> 0" by simp
      with True trans show "cmp x z \<le> 0" by blast
    qed
    with True Cons.prems show ?thesis by simp
  next
    case False
    with total have yx: "cmp y x \<le> 0" by blast
    from Cons have "sorted_wrt (\<lambda>a b. cmp a b \<le> 0) (insert_sorted cmp x ys)" by simp
    with False yx Cons.prems show ?thesis by (simp add: set_insert_sorted)
  qed
qed

lemma sorted_js_sort:
  assumes "\<forall>a b. cmp a b \<le> 0 \<or> cmp b a \<le> 0"
    and "\<forall>a b c. cmp a b \<le> 0 \<and> cmp b c \<le> 0 \<longrightarrow> cmp a c \<le> 0"
  shows "sorted_wrt (\<lambda>a b. cmp a b \<le> 0) (js_sort cmp xs)"
  unfolding js_sort_def
  by (induction xs) (simp_all add: sorted_insert_sorted [OF assms])

lemma compare_code_units_trans:
  "compare_code_units a b \<le> 0 \<Longrightarrow> compare_code_units b c \<le> 0 \<Longrightarrow> compare_code_units a c \<le> 0"
proof (induction a b arbitrary: c rule: compare_code_units.induct)
  case 1
  then show ?case by simp
next
  case (2 y ys)
  then show ?case by (cases c) simp_all
next
  case (3 x xs)
  then show ?case by simp
next
  case (4 x xs y ys)
  show ?case
  proof (cases c)
    case Nil
    with 4 show ?thesis by simp
  next
    case (Cons z zs)
    show ?thesis
    proof (cases "(of_char x :: nat) < of_char y")
      case True
      with 4(3) Cons have "(of_char y :: nat) \<le> of_char z" by (simp split: if_splits)
      with True have "(of_char x :: nat) < of_char z" by simp
      with Cons show ?thesis by simp
    next
      case False
      with 4(2) have xy: "(of_char x :: nat) = of_char y" "compare_code_units xs ys \<le> 0"
        by (simp_all split: if_splits)
      show ?thesis
      proof (cases "(of_char y :: nat) < of_char z")
        case True
        with xy Cons show ?thesis by simp
      next
        case nlt: False
        with 4(3) Cons have yz: "(of_char y :: nat) = of_char z" "compare_code_units ys zs \<le> 0"
          by (simp_all split: if_splits)
        from 4(1) [OF _ _ xy(2) yz(2)] xy(1) have "compare_code_units xs zs \<le> 0" by simp
        with xy yz Cons show ?thesis by simp
      qed
    qed
  qed
qed

text \<open>The loop returns the infos of the files that parsed, in enumeration order, unless
  an extractor throws.\<close>

lemma gen_visualsLoop_char:
  "gen_visualsLoop gp gf gfl fs acc = Some r \<longleftrightarrow>
     (\<forall>f\<in>set fs. truthy (gen_parseJsonFile f) \<longrightarrow>
        extractVisualInfo gp gf gfl (extractVisualName (relativePath f)) (gen_parseJsonFile f) \<noteq> None) \<and>
     r = acc @ map (\<lambda>f. the (extractVisualInfo gp gf gfl (extractVisualName (relativePath f))
                              (gen_parseJsonFile f)))
               (filter (\<lambda>f. truthy (gen_parseJsonFile f)) fs)"
proof (induction fs arbitrary: acc)
  case Nil
  show ?case by auto
next
  case (Cons f fs)
  show ?case
  proof (cases "truthy (gen_parseJsonFile f)")
    case False
    with Cons show ?thesis by (simp add: Let_def)
  next
    case True
    show ?thesis
    proof (cases "extractVisualInfo gp gf gfl (extractVisualName (relativePath f)) (gen_parseJsonFile f)")
      case None
      with True show ?thesis by (simp add: Let_def)
    next
      case (Some info)
      with True Cons [of "acc @ [info]"] show ?thesis by (simp add: Let_def)
    qed
  qed
qed

text \<open>
  C10. For a host comparator \<^verbatim>\<open>localeCompare\<close> that is consistent (total and
  transitive), the list of visuals that \<^verbatim>\<open>parsePageVisuals\<close> returns for a page is
  sorted in ascending order of the resolved display names under \<^verbatim>\<open>localeCompare\<close>.
  This does not depend on the order in which the files were enumerated: for every
  rearrangement of the files the call returns as well, with the same visuals, sorted.
\<close>

theorem page_visuals_sorted:
  assumes "\<forall>a b. localeCompare a b \<le> 0 \<or> localeCompare b a \<le> 0"
    and "\<forall>a b c. localeCompare a b \<le> 0 \<and> localeCompare b c \<le> 0 \<longrightarrow> localeCompare a c \<le> 0"
    and "gen_parsePageVisuals localeCompare getVisualPosition getVisualFields getVisualFilters
           files pageName = Some vs"
  shows "sorted_wrt (\<lambda>a b. localeCompare (info_name a) (info_name b) \<le> 0) vs \<and>
         (\<forall>files'. mset files' = mset files \<longrightarrow>
            (\<exists>vs'. gen_parsePageVisuals localeCompare getVisualPosition getVisualFields
                     getVisualFilters files' pageName = Some vs' \<and>
                   mset vs' = mset vs \<and>
                   sorted_wrt (\<lambda>a b. localeCompare (info_name a) (info_name b) \<le> 0) vs'))"
proof -
  define cmp :: "visual_info \<Rightarrow> visual_info \<Rightarrow> int"
    where "cmp = (\<lambda>a b. localeCompare (info_name a) (info_name b))"
  have total: "\<forall>a b. cmp a b \<le> 0 \<or> cmp b a \<le> 0" using assms(1) by (simp add: cmp_def)
  have trans: "\<forall>a b c. cmp a b \<le> 0 \<and> cmp b c \<le> 0 \<longrightarrow> cmp a c \<le> 0"
    using assms(2) unfolding cmp_def by blast
  note srt = sorted_js_sort [OF total trans]
  define g where "g = (\<lambda>f. the (extractVisualInfo getVisualPosition getVisualFields getVisualFilters
                              (extractVisualName (relativePath f)) (gen_parseJsonFile f)))"
  define sel where "sel = (\<lambda>fs. filter (\<lambda>f. truthy (gen_parseJsonFile f))
                        (filter (\<lambda>f. is_visual_path pageName (relativePath f)) fs))"
  from assms(3) obtain l where
    l: "gen_visualsLoop getVisualPosition getVisualFields getVisualFilters
          (filter (\<lambda>f. is_visual_path pageName (relativePath f)) files) [] = Some l"
    and vs: "vs = js_sort cmp l"
    by (auto simp: gen_parsePageVisuals_def cmp_def)
  from l [unfolded gen_visualsLoop_char] have
    ok: "\<forall>f\<in>set files. is_visual_path pageName (relativePath f) \<and> truthy (gen_parseJsonFile f) \<longrightarrow>
        extractVisualInfo getVisualPosition getVisualFields getVisualFilters
          (extractVisualName (relativePath f)) (gen_parseJsonFile f) \<noteq> None"
    and lv: "l = map g (sel files)"
    by (auto simp: g_def sel_def)
  have first: "sorted_wrt cmp' vs" if "cmp' = (\<lambda>a b. cmp a b \<le> 0)" for cmp'
    using srt [of l] vs that by simp
  have second: "\<exists>vs'. gen_parsePageVisuals localeCompare getVisualPosition getVisualFields
                     getVisualFilters files' pageName = Some vs' \<and>
                   mset vs' = mset vs \<and> sorted_wrt (\<lambda>a b. cmp a b \<le> 0) vs'"
    if p: "mset files' = mset files" for files'
  proof -
    from p have se: "set files' = set files" by (rule mset_eq_setD)
    have "gen_visualsLoop getVisualPosition getVisualFields getVisualFilters
          (filter (\<lambda>f. is_visual_path pageName (relativePath f)) files') [] = Some (map g (sel files'))"
      unfolding gen_visualsLoop_char using ok se by (auto simp: g_def sel_def)
    then have r: "gen_parsePageVisuals localeCompare getVisualPosition getVisualFields
                     getVisualFilters files' pageName = Some (js_sort cmp (map g (sel files')))"
      by (simp add: gen_parsePageVisuals_def cmp_def)
    from p have "mset (sel files') = mset (sel files)" by (simp add: sel_def)
    then have "mset (map g (sel files')) = mset (map g (sel files))" by (metis mset_map)
    with r lv vs srt [of "map g (sel files')"] show ?thesis by (simp add: mset_js_sort)
  qed
  from first second show ?thesis unfolding cmp_def by blast
qed

text \<open>Two titled visuals, enumerated in descending order of their names.\<close>

lemma titled_visual_name:
  assumes "js_trim t = t" and "t \<noteq> []"
  shows "getVisualDisplayName (titled_visual n t) = Some t"
  using assms
  by (simp add: titled_visual_def getVisualDisplayName_def containerTitle_def containerObjects_def
      configTitle_def directTitle_def literalTitle_def orelse_def returns_def falls_def
      js_opt_get_def nullish_def index_of_key_def digits.simps object_prototype_keys_def)

lemma titled_visual_type: "getVisualType (titled_visual n t) = Some (Str ''unknown'')"
  by (simp add: titled_visual_def getVisualType_def rawVisualType_def js_lookup_def typeMapping_def
      js_or_def object_prototype_keys_def sublist_code(3))

lemma titled_visual_info:
  assumes "js_trim t = t" and "t \<noteq> []"
  shows "extractVisualInfo (\<lambda>v. Some Null) (\<lambda>v. Some Null) (\<lambda>v. Some Null) i (titled_visual n t)
     = Some \<lparr>info_id = i, info_name = t, info_type = Str ''unknown'', info_position = Null,
             info_fields = Null, info_filters = Null, info_isHidden = Bool False\<rparr>"
  using titled_visual_name [OF assms] titled_visual_type
  by (simp add: extractVisualInfo_def) (simp add: titled_visual_def js_or_def object_prototype_keys_def)

lemma two_visuals_paths:
  "is_visual_path ''P1'' ''definition/pages/P1/visuals/v1/visual.json''"
  "is_visual_path ''P1'' ''definition/pages/P1/visuals/v2/visual.json''"
  "extractVisualName ''definition/pages/P1/visuals/v1/visual.json'' = ''v1''"
  "extractVisualName ''definition/pages/P1/visuals/v2/visual.json'' = ''v2''"
  "js_trim ''Zeta'' = ''Zeta''" "js_trim ''Alpha'' = ''Alpha''"
  "compare_code_units ''Zeta'' ''Alpha'' = 1"
  by code_simp+

lemma two_visuals_run:
  "gen_parsePageVisuals compare_code_units (\<lambda>v. Some Null) (\<lambda>v. Some Null) (\<lambda>v. Some Null)
        [\<lparr>relativePath = ''definition/pages/P1/visuals/v1/visual.json'',
          content = Inr (titled_visual ''v1'' ''Zeta'')\<rparr>,
         \<lparr>relativePath = ''definition/pages/P1/visuals/v2/visual.json'',
          content = Inr (titled_visual ''v2'' ''Alpha'')\<rparr>] ''P1''
   = Some [\<lparr>info_id = ''v2'', info_name = ''Alpha'', info_type = Str ''unknown'',
             info_position = Null, info_fields = Null, info_filters = Null,
             info_isHidden = Bool False\<rparr>,
           \<lparr>info_id = ''v1'', info_name = ''Zeta'', info_type = Str ''unknown'',
             info_position = Null, info_fields = Null, info_filters = Null,
             info_isHidden = Bool False\<rparr>]"
proof -
  have t: "truthy (titled_visual n t)" for n t by (simp add: titled_visual_def)
  show ?thesis
    by (simp add: gen_parsePageVisuals_def gen_parseJsonFile_def two_visuals_paths t
        titled_visual_info js_sort_def Let_def)
qed

theorem page_visuals_sorted_witness:
  "\<exists>vs. gen_parsePageVisuals compare_code_units (\<lambda>v. Some Null) (\<lambda>v. Some Null) (\<lambda>v. Some Null)
        [\<lparr>relativePath = ''definition/pages/P1/visuals/v1/visual.json'',
          content = Inr (titled_visual ''v1'' ''Zeta'')\<rparr>,
         \<lparr>relativePath = ''definition/pages/P1/visuals/v2/visual.json'',
          content = Inr (titled_visual ''v2'' ''Alpha'')\<rparr>] ''P1'' = Some vs \<and>
      map info_name vs = [''Alpha'', ''Zeta''] \<and>
      sorted_wrt (\<lambda>a b. compare_code_units (info_name a) (info_name b) \<le> 0) vs"
proof -
  have t: "\<forall>a b. compare_code_units a b \<le> 0 \<or> compare_code_units b a \<le> 0"
    using compare_code_units_total by blast
  have tr: "\<forall>a b c. compare_code_units a b \<le> 0 \<and> compare_code_units b c \<le> 0
      \<longrightarrow> compare_code_units a c \<le> 0"
    using compare_code_units_trans by blast
  from page_visuals_sorted [OF t tr two_visuals_run] two_visuals_run show ?thesis by simp
qed

end
